theory Spec2Isabelle
  imports Main
begin

section \<open>Editorial pipeline: status-driven research and draft stages\<close>

text \<open>
  The repository implements one pipeline several times: a Notion-backed command line tool
  (\<^verbatim>\<open>src/commands/research.js\<close> with \<^verbatim>\<open>src/shared/notion/client.js\<close>), a Git-backed
  one (\<^verbatim>\<open>src/commands/git\<close> with \<^verbatim>\<open>GitHubFileClient\<close>), a pair of GitHub Actions scripts
  (\<^verbatim>\<open>devin-github-actions\<close>) and a TypeScript action (\<^verbatim>\<open>copilot-github-actions\<close>).
  Each function below is the translation of the source function of the same name; the
  libraries they call (the Notion and GitHub clients, gray-matter, the providers' HTTP
  clients) are described by their effect on the stores or left to the environment.
\<close>

subsection \<open>Text helpers\<close>

text \<open>
  JavaScript's conversion of a non-negative integer to its decimal string, as performed by
  the template literal \<^verbatim>\<open>${index + 1}\<close>.
\<close>

definition digit :: "nat \<Rightarrow> char" where
  "digit d = ''0123456789'' ! d"

function toString :: "nat \<Rightarrow> string" where
  "toString n = (if n < 10 then [digit n] else toString (n div 10) @ [digit (n mod 10)])"
  by pat_completeness auto
termination
  by (relation "measure id") auto

declare toString.simps [simp del]

text \<open>
  The number that a string of decimal digits denotes, read from the left. It is the
  yardstick for \<open>toString\<close>: the rendering of a number has to denote that number.
\<close>

definition digit_value :: "char \<Rightarrow> nat" where
  "digit_value ch = of_char ch - of_char (CHR ''0'')"

definition decimal_value :: "string \<Rightarrow> nat" where
  "decimal_value digits = foldl (\<lambda>n ch. 10 * n + digit_value ch) 0 digits"

text \<open>
  \<^verbatim>\<open>citations.forEach((citation, index) => { enhancedContent += `${index + 1}. ${citation}\n`; })\<close>:
  the loop over the citations, with the running index and the accumulated text.
\<close>

fun forEach_citation :: "string list \<Rightarrow> nat \<Rightarrow> string \<Rightarrow> string" where
  "forEach_citation [] index enhancedContent = enhancedContent"
| "forEach_citation (citation # rest) index enhancedContent =
     forEach_citation rest (Suc index)
       (enhancedContent @ toString (index + 1) @ ''. '' @ citation @ ''\<newline>'')"

text \<open>
  Lines 62-70 of \<^verbatim>\<open>research.js\<close> and 163-170 of \<^verbatim>\<open>GitResearchCommand.js\<close>. The provider's
  \<^verbatim>\<open>citations\<close> may be \<^verbatim>\<open>undefined\<close> (\<open>None\<close>); \<^verbatim>\<open>citations?.length\<close> is then falsy, as it is
  for the empty array.
\<close>

definition enhanceContent :: "string \<Rightarrow> string list option \<Rightarrow> string" where
  "enhanceContent content citations =
     (case citations of
        None \<Rightarrow> content
      | Some cs \<Rightarrow>
          if length cs \<noteq> 0
          then forEach_citation cs 0 (content @ ''\<newline>\<newline>## Sources\<newline>'')
          else content)"

subsection \<open>The transition table of the TypeScript action\<close>

text \<open>The union type \<^verbatim>\<open>WorkflowStatus\<close> of \<^verbatim>\<open>copilot-github-actions/src/types/index.ts\<close>.\<close>

datatype WorkflowStatus =
    Ready_for_Research
  | Research_In_Progress
  | Ready_for_Draft
  | Draft_In_Progress
  | Ready_for_Review
  | Draft_Complete
  | Error
  | Published

text \<open>The table \<^verbatim>\<open>validTransitions\<close> of \<^verbatim>\<open>isValidStatusTransition\<close>, row by row.\<close>

fun validTransitions :: "WorkflowStatus \<Rightarrow> WorkflowStatus list" where
  "validTransitions Ready_for_Research = [Research_In_Progress, Error]"
| "validTransitions Research_In_Progress = [Ready_for_Draft, Error]"
| "validTransitions Ready_for_Draft = [Draft_In_Progress, Error]"
| "validTransitions Draft_In_Progress = [Ready_for_Review, Draft_Complete, Error]"
| "validTransitions Ready_for_Review = [Published, Error]"
| "validTransitions Draft_Complete = [Ready_for_Review, Error]"
| "validTransitions Error = [Ready_for_Research, Ready_for_Draft, Ready_for_Review]"
| "validTransitions Published = []"

definition isValidStatusTransition :: "WorkflowStatus \<Rightarrow> WorkflowStatus \<Rightarrow> bool" where
  "isValidStatusTransition from to = (to \<in> set (validTransitions from))"

text \<open>
  The state machine as the specification words it: the forward chain, \<open>Error\<close> from the
  two in-progress states, and recovery from \<open>Error\<close> to the two stage entry states.
\<close>

fun spec_transition :: "WorkflowStatus \<Rightarrow> WorkflowStatus \<Rightarrow> bool" where
  "spec_transition Ready_for_Research to = (to = Research_In_Progress)"
| "spec_transition Research_In_Progress to = (to = Ready_for_Draft \<or> to = Error)"
| "spec_transition Ready_for_Draft to = (to = Draft_In_Progress)"
| "spec_transition Draft_In_Progress to = (to = Ready_for_Review \<or> to = Error)"
| "spec_transition Error to = (to = Ready_for_Research \<or> to = Ready_for_Draft)"
| "spec_transition Ready_for_Review to = False"
| "spec_transition Draft_Complete to = False"
| "spec_transition Published to = False"

text \<open>The pairs that the table admits beyond the specification's state machine.\<close>

definition additional_transitions :: "(WorkflowStatus \<times> WorkflowStatus) list" where
  "additional_transitions =
     [(Ready_for_Research, Error), (Ready_for_Draft, Error),
      (Draft_In_Progress, Draft_Complete), (Draft_Complete, Ready_for_Review),
      (Draft_Complete, Error), (Ready_for_Review, Published), (Ready_for_Review, Error),
      (Error, Ready_for_Review)]"

subsection \<open>JavaScript errors, the world and asynchronous actions\<close>

text \<open>
  A thrown JavaScript error: its \<^verbatim>\<open>message\<close> and the three custom properties that the
  catch blocks of the GitHub Actions scripts read. \<^verbatim>\<open>new Error(msg)\<close> sets none of them.
\<close>

record js_error =
  err_message :: string
  err_topicId :: "nat option"
  err_draftId :: "nat option"
  err_blogPostId :: "nat option"

definition new_Error :: "string \<Rightarrow> js_error" where
  "new_Error msg =
     \<lparr>err_message = msg, err_topicId = None, err_draftId = None, err_blogPostId = None\<rparr>"

text \<open>
  Notion blocks, as far as the two functions \<^verbatim>\<open>removeAllLinks\<close> look into them: the type of
  the block, the \<^verbatim>\<open>rich_text\<close> array of the property named by the type (if it is an array)
  and the children. A rich text item has a \<^verbatim>\<open>text\<close> object, or none, and may have an
  \<^verbatim>\<open>href\<close>.
\<close>

record text_object =
  text_content :: string
  text_link :: "string option"

record rich_text_item =
  item_text :: "text_object option"
  item_href :: "string option"

datatype block =
  Block (block_type: string) (block_rich_text: "rich_text_item list option")
    (block_children: "block list")

text \<open>
  A Notion page with the properties the pipeline reads and writes. The page id is the
  position of the page in the store, so ids are unique and a created page gets a fresh one.
  \<open>prop_Title\<close> holds the \<^verbatim>\<open>plain_text\<close> of each rich-text item of the title.
\<close>

record page =
  page_parent :: string
  prop_Title :: "string list option"
  prop_Status :: string
  prop_Type :: "string option"
  prop_Blog_Posts :: "nat list option"
  prop_Error :: "string option"
  prop_Last_Modified_Date :: "string option"
  page_children :: "block list"

text \<open>
  A file of the Git repository. The store keeps each file in the form in which a first
  parse of its text by gray-matter reads it: the front matter dictionary and the body. A
  text is therefore written to the store as what it reads back as; \<open>matter_stringify\<close>
  below says what that is. Files whose front matter is not well-formed YAML are not
  represented.
\<close>

datatype yaml = Str string | Seq "string list"

record repo_file =
  file_data :: "string \<Rightarrow> yaml option"
  file_content :: string

datatype entry = File repo_file | Directory

text \<open>
  The world: both content stores, the number of external calls made so far, and the
  requests sent to the research and draft providers, each with the store contents at the
  moment of the call.
\<close>

record world =
  pages :: "page list"
  files :: "string \<Rightarrow> entry option"
  clock :: nat
  provider_calls :: "(string \<times> page list \<times> (string \<Rightarrow> entry option)) list"

text \<open>
  The outcome of the HTTP request to the research provider, as axios reports it: a
  response with its data, in which every choice is represented by the content of its
  message, or an error that carries a response (with the message of the API's error
  object, if any, and its own message), carries only the request, or neither.
\<close>

record perplexity_data =
  pd_choices :: "string list option"
  pd_usage :: "nat option"
  pd_model :: string
  pd_citations :: "string list option"

datatype axios_outcome =
    Response "perplexity_data option"
  | Error_with_response "string option" string
  | Error_without_response
  | Error_other string

record claude_response =
  cr_content :: "string list"
  cr_usage :: "nat option"
  cr_model :: string

text \<open>
  Everything outside the repository. \<open>faults\<close> says which external store or library
  call fails, by its number, and with which error; the providers answer depending on the
  call number and the prompt. The prompt templates, \<^verbatim>\<open>slugify\<close>, the markdown
  converters and the date are parameters.

  So are two parts of gray-matter. \<open>parse_front_matter\<close> is its parse, with js-yaml, of a
  text that opens with a front matter fence: the dictionary and the rest of the text, or
  the error thrown. The other part is its cache. \<^verbatim>\<open>matter(input)\<close> keeps the parsed file of
  every input in \<^verbatim>\<open>matter.cache\<close> and answers a later call on the same text from there, with
  the very same \<^verbatim>\<open>data\<close> object, which \<^verbatim>\<open>updateYamlFrontMatter\<close> changes in place. A parse
  may therefore come back with a dictionary that carries keys of earlier updates in the same
  process. The cache is not part of the store: \<open>cached_file_data\<close> and \<open>cached_data\<close>
  say, for the parse of a file and of a text without fence at a given moment (the number
  of external calls made so far), whether it is answered from such an entry, and with which
  dictionary. \<open>None\<close> is a parse that the cache does not interfere with.
\<close>

record env =
  faults :: "nat \<Rightarrow> js_error option"
  perplexity :: "nat \<Rightarrow> string \<Rightarrow> axios_outcome"
  anthropic :: "nat \<Rightarrow> string \<Rightarrow> js_error + claude_response"
  markdownToBlocks :: "string \<Rightarrow> js_error + block list"
  toMarkdownString :: "block list \<Rightarrow> string"
  slugify :: "string \<Rightarrow> string"
  productivityPrompt :: "string \<Rightarrow> string"
  draftwriterSystemPrompt :: "string \<Rightarrow> string"
  draftwriterUserPrompt :: "string \<Rightarrow> string option \<Rightarrow> string"
  new_Date :: "nat \<Rightarrow> string"
  parse_front_matter :: "nat \<Rightarrow> string \<Rightarrow> js_error + ((string \<Rightarrow> yaml option) \<times> string)"
  cached_file_data :: "nat \<Rightarrow> repo_file \<Rightarrow> (string \<Rightarrow> yaml option) option"
  cached_data :: "nat \<Rightarrow> string \<Rightarrow> (string \<Rightarrow> yaml option) option"

text \<open>
  An asynchronous function: it runs on a world and either throws (\<open>Inl\<close>) or returns
  (\<open>Inr\<close>), leaving a new world. \<open>and_then\<close> is \<^verbatim>\<open>await\<close> followed by the rest of the
  function body; \<open>try_catch\<close> is \<^verbatim>\<open>try { ... } catch (error) { ... }\<close>; \<open>lift\<close> is a
  library function that may throw but touches nothing.
\<close>

type_synonym 'a action = "world \<Rightarrow> (js_error + 'a) \<times> world"

definition ret :: "'a \<Rightarrow> 'a action" where
  "ret x = (\<lambda>w. (Inr x, w))"

definition throw :: "js_error \<Rightarrow> 'a action" where
  "throw e = (\<lambda>w. (Inl e, w))"

definition and_then :: "'a action \<Rightarrow> ('a \<Rightarrow> 'b action) \<Rightarrow> 'b action" where
  "and_then m f = (\<lambda>w. case m w of (Inl e, w') \<Rightarrow> (Inl e, w') | (Inr x, w') \<Rightarrow> f x w')"

definition lift :: "js_error + 'a \<Rightarrow> 'a action" where
  "lift r = (\<lambda>w. (r, w))"

definition try_catch :: "'a action \<Rightarrow> (js_error \<Rightarrow> 'a action) \<Rightarrow> 'a action" where
  "try_catch m h = (\<lambda>w. case m w of (Inl e, w') \<Rightarrow> h e w' | (Inr x, w') \<Rightarrow> (Inr x, w'))"

text \<open>
  A call to an external service or library: it counts as one call and fails when the
  environment says so; otherwise it has its effect.
\<close>

definition external :: "env \<Rightarrow> 'a action \<Rightarrow> 'a action" where
  "external env effect =
     (\<lambda>w. case faults env (clock w) of
            Some e \<Rightarrow> (Inl e, w\<lparr>clock := Suc (clock w)\<rparr>)
          | None \<Rightarrow> effect (w\<lparr>clock := Suc (clock w)\<rparr>))"

subsection \<open>The Notion API\<close>

text \<open>
  The endpoints the clients use. A page that does not exist cannot be updated or appended
  to. \<open>client_databases_query\<close> filters on the database and on the exact status name
  and answers in store order, each result with its id.
\<close>

record page_update =
  upd_Status :: "string option"
  upd_Error :: "string option"
  upd_Type :: "string option"

definition apply_update :: "page_update \<Rightarrow> page \<Rightarrow> page" where
  "apply_update u p =
     p\<lparr>prop_Status := (case upd_Status u of None \<Rightarrow> prop_Status p | Some s \<Rightarrow> s),
       prop_Error := (case upd_Error u of None \<Rightarrow> prop_Error p | Some t \<Rightarrow> Some t),
       prop_Type := (case upd_Type u of None \<Rightarrow> prop_Type p | Some t \<Rightarrow> Some t)\<rparr>"

definition client_pages_update :: "env \<Rightarrow> nat \<Rightarrow> page_update \<Rightarrow> unit action" where
  "client_pages_update env page_id properties =
     external env (\<lambda>w.
       if page_id < length (pages w)
       then (Inr (), w\<lparr>pages := (pages w)[page_id := apply_update properties (pages w ! page_id)]\<rparr>)
       else (Inl (new_Error ''Could not find page''), w))"

definition client_pages_create :: "env \<Rightarrow> page \<Rightarrow> nat action" where
  "client_pages_create env new_page =
     external env (\<lambda>w. (Inr (length (pages w)), w\<lparr>pages := pages w @ [new_page]\<rparr>))"

definition client_blocks_children_append :: "env \<Rightarrow> nat \<Rightarrow> block list \<Rightarrow> unit action" where
  "client_blocks_children_append env block_id new_children =
     external env (\<lambda>w.
       if block_id < length (pages w)
       then (Inr (), w\<lparr>pages := (pages w)[block_id :=
               (pages w ! block_id)\<lparr>page_children :=
                  page_children (pages w ! block_id) @ new_children\<rparr>]\<rparr>)
       else (Inl (new_Error ''Could not find block''), w))"

definition client_databases_query :: "env \<Rightarrow> string \<Rightarrow> string \<Rightarrow> (nat \<times> page) list action" where
  "client_databases_query env database_id status_equals =
     external env (\<lambda>w.
       (Inr (filter (\<lambda>(i, p). page_parent p = database_id \<and> prop_Status p = status_equals)
               (enumerate 0 (pages w))), w))"

text \<open>\<^verbatim>\<open>databases.retrieve\<close> answers the schema of a database, which only gets logged.\<close>

definition client_databases_retrieve :: "env \<Rightarrow> string \<Rightarrow> unit action" where
  "client_databases_retrieve env database_id = external env (\<lambda>w. (Inr (), w))"

subsection \<open>\<^verbatim>\<open>NotionClient\<close> (\<^verbatim>\<open>src/shared/notion/client.js\<close>)\<close>

record NotionClient =
  blogPostsDbId :: string
  draftsDbId :: string

text \<open>
  \<^verbatim>\<open>removeAllLinks\<close> of \<^verbatim>\<open>src/utilities/removeLinks.js\<close>, which the command line tool uses:
  \<^verbatim>\<open>if (textItem.text && textItem.text.link) delete textItem.text.link\<close>.
\<close>

definition delete_link :: "rich_text_item \<Rightarrow> rich_text_item" where
  "delete_link textItem =
     (case item_text textItem of
        None \<Rightarrow> textItem
      | Some t \<Rightarrow>
          (if text_link t \<noteq> None then textItem\<lparr>item_text := Some (t\<lparr>text_link := None\<rparr>)\<rparr>
           else textItem))"

fun removeAllLinks_block :: "block \<Rightarrow> block"
  and removeAllLinks :: "block list \<Rightarrow> block list" where
  "removeAllLinks_block (Block ty richTextArray children) =
     Block ty (map_option (map delete_link) richTextArray) (removeAllLinks children)"
| "removeAllLinks [] = []"
| "removeAllLinks (block # blocks) = removeAllLinks_block block # removeAllLinks blocks"

definition heading_1 :: "string \<Rightarrow> block" where
  "heading_1 title =
     Block ''heading_1''
       (Some [\<lparr>item_text = Some \<lparr>text_content = title, text_link = None\<rparr>, item_href = None\<rparr>])
       []"

definition getBlogPostsReadyForResearch :: "env \<Rightarrow> NotionClient \<Rightarrow> (nat \<times> page) list action" where
  "getBlogPostsReadyForResearch env this =
     client_databases_query env (blogPostsDbId this) ''Ready for Research''"

text \<open>
  \<^verbatim>\<open>getDraftsReadyToStart\<close>: the schema is fetched for the log first, and a failure of
  that is caught.
\<close>

definition getDraftsReadyToStart :: "env \<Rightarrow> NotionClient \<Rightarrow> (nat \<times> page) list action" where
  "getDraftsReadyToStart env this =
     and_then (try_catch (client_databases_retrieve env (draftsDbId this)) (\<lambda>error. ret ()))
       (\<lambda>_. client_databases_query env (draftsDbId this) ''Ready to Start'')"

text \<open>
  \<^verbatim>\<open>appendBlocksInBatches\<close> with its default batch size of 100, which no caller overrides.
  The pause between two batches has no effect on the store and is left out.
\<close>

function appendBlocksInBatches_from :: "env \<Rightarrow> nat \<Rightarrow> block list \<Rightarrow> nat \<Rightarrow> unit action" where
  "appendBlocksInBatches_from env blockId blocks i =
     (if i < length blocks
      then and_then (client_blocks_children_append env blockId (take 100 (drop i blocks)))
             (\<lambda>_. appendBlocksInBatches_from env blockId blocks (i + 100))
      else ret ())"
  by pat_completeness auto
termination
  by (relation "measure (\<lambda>(env, blockId, blocks, i). length blocks - i)") auto

declare appendBlocksInBatches_from.simps [simp del]

definition appendBlocksInBatches :: "env \<Rightarrow> nat \<Rightarrow> block list \<Rightarrow> unit action" where
  "appendBlocksInBatches env blockId blocks = appendBlocksInBatches_from env blockId blocks 0"

definition status_update :: "string \<Rightarrow> page_update" where
  "status_update newStatus = \<lparr>upd_Status = Some newStatus, upd_Error = None, upd_Type = None\<rparr>"

definition updateBlogPostStatus :: "env \<Rightarrow> nat \<Rightarrow> string \<Rightarrow> unit action" where
  "updateBlogPostStatus env blogPostId newStatus =
     try_catch (client_pages_update env blogPostId (status_update newStatus)) (\<lambda>error. throw error)"

definition updateBlogPostError :: "env \<Rightarrow> nat \<Rightarrow> string \<Rightarrow> bool \<Rightarrow> unit action" where
  "updateBlogPostError env blogPostId errorMessage setErrorStatus =
     try_catch
       (client_pages_update env blogPostId
          \<lparr>upd_Status = (if setErrorStatus then Some ''Error'' else None),
           upd_Error = Some errorMessage, upd_Type = None\<rparr>)
       (\<lambda>error. ret ())"

definition createResearchBrief ::
  "env \<Rightarrow> NotionClient \<Rightarrow> nat \<Rightarrow> string \<Rightarrow> string \<Rightarrow> nat action" where
  "createResearchBrief env this blogPostId blogPostTitle markdownContent =
     try_catch
       (and_then (lift (markdownToBlocks env markdownContent)) (\<lambda>converted.
        let allBlocks = removeAllLinks converted in
        and_then (client_pages_create env
          \<lparr>page_parent = draftsDbId this, prop_Title = Some [blogPostTitle],
           prop_Status = ''Ready to Start'', prop_Type = Some ''Research Brief'',
           prop_Blog_Posts = Some [blogPostId], prop_Error = None,
           prop_Last_Modified_Date = None,
           page_children = [heading_1 blogPostTitle]\<rparr>) (\<lambda>newDraftPage.
        and_then (appendBlocksInBatches env newDraftPage allBlocks) (\<lambda>_.
        and_then (updateBlogPostStatus env blogPostId ''Ready for Draft'') (\<lambda>_.
        ret newDraftPage)))))
       (\<lambda>error. throw error)"

text \<open>
  \<^verbatim>\<open>createBlogDraft\<close>: the parameter \<^verbatim>\<open>researchBriefId\<close> is not used by the source; the
  relation of the new page is set from \<^verbatim>\<open>blogPostId\<close>, when there is one.
\<close>

definition createBlogDraft ::
  "env \<Rightarrow> NotionClient \<Rightarrow> nat \<Rightarrow> string \<Rightarrow> string \<Rightarrow> nat option \<Rightarrow> nat action" where
  "createBlogDraft env this researchBriefId title draft blogPostId =
     try_catch
       (and_then (lift (markdownToBlocks env draft)) (\<lambda>converted.
        let allBlocks = removeAllLinks converted in
        and_then (\<lambda>w. (Inr (new_Date env (clock w)), w)) (\<lambda>date.
        and_then (client_pages_create env
          \<lparr>page_parent = draftsDbId this, prop_Title = Some [title],
           prop_Status = ''Ready for Review'', prop_Type = Some ''Blog Draft'',
           prop_Blog_Posts = (case blogPostId of None \<Rightarrow> None | Some b \<Rightarrow> Some [b]),
           prop_Error = None, prop_Last_Modified_Date = Some date,
           page_children = [heading_1 title]\<rparr>) (\<lambda>newDraftPage.
        and_then (appendBlocksInBatches env newDraftPage allBlocks) (\<lambda>_.
        ret newDraftPage)))))
       (\<lambda>error. throw error)"

subsection \<open>The providers\<close>

record research_result =
  rr_content :: string
  rr_usage :: "nat option"
  rr_model :: string
  rr_citations :: "string list option"

record draft_result =
  dr_content :: string
  dr_usage :: "nat option"
  dr_model :: string

text \<open>
  \<^verbatim>\<open>PerplexityClient.researchTopic\<close> (\<^verbatim>\<open>src/shared/perplexity/client.js\<close>; the function
  \<^verbatim>\<open>researchTopic\<close> of the research action script is a copy). \<open>research_outcome\<close> is what
  the function makes of the outcome of the HTTP request: the error for a malformed
  response is thrown inside the \<^verbatim>\<open>try\<close> and rewrapped by the last branch of the \<^verbatim>\<open>catch\<close>.
\<close>

definition invalid_response :: js_error where
  "invalid_response =
     new_Error (''Perplexity API error: '' @ ''Invalid response format from Perplexity API'')"

definition research_outcome :: "axios_outcome \<Rightarrow> js_error + research_result" where
  "research_outcome outcome =
     (case outcome of
        Response response_data \<Rightarrow>
          (case response_data of
             None \<Rightarrow> Inl invalid_response
           | Some d \<Rightarrow>
               (case pd_choices d of
                  None \<Rightarrow> Inl invalid_response
                | Some [] \<Rightarrow> Inl invalid_response
                | Some (choice # _) \<Rightarrow>
                    Inr \<lparr>rr_content = choice, rr_usage = pd_usage d, rr_model = pd_model d,
                         rr_citations = pd_citations d\<rparr>))
      | Error_with_response api_message message \<Rightarrow>
          Inl (new_Error (''Perplexity API error: '' @
            (case api_message of
               None \<Rightarrow> message
             | Some m \<Rightarrow> if m \<noteq> [] then m else message)))
      | Error_without_response \<Rightarrow>
          Inl (new_Error ''No response received from Perplexity API'')
      | Error_other message \<Rightarrow>
          Inl (new_Error (''Perplexity API error: '' @ message)))"

definition researchTopic :: "env \<Rightarrow> string \<Rightarrow> research_result action" where
  "researchTopic env prompt =
     (\<lambda>w. (research_outcome (perplexity env (clock w) prompt),
           w\<lparr>clock := Suc (clock w),
             provider_calls := provider_calls w @ [(prompt, pages w, files w)]\<rparr>))"

text \<open>
  \<^verbatim>\<open>ClaudeClient.generateContent\<close> (the function \<^verbatim>\<open>generateContent\<close> of the draft-writing
  action script throws the same errors). Reading \<^verbatim>\<open>response.content[0].text\<close> of an empty
  content array is a TypeError, caught and rewrapped like every other failure.
\<close>

definition draft_outcome :: "js_error + claude_response \<Rightarrow> js_error + draft_result" where
  "draft_outcome outcome =
     (case outcome of
        Inl error \<Rightarrow> Inl (new_Error (''Claude API error: '' @ err_message error))
      | Inr response \<Rightarrow>
          (case cr_content response of
             [] \<Rightarrow> Inl (new_Error (''Claude API error: '' @
                      ''Cannot read properties of undefined (reading 'text')''))
           | draft # _ \<Rightarrow>
               Inr \<lparr>dr_content = draft, dr_usage = cr_usage response,
                    dr_model = cr_model response\<rparr>))"

definition generateContent :: "env \<Rightarrow> string \<Rightarrow> string \<Rightarrow> draft_result action" where
  "generateContent env systemPrompt userPrompt =
     (\<lambda>w. (draft_outcome (anthropic env (clock w) userPrompt),
           w\<lparr>clock := Suc (clock w),
             provider_calls := provider_calls w @ [(userPrompt, pages w, files w)]\<rparr>))"

subsection \<open>\<^verbatim>\<open>ResearchCommand\<close> and \<^verbatim>\<open>DraftwriterCommand\<close> (\<^verbatim>\<open>src/commands/research.js\<close>)\<close>

record options =
  dryRun :: bool
  singleItem :: bool
  single_id :: "string option"

text \<open>\<^verbatim>\<open>error.message || fallback\<close>: the empty string is falsy.\<close>

definition message_or :: "js_error \<Rightarrow> string \<Rightarrow> string" where
  "message_or error fallback = (if err_message error \<noteq> [] then err_message error else fallback)"

text \<open>
  The \<^verbatim>\<open>try\<close> block of \<^verbatim>\<open>ResearchCommand.processTopic\<close>. Logging the token counts reads
  \<^verbatim>\<open>research.usage.prompt_tokens\<close>, a TypeError when the provider sent no usage.
\<close>

definition processTopic_try ::
  "env \<Rightarrow> NotionClient \<Rightarrow> options \<Rightarrow> nat \<Rightarrow> string \<Rightarrow> unit action" where
  "processTopic_try env this opts topicId topicTitle =
     and_then (updateBlogPostStatus env topicId ''Research In Progress'') (\<lambda>_.
     if dryRun opts then ret ()
     else
       and_then (researchTopic env (productivityPrompt env topicTitle)) (\<lambda>research.
       and_then (case rr_usage research of
                   None \<Rightarrow> throw (new_Error
                     ''Cannot read properties of undefined (reading 'prompt_tokens')'')
                 | Some _ \<Rightarrow> ret ()) (\<lambda>_.
       let enhancedContent = enhanceContent (rr_content research) (rr_citations research) in
       and_then (createResearchBrief env this topicId topicTitle enhancedContent) (\<lambda>_.
       ret ()))))"

definition processTopic_catch :: "env \<Rightarrow> nat \<Rightarrow> js_error \<Rightarrow> unit action" where
  "processTopic_catch env topicId error =
     (let errorMessage = message_or error ''Unknown error occurred during research'' in
      updateBlogPostError env topicId errorMessage True)"

definition processTopic ::
  "env \<Rightarrow> NotionClient \<Rightarrow> options \<Rightarrow> nat \<Rightarrow> string \<Rightarrow> unit action" where
  "processTopic env this opts topicId topicTitle =
     try_catch (processTopic_try env this opts topicId topicTitle)
       (processTopic_catch env topicId)"

text \<open>\<^verbatim>\<open>topic.properties.Title?.title[0]?.plain_text\<close>; \<open>None\<close> is \<^verbatim>\<open>undefined\<close>.\<close>

definition title_plain_text :: "page \<Rightarrow> string option" where
  "title_plain_text topic =
     (case prop_Title topic of
        None \<Rightarrow> None
      | Some [] \<Rightarrow> None
      | Some (t # _) \<Rightarrow> Some t)"

text \<open>The \<^verbatim>\<open>for\<close> loop of \<^verbatim>\<open>ResearchCommand.execute\<close> over the topics to process.\<close>

fun for_topics :: "env \<Rightarrow> NotionClient \<Rightarrow> options \<Rightarrow> (nat \<times> page) list \<Rightarrow> unit action" where
  "for_topics env this opts [] = ret ()"
| "for_topics env this opts ((topicId, topic) # rest) =
     (case title_plain_text topic of
        None \<Rightarrow> for_topics env this opts rest
      | Some topicTitle \<Rightarrow>
          if topicTitle = [] then for_topics env this opts rest
          else and_then (processTopic env this opts topicId topicTitle)
                 (\<lambda>_. for_topics env this opts rest))"

datatype exit_status = Completed | Process_exit nat

text \<open>
  \<^verbatim>\<open>ResearchCommand.execute\<close>: anything thrown inside ends the process with exit code 1.
\<close>

definition execute :: "env \<Rightarrow> NotionClient \<Rightarrow> options \<Rightarrow> world \<Rightarrow> exit_status \<times> world" where
  "execute env this opts =
     (\<lambda>w. case
         (if single_id opts \<noteq> None \<and> single_id opts \<noteq> Some []
          then ret ()
          else and_then (getBlogPostsReadyForResearch env this) (\<lambda>topics.
               let topicsToProcess = (if singleItem opts then take 1 topics else topics) in
               for_topics env this opts topicsToProcess)) w
       of (Inl error, w') \<Rightarrow> (Process_exit 1, w')
        | (Inr _, w') \<Rightarrow> (Completed, w'))"

text \<open>
  \<^verbatim>\<open>DraftwriterCommand.processDraft\<close>; \<open>blogPostId\<close> is the first id of the brief's
  \<^verbatim>\<open>Blog Posts\<close> relation, or \<^verbatim>\<open>undefined\<close>.
\<close>

definition processDraft_try ::
  "env \<Rightarrow> NotionClient \<Rightarrow> options \<Rightarrow> nat \<Rightarrow> string \<Rightarrow> string \<Rightarrow> nat option \<Rightarrow> unit action" where
  "processDraft_try env this opts draftId draftTitle researchContent blogPostId =
     and_then (updateBlogPostStatus env draftId ''Writing in Progress'') (\<lambda>_.
     if dryRun opts then ret ()
     else
       and_then (case blogPostId of
                   None \<Rightarrow> ret ()
                 | Some b \<Rightarrow> updateBlogPostStatus env b ''Draft In Progress'') (\<lambda>_.
       and_then (generateContent env (draftwriterSystemPrompt env draftTitle)
                   (draftwriterUserPrompt env draftTitle (Some researchContent))) (\<lambda>blogPost.
       and_then (createBlogDraft env this draftId draftTitle (dr_content blogPost) blogPostId)
         (\<lambda>_.
       and_then (updateBlogPostStatus env draftId ''Research Processed'') (\<lambda>_.
       case blogPostId of
         None \<Rightarrow> ret ()
       | Some b \<Rightarrow> updateBlogPostStatus env b ''Draft Created'')))))"

definition processDraft_catch ::
  "env \<Rightarrow> nat \<Rightarrow> nat option \<Rightarrow> js_error \<Rightarrow> unit action" where
  "processDraft_catch env draftId blogPostId error =
     and_then (try_catch (updateBlogPostStatus env draftId ''Ready to Start'')
                 (\<lambda>resetError. ret ())) (\<lambda>_.
     case blogPostId of
       None \<Rightarrow> ret ()
     | Some b \<Rightarrow>
         updateBlogPostError env b
           (message_or error ''Unknown error occurred during draft writing'') True)"

definition processDraft ::
  "env \<Rightarrow> NotionClient \<Rightarrow> options \<Rightarrow> nat \<Rightarrow> string \<Rightarrow> string \<Rightarrow> nat option \<Rightarrow> unit action" where
  "processDraft env this opts draftId draftTitle researchContent blogPostId =
     try_catch (processDraft_try env this opts draftId draftTitle researchContent blogPostId)
       (processDraft_catch env draftId blogPostId)"

subsection \<open>The GitHub contents API and \<^verbatim>\<open>GitHubFileClient\<close> (\<^verbatim>\<open>src/shared/github\<close>)\<close>

text \<open>
  \<^verbatim>\<open>octokit.repos.getContent\<close> and \<^verbatim>\<open>createOrUpdateFileContents\<close>. The blob sha of a file
  stands for its contents, so the sha of a file is modelled by the file itself: GitHub
  replaces an existing file only when the request carries the sha of what is there, and
  creates a missing one.
\<close>

definition repos_getContent :: "env \<Rightarrow> string \<Rightarrow> entry action" where
  "repos_getContent env path =
     external env (\<lambda>w. case files w path of
                          None \<Rightarrow> (Inl (new_Error ''Not Found''), w)
                        | Some data \<Rightarrow> (Inr data, w))"

definition repos_createOrUpdateFileContents ::
  "env \<Rightarrow> string \<Rightarrow> repo_file \<Rightarrow> repo_file option \<Rightarrow> unit action" where
  "repos_createOrUpdateFileContents env path new_file sha =
     external env (\<lambda>w.
       case files w path of
         None \<Rightarrow> (Inr (), w\<lparr>files := (files w)(path \<mapsto> File new_file)\<rparr>)
       | Some Directory \<Rightarrow> (Inl (new_Error ''Invalid request''), w)
       | Some (File old) \<Rightarrow>
           if sha = Some old
           then (Inr (), w\<lparr>files := (files w)(path \<mapsto> File new_file)\<rparr>)
           else (Inl (new_Error ''Invalid request: sha does not match''), w))"

text \<open>\<^verbatim>\<open>getFileSha\<close> (\<^verbatim>\<open>getFileSha.js\<close>): a directory listing has no \<^verbatim>\<open>sha\<close> property.\<close>

definition getFileSha :: "env \<Rightarrow> string \<Rightarrow> repo_file option action" where
  "getFileSha env filePath =
     and_then (repos_getContent env filePath) (\<lambda>data.
     case data of File f \<Rightarrow> ret (Some f) | Directory \<Rightarrow> ret None)"

definition readFile :: "env \<Rightarrow> string \<Rightarrow> repo_file action" where
  "readFile env filePath =
     try_catch
       (and_then (repos_getContent env filePath) (\<lambda>data.
        case data of
          Directory \<Rightarrow> throw (new_Error (''Path '' @ filePath @ '' is not a file.''))
        | File f \<Rightarrow> ret f))
       (\<lambda>error. throw error)"

definition writeFile :: "env \<Rightarrow> string \<Rightarrow> repo_file \<Rightarrow> repo_file option \<Rightarrow> unit action" where
  "writeFile env filePath new_file sha =
     and_then (case sha of
                 Some s \<Rightarrow> ret (Some s)
               | None \<Rightarrow> try_catch (getFileSha env filePath) (\<lambda>e. ret None)) (\<lambda>sha'.
     try_catch (repos_createOrUpdateFileContents env filePath new_file sha')
       (\<lambda>error. throw error))"

definition createFile :: "env \<Rightarrow> string \<Rightarrow> repo_file \<Rightarrow> unit action" where
  "createFile env filePath new_file =
     try_catch (repos_createOrUpdateFileContents env filePath new_file None)
       (\<lambda>error. throw error)"

subsection \<open>gray-matter\<close>

text \<open>
  The library is not part of the repository; what follows is its behaviour as far as the
  Git-backed commands depend on it.

  \<^verbatim>\<open>newline\<close> of its \<^verbatim>\<open>stringify\<close>: a text that does not end in a line feed gets one.
\<close>

definition newline :: "string \<Rightarrow> string" where
  "newline str = (if str \<noteq> [] \<and> last str = CHR ''\<newline>'' then str else str @ ''\<newline>'')"

text \<open>
  A text is parsed for front matter when it starts with the fence \<^verbatim>\<open>---\<close> and the fence is
  not followed by a fourth hyphen.
\<close>

definition opens_front_matter :: "string \<Rightarrow> bool" where
  "opens_front_matter str \<longleftrightarrow> take 3 str = ''---'' \<and> take 1 (drop 3 str) \<noteq> ''-''"

text \<open>
  \<^verbatim>\<open>matter(input)\<close> on a text: the dictionary and the content. The empty text is answered
  at once, without the cache; a text that opens with a fence is parsed by the library; any
  other text is its own content and has the empty dictionary, unless the cache answers.
\<close>

definition matter :: "env \<Rightarrow> string \<Rightarrow> ((string \<Rightarrow> yaml option) \<times> string) action" where
  "matter env input =
     (\<lambda>w. if input = [] then (Inr (Map.empty, []), w)
          else if opens_front_matter input then (parse_front_matter env (clock w) input, w)
          else (Inr (case cached_data env (clock w) input of
                       None \<Rightarrow> Map.empty
                     | Some data \<Rightarrow> data,
                     input), w))"

text \<open>
  \<^verbatim>\<open>matter(fileContent)\<close> on the text of a file read from the store: what the store keeps
  for the file, unless the cache answers with another dictionary.
\<close>

definition matter_file ::
  "env \<Rightarrow> repo_file \<Rightarrow> ((string \<Rightarrow> yaml option) \<times> string) action" where
  "matter_file env fileContent =
     (\<lambda>w. (Inr (case cached_file_data env (clock w) fileContent of
                   None \<Rightarrow> file_data fileContent
                 | Some data \<Rightarrow> data,
                 file_content fileContent), w))"

text \<open>
  \<^verbatim>\<open>matter.stringify(str, data)\<close>, given as the file that its result is read back as. The
  string is parsed first (\<^verbatim>\<open>if (typeof file === 'string') file = matter(file, options)\<close>);
  the dictionary written is \<^verbatim>\<open>Object.assign({}, file.data, data)\<close>, between two fences, and
  the body is \<^verbatim>\<open>newline(file.content)\<close>. js-yaml is taken to read back the dictionary that
  it wrote. (For an empty dictionary no fences are written; every caller passes a status.)
\<close>

definition matter_stringify ::
  "env \<Rightarrow> string \<Rightarrow> (string \<Rightarrow> yaml option) \<Rightarrow> repo_file action" where
  "matter_stringify env str data =
     and_then (matter env str) (\<lambda>(file_data0, content).
     ret \<lparr>file_data = file_data0 ++ data, file_content = newline content\<rparr>)"

text \<open>An environment in which the cache never interferes, as in a process that has just started.\<close>

definition fresh_cache :: "env \<Rightarrow> bool" where
  "fresh_cache env \<longleftrightarrow>
     (\<forall>n fileContent. cached_file_data env n fileContent = None) \<and>
     (\<forall>n input. cached_data env n input = None)"

subsection \<open>\<^verbatim>\<open>updateYamlFrontMatter\<close> (\<^verbatim>\<open>GitHubFileClient\<close>)\<close>

text \<open>
  The loop \<^verbatim>\<open>for (const key in updates)\<close> of \<^verbatim>\<open>updateYamlFrontMatter\<close>: \<^verbatim>\<open>null\<close> (\<open>None\<close>)
  deletes the key, any other value replaces it.
\<close>

fun apply_updates ::
  "(string \<times> yaml option) list \<Rightarrow> (string \<Rightarrow> yaml option) \<Rightarrow> (string \<Rightarrow> yaml option)" where
  "apply_updates [] frontMatter = frontMatter"
| "apply_updates ((key, v) # updates) frontMatter =
     apply_updates updates (frontMatter(key := v))"

definition updateYamlFrontMatter ::
  "env \<Rightarrow> string \<Rightarrow> (string \<times> yaml option) list \<Rightarrow> unit action" where
  "updateYamlFrontMatter env filePath updates =
     and_then (readFile env filePath) (\<lambda>fileContent.
     and_then (matter_file env fileContent) (\<lambda>(frontMatter, content).
     and_then (matter_stringify env content (apply_updates updates frontMatter))
       (\<lambda>updatedFileContent.
     writeFile env filePath updatedFileContent None)))"

subsection \<open>\<^verbatim>\<open>GitResearchCommand\<close> and \<^verbatim>\<open>GitDraftwriterCommand\<close> (\<^verbatim>\<open>src/commands/git\<close>)\<close>

text \<open>
  The \<^verbatim>\<open>try\<close> block of \<^verbatim>\<open>GitResearchCommand.processTopic\<close>. The text and the new front
  matter go through \<^verbatim>\<open>matter.stringify\<close> before they are written. The object passed as
  \<^verbatim>\<open>currentFrontMatter\<close> may be the cached one that the first step changes in place; only
  its status can differ by the time it is spread, and the status is set anew there.
\<close>

definition git_processTopic_try ::
  "env \<Rightarrow> string \<Rightarrow> string \<Rightarrow> (string \<Rightarrow> yaml option) \<Rightarrow> unit action" where
  "git_processTopic_try env topicFilePath topicTitle currentFrontMatter =
     and_then (updateYamlFrontMatter env topicFilePath
                 [(''status'', Some (Str ''Research In Progress''))]) (\<lambda>_.
     and_then (researchTopic env (productivityPrompt env topicTitle)) (\<lambda>researchResult.
     let enhancedContent =
           enhanceContent (rr_content researchResult) (rr_citations researchResult) in
     and_then (\<lambda>w. (Inr (new_Date env (clock w)), w)) (\<lambda>date.
     let updatedFrontMatter =
           currentFrontMatter(''status'' \<mapsto> Str ''Ready for Draft'',
                              ''date_researched'' \<mapsto> Str date) in
     and_then (matter_stringify env enhancedContent updatedFrontMatter) (\<lambda>updatedFileContent.
     and_then (writeFile env topicFilePath updatedFileContent None) (\<lambda>_.
     updateYamlFrontMatter env topicFilePath
       [(''status'', Some (Str ''Research Complete''))])))))"

definition git_processTopic_catch :: "env \<Rightarrow> string \<Rightarrow> js_error \<Rightarrow> unit action" where
  "git_processTopic_catch env topicFilePath error =
     try_catch
       (updateYamlFrontMatter env topicFilePath
          [(''status'', Some (Str ''Error'')),
           (''error_message'', Some (Str (err_message error)))])
       (\<lambda>updateError. ret ())"

definition git_processTopic ::
  "env \<Rightarrow> options \<Rightarrow> string \<Rightarrow> string \<Rightarrow> (string \<Rightarrow> yaml option) \<Rightarrow> unit action" where
  "git_processTopic env opts topicFilePath topicTitle currentFrontMatter =
     (if dryRun opts then ret ()
      else try_catch (git_processTopic_try env topicFilePath topicTitle currentFrontMatter)
             (git_processTopic_catch env topicFilePath))"

text \<open>JavaScript truthiness of a front matter value: the empty string is falsy.\<close>

definition truthy :: "yaml option \<Rightarrow> bool" where
  "truthy v = (case v of None \<Rightarrow> False | Some (Str s) \<Rightarrow> s \<noteq> [] | Some (Seq _) \<Rightarrow> True)"

text \<open>
  \<^verbatim>\<open>GitDraftwriterCommand.processDraft\<close>. The research text and the path of the original
  blog file are strings here; the empty path is the falsy one of the source's guards. The
  draft and its front matter go through \<^verbatim>\<open>matter.stringify\<close> before the file is created.
\<close>

definition draftFrontMatter ::
  "string \<Rightarrow> string \<Rightarrow> string \<Rightarrow> string \<Rightarrow> (string \<Rightarrow> yaml option) \<Rightarrow> (string \<Rightarrow> yaml option)" where
  "draftFrontMatter researchFileTitle researchFilePath originalBlogFilePath date
      researchFileFrontMatter =
     (let fm = Map.empty(''title'' \<mapsto> Str (''Draft: '' @ researchFileTitle),
                         ''original_title'' \<mapsto> Str researchFileTitle,
                         ''research_brief_filePath'' \<mapsto> Str researchFilePath,
                         ''blog_post_filePath'' \<mapsto> Str originalBlogFilePath,
                         ''status'' \<mapsto> Str ''Ready for Review'',
                         ''date_drafted'' \<mapsto> Str date);
          fm = (if truthy (researchFileFrontMatter ''tags'')
                then fm(''tags'' := researchFileFrontMatter ''tags'') else fm)
      in (if truthy (researchFileFrontMatter ''category'')
          then fm(''category'' := researchFileFrontMatter ''category'') else fm))"

definition draft_path :: "env \<Rightarrow> string \<Rightarrow> string \<Rightarrow> string" where
  "draft_path env contentDirDrafts researchFileTitle =
     contentDirDrafts @ ''/'' @ slugify env researchFileTitle @ ''-draft.md''"

definition git_processDraft_try ::
  "env \<Rightarrow> string \<Rightarrow> string \<Rightarrow> string \<Rightarrow> string \<Rightarrow> string \<Rightarrow> (string \<Rightarrow> yaml option)
     \<Rightarrow> unit action" where
  "git_processDraft_try env contentDirDrafts researchFilePath researchFileTitle researchContent
      originalBlogFilePath researchFileFrontMatter =
     and_then (updateYamlFrontMatter env researchFilePath
                 [(''status'', Some (Str ''Draft In Progress''))]) (\<lambda>_.
     and_then (generateContent env []
                 (draftwriterUserPrompt env researchFileTitle (Some researchContent)))
       (\<lambda>draftResult.
     let draftPath = draft_path env contentDirDrafts researchFileTitle in
     and_then (\<lambda>w. (Inr (new_Date env (clock w)), w)) (\<lambda>date.
     and_then (matter_stringify env (dr_content draftResult)
                 (draftFrontMatter researchFileTitle researchFilePath originalBlogFilePath date
                    researchFileFrontMatter)) (\<lambda>draftContent.
     and_then (createFile env draftPath draftContent) (\<lambda>_.
     and_then (updateYamlFrontMatter env researchFilePath
                 [(''status'', Some (Str ''Draft Complete'')),
                  (''draft_filePath'', Some (Str draftPath))]) (\<lambda>_.
     if originalBlogFilePath \<noteq> []
     then updateYamlFrontMatter env originalBlogFilePath
            [(''status'', Some (Str ''Draft Complete'')),
             (''draft_filePath'', Some (Str draftPath))]
     else ret ()))))))"

text \<open>The method \<^verbatim>\<open>GitDraftwriterCommand.getFileSha\<close>, which answers \<^verbatim>\<open>null\<close> on any error.\<close>

definition command_getFileSha :: "env \<Rightarrow> string \<Rightarrow> repo_file option action" where
  "command_getFileSha env filePath = try_catch (getFileSha env filePath) (\<lambda>error. ret None)"

definition git_processDraft_catch ::
  "env \<Rightarrow> string \<Rightarrow> string \<Rightarrow> js_error \<Rightarrow> unit action" where
  "git_processDraft_catch env researchFilePath originalBlogFilePath error =
     try_catch
       (and_then (updateYamlFrontMatter env researchFilePath
                    [(''status'', Some (Str ''Error'')),
                     (''error_message'',
                      Some (Str (''Drafting failed: '' @ err_message error)))]) (\<lambda>_.
        if originalBlogFilePath \<noteq> []
        then and_then (command_getFileSha env originalBlogFilePath) (\<lambda>blogPostSha.
             if blogPostSha \<noteq> None
             then updateYamlFrontMatter env originalBlogFilePath
                    [(''status'', Some (Str ''Error'')),
                     (''error_message'',
                      Some (Str (''Drafting failed: '' @ err_message error)))]
             else ret ())
        else ret ()))
       (\<lambda>updateError. ret ())"

definition git_processDraft ::
  "env \<Rightarrow> options \<Rightarrow> string \<Rightarrow> string \<Rightarrow> string \<Rightarrow> string \<Rightarrow> string
     \<Rightarrow> (string \<Rightarrow> yaml option) \<Rightarrow> unit action" where
  "git_processDraft env opts contentDirDrafts researchFilePath researchFileTitle researchContent
      originalBlogFilePath researchFileFrontMatter =
     (if dryRun opts then ret ()
      else try_catch
             (git_processDraft_try env contentDirDrafts researchFilePath researchFileTitle
                researchContent originalBlogFilePath researchFileFrontMatter)
             (git_processDraft_catch env researchFilePath originalBlogFilePath))"

subsection \<open>The GitHub Actions scripts (\<^verbatim>\<open>devin-github-actions/actions\<close>)\<close>

text \<open>
  The inputs of an action run. \<^verbatim>\<open>core.getInput(name, { required: true })\<close> throws when
  the input is empty; it also trims the value, so the inputs are taken to be given without
  white space around them. The prompts of the two scripts are written out in the source;
  here they are functions of the title (and the research text).
\<close>

record action_inputs =
  notion_api_key :: string
  notion_blog_posts_id :: string
  notion_drafts_id :: string
  perplexity_api_key :: string
  anthropic_api_key :: string
  script_research_prompt :: "string \<Rightarrow> string"
  script_system_prompt :: "string \<Rightarrow> string"
  script_user_prompt :: "string \<Rightarrow> string \<Rightarrow> string"

definition getInput :: "string \<Rightarrow> string \<Rightarrow> string action" where
  "getInput input_value name =
     (if input_value = [] then throw (new_Error (''Input required and not supplied: '' @ name))
      else ret input_value)"

text \<open>
  The scripts take \<^verbatim>\<open>removeAllLinks\<close> from \<^verbatim>\<open>devin-github-actions/utils/removeLinks.js\<close>,
  which is another function: it looks at the rich text of ten block types only, deletes
  the \<^verbatim>\<open>href\<close> of an item (a non-empty string) and leaves \<^verbatim>\<open>text.link\<close> alone.
\<close>

definition richTextContainers :: "string list" where
  "richTextContainers =
     [''paragraph'', ''heading_1'', ''heading_2'', ''heading_3'',
      ''bulleted_list_item'', ''numbered_list_item'', ''to_do'',
      ''toggle'', ''quote'', ''callout'']"

definition delete_href :: "rich_text_item \<Rightarrow> rich_text_item" where
  "delete_href textObj =
     (if item_href textObj \<noteq> None \<and> item_href textObj \<noteq> Some []
      then textObj\<lparr>item_href := None\<rparr> else textObj)"

fun script_removeAllLinks_block :: "block \<Rightarrow> block"
  and script_removeAllLinks :: "block list \<Rightarrow> block list" where
  "script_removeAllLinks_block (Block ty richTextArray children) =
     Block ty (if ty \<in> set richTextContainers
               then map_option (map delete_href) richTextArray else richTextArray)
       (script_removeAllLinks children)"
| "script_removeAllLinks [] = []"
| "script_removeAllLinks (block # blocks) =
     script_removeAllLinks_block block # script_removeAllLinks blocks"

text \<open>
  \<^verbatim>\<open>createResearchBrief\<close> of the research script: as the client's, but with the scripts'
  \<^verbatim>\<open>removeAllLinks\<close>, and the status of the topic is set by the caller.
\<close>

definition script_createResearchBrief ::
  "env \<Rightarrow> nat \<Rightarrow> string \<Rightarrow> string \<Rightarrow> string \<Rightarrow> nat action" where
  "script_createResearchBrief env blogPostId blogPostTitle markdownContent draftsDb =
     try_catch
       (and_then (lift (markdownToBlocks env markdownContent)) (\<lambda>converted.
        let allBlocks = script_removeAllLinks converted in
        and_then (client_pages_create env
          \<lparr>page_parent = draftsDb, prop_Title = Some [blogPostTitle],
           prop_Status = ''Ready to Start'', prop_Type = Some ''Research Brief'',
           prop_Blog_Posts = Some [blogPostId], prop_Error = None,
           prop_Last_Modified_Date = None,
           page_children = [heading_1 blogPostTitle]\<rparr>) (\<lambda>newDraftPage.
        and_then (appendBlocksInBatches env newDraftPage allBlocks) (\<lambda>_.
        ret newDraftPage))))
       (\<lambda>error. throw error)"

text \<open>
  \<^verbatim>\<open>createBlogDraft\<close> of the draft-writing script: as the client's, with the scripts'
  \<^verbatim>\<open>removeAllLinks\<close>.
\<close>

definition script_createBlogDraft ::
  "env \<Rightarrow> nat \<Rightarrow> string \<Rightarrow> string \<Rightarrow> nat option \<Rightarrow> string \<Rightarrow> nat action" where
  "script_createBlogDraft env researchBriefId title draft blogPostId draftsDb =
     try_catch
       (and_then (lift (markdownToBlocks env draft)) (\<lambda>converted.
        let allBlocks = script_removeAllLinks converted in
        and_then (\<lambda>w. (Inr (new_Date env (clock w)), w)) (\<lambda>date.
        and_then (client_pages_create env
          \<lparr>page_parent = draftsDb, prop_Title = Some [title],
           prop_Status = ''Ready for Review'', prop_Type = Some ''Blog Draft'',
           prop_Blog_Posts = (case blogPostId of None \<Rightarrow> None | Some b \<Rightarrow> Some [b]),
           prop_Error = None, prop_Last_Modified_Date = Some date,
           page_children = [heading_1 title]\<rparr>) (\<lambda>newDraftPage.
        and_then (appendBlocksInBatches env newDraftPage allBlocks) (\<lambda>_.
        ret newDraftPage)))))
       (\<lambda>error. throw error)"

text \<open>The \<^verbatim>\<open>try\<close> block of \<^verbatim>\<open>run\<close> in the research script.\<close>

definition research_run_try :: "env \<Rightarrow> action_inputs \<Rightarrow> unit action" where
  "research_run_try env inputs =
     and_then (getInput (notion_api_key inputs) ''notion-api-key'') (\<lambda>notionApiKey.
     and_then (getInput (notion_blog_posts_id inputs) ''notion-blog-posts-id'') (\<lambda>blogPostsDb.
     and_then (getInput (notion_drafts_id inputs) ''notion-drafts-id'') (\<lambda>draftsDb.
     and_then (getInput (perplexity_api_key inputs) ''perplexity-api-key'') (\<lambda>perplexityApiKey.
     and_then (client_databases_query env blogPostsDb ''Ready for Research'') (\<lambda>topics.
     case topics of
       [] \<Rightarrow> ret ()
     | (topicId, topic) # _ \<Rightarrow>
         (case title_plain_text topic of
            None \<Rightarrow> ret ()
          | Some topicTitle \<Rightarrow>
              if topicTitle = [] then ret ()
              else
                and_then (updateBlogPostStatus env topicId ''Research In Progress'') (\<lambda>_.
                and_then (researchTopic env (script_research_prompt inputs topicTitle))
                  (\<lambda>research.
                and_then (case rr_usage research of
                            None \<Rightarrow> throw (new_Error
                              ''Cannot read properties of undefined (reading 'prompt_tokens')'')
                          | Some _ \<Rightarrow> ret ()) (\<lambda>_.
                let enhancedContent =
                      enhanceContent (rr_content research) (rr_citations research) in
                and_then (script_createResearchBrief env topicId topicTitle enhancedContent
                            draftsDb) (\<lambda>_.
                updateBlogPostStatus env topicId ''Ready for Draft''))))))))))"

text \<open>
  The recovery part of the \<^verbatim>\<open>catch\<close> block of the research script, after
  \<^verbatim>\<open>core.setFailed\<close>: guarded by \<^verbatim>\<open>error.topicId\<close>, and with a \<^verbatim>\<open>try\<close> of its own.
\<close>

definition research_run_recover :: "env \<Rightarrow> action_inputs \<Rightarrow> js_error \<Rightarrow> unit action" where
  "research_run_recover env inputs error =
     (case err_topicId error of
        None \<Rightarrow> ret ()
      | Some topicId \<Rightarrow>
          try_catch
            (and_then (getInput (notion_api_key inputs) ''notion-api-key'') (\<lambda>notionApiKey.
             updateBlogPostError env topicId
               (message_or error ''Unknown error occurred during research'') True))
            (\<lambda>updateError. ret ()))"

text \<open>
  A run of a script ends with the failure message given to \<^verbatim>\<open>core.setFailed\<close>, if any,
  and the world it leaves.
\<close>

definition research_run :: "env \<Rightarrow> action_inputs \<Rightarrow> world \<Rightarrow> string option \<times> world" where
  "research_run env inputs =
     (\<lambda>w. case research_run_try env inputs w of
            (Inr _, w') \<Rightarrow> (None, w')
          | (Inl error, w') \<Rightarrow>
              (Some (''Research workflow failed: '' @ err_message error),
               snd (research_run_recover env inputs error w')))"

text \<open>\<^verbatim>\<open>n2m.pageToMarkdown\<close>: reads the blocks of a page from Notion.\<close>

definition pageToMarkdown :: "env \<Rightarrow> nat \<Rightarrow> block list action" where
  "pageToMarkdown env page_id =
     external env (\<lambda>w.
       if page_id < length (pages w) then (Inr (page_children (pages w ! page_id)), w)
       else (Inl (new_Error ''Could not find block''), w))"

text \<open>\<^verbatim>\<open>draft.properties["Blog Posts"]?.relation?.[0]?.id\<close>.\<close>

definition first_relation :: "page \<Rightarrow> nat option" where
  "first_relation draft =
     (case prop_Blog_Posts draft of
        None \<Rightarrow> None
      | Some [] \<Rightarrow> None
      | Some (b # _) \<Rightarrow> Some b)"

text \<open>The \<^verbatim>\<open>try\<close> block of \<^verbatim>\<open>run\<close> in the draft-writing script.\<close>

definition draft_run_try :: "env \<Rightarrow> action_inputs \<Rightarrow> unit action" where
  "draft_run_try env inputs =
     and_then (getInput (notion_api_key inputs) ''notion-api-key'') (\<lambda>notionApiKey.
     and_then (getInput (notion_blog_posts_id inputs) ''notion-blog-posts-id'') (\<lambda>blogPostsDb.
     and_then (getInput (notion_drafts_id inputs) ''notion-drafts-id'') (\<lambda>draftsDb.
     and_then (getInput (anthropic_api_key inputs) ''anthropic-api-key'') (\<lambda>anthropicApiKey.
     and_then (client_databases_query env draftsDb ''Ready to Start'') (\<lambda>drafts.
     case drafts of
       [] \<Rightarrow> ret ()
     | (draftId, draft) # _ \<Rightarrow>
         and_then (pageToMarkdown env draftId) (\<lambda>mdBlocks.
         let draftTitle = title_plain_text draft;
             blogPostRelation = first_relation draft;
             researchContent = toMarkdownString env mdBlocks in
         (case draftTitle of
            None \<Rightarrow> ret ()
          | Some title \<Rightarrow>
              if title = [] \<or> researchContent = [] then ret ()
              else
                and_then (updateBlogPostStatus env draftId ''Writing in Progress'') (\<lambda>_.
                and_then (case blogPostRelation of
                            None \<Rightarrow> ret ()
                          | Some b \<Rightarrow> updateBlogPostStatus env b ''Draft In Progress'') (\<lambda>_.
                and_then (generateContent env (script_system_prompt inputs title)
                            (script_user_prompt inputs title researchContent)) (\<lambda>blogPost.
                and_then (case dr_usage blogPost of
                            None \<Rightarrow> throw (new_Error
                              ''Cannot read properties of undefined (reading 'input_tokens')'')
                          | Some _ \<Rightarrow> ret ()) (\<lambda>_.
                and_then (script_createBlogDraft env draftId title (dr_content blogPost)
                            blogPostRelation draftsDb) (\<lambda>_.
                and_then (updateBlogPostStatus env draftId ''Research Processed'') (\<lambda>_.
                case blogPostRelation of
                  None \<Rightarrow> ret ()
                | Some b \<Rightarrow> updateBlogPostStatus env b ''Draft Created'')))))))))))))"

text \<open>The recovery part of its \<^verbatim>\<open>catch\<close> block, guarded by \<^verbatim>\<open>error.draftId\<close>.\<close>

definition draft_run_recover :: "env \<Rightarrow> action_inputs \<Rightarrow> js_error \<Rightarrow> unit action" where
  "draft_run_recover env inputs error =
     (case err_draftId error of
        None \<Rightarrow> ret ()
      | Some draftId \<Rightarrow>
          try_catch
            (and_then (getInput (notion_api_key inputs) ''notion-api-key'') (\<lambda>notionApiKey.
             and_then (updateBlogPostStatus env draftId ''Ready to Start'') (\<lambda>_.
             case err_blogPostId error of
               None \<Rightarrow> ret ()
             | Some b \<Rightarrow>
                 updateBlogPostError env b
                   (message_or error ''Unknown error occurred during draft writing'') True)))
            (\<lambda>resetError. ret ()))"

definition draft_run :: "env \<Rightarrow> action_inputs \<Rightarrow> world \<Rightarrow> string option \<times> world" where
  "draft_run env inputs =
     (\<lambda>w. case draft_run_try env inputs w of
            (Inr _, w') \<Rightarrow> (None, w')
          | (Inl error, w') \<Rightarrow>
              (Some (''Draft writing workflow failed: '' @ err_message error),
               snd (draft_run_recover env inputs error w')))"

text \<open>
  An error without the custom properties that the \<^verbatim>\<open>catch\<close> blocks of the scripts test,
  and an environment whose libraries (the Notion client, the markdown converters) throw
  only such errors.
\<close>

definition plain_error :: "js_error \<Rightarrow> bool" where
  "plain_error e \<longleftrightarrow> err_topicId e = None \<and> err_draftId e = None"

definition library_errors_plain :: "env \<Rightarrow> bool" where
  "library_errors_plain env \<longleftrightarrow>
     (\<forall>n e. faults env n = Some e \<longrightarrow> plain_error e) \<and>
     (\<forall>md e. markdownToBlocks env md = Inl e \<longrightarrow> plain_error e)"

subsection \<open>Selection in the TypeScript action (\<^verbatim>\<open>copilot-github-actions\<close>)\<close>

text \<open>
  \<^verbatim>\<open>GitHubClient.getFileContent\<close>: every failure is rewrapped with the path. The action
  never changes a parsed dictionary in place, so the cache of gray-matter does not show
  here.
\<close>

definition getFileContent :: "env \<Rightarrow> string \<Rightarrow> repo_file action" where
  "getFileContent env filePath =
     try_catch
       (and_then (repos_getContent env filePath) (\<lambda>data.
        case data of
          Directory \<Rightarrow> throw (new_Error ''Expected file but got directory or invalid response'')
        | File f \<Rightarrow> ret f))
       (\<lambda>error. throw (new_Error
          (''Failed to get file content for '' @ filePath @ '': '' @ err_message error)))"

text \<open>
  \<^verbatim>\<open>ResearchAction.getFilesReadyForResearch\<close>: the loop over the paths, with the list of
  ready files collected so far.
\<close>

fun getFilesReadyForResearch_from :: "env \<Rightarrow> string list \<Rightarrow> string list \<Rightarrow> string list action" where
  "getFilesReadyForResearch_from env [] readyFiles = ret readyFiles"
| "getFilesReadyForResearch_from env (filePath # rest) readyFiles =
     and_then
       (try_catch
          (and_then (getFileContent env filePath) (\<lambda>fileContent.
           if file_data fileContent ''status'' = Some (Str ''Ready for Research'')
           then ret (readyFiles @ [filePath])
           else ret readyFiles))
          (\<lambda>error. ret readyFiles))
       (\<lambda>readyFiles'. getFilesReadyForResearch_from env rest readyFiles')"

definition getFilesReadyForResearch :: "env \<Rightarrow> string list \<Rightarrow> string list action" where
  "getFilesReadyForResearch env filePaths = getFilesReadyForResearch_from env filePaths []"

subsection \<open>Sample data\<close>

text \<open>
  A concrete environment, store and set of options, on which the runs can be evaluated:
  a topic \<open>Foo\<close> that is ready for research and its research brief that is ready to be
  drafted, in Notion and as files; a research provider that answers \<open>bar\<close> without
  citations and a draft provider that answers \<open>baz\<close>; no failing call and a cache that
  does not interfere. No text of the sample opens with a fence, so the parse of such a
  text does not matter here.
\<close>

definition paragraph_block :: "string \<Rightarrow> block" where
  "paragraph_block t =
     Block ''paragraph''
       (Some [\<lparr>item_text = Some \<lparr>text_content = t, text_link = None\<rparr>, item_href = None\<rparr>])
       []"

definition sample_env :: env where
  "sample_env =
     \<lparr>faults = (\<lambda>n. None),
      perplexity = (\<lambda>n prompt. Response (Some
         \<lparr>pd_choices = Some [''bar''], pd_usage = Some 1, pd_model = ''sonar'',
          pd_citations = Some []\<rparr>)),
      anthropic = (\<lambda>n prompt.
         Inr \<lparr>cr_content = [''baz''], cr_usage = Some 1, cr_model = ''claude''\<rparr>),
      markdownToBlocks = (\<lambda>md. Inr [paragraph_block md]),
      toMarkdownString = (\<lambda>blocks. ''bar''),
      slugify = (\<lambda>t. t),
      productivityPrompt = (\<lambda>t. t),
      draftwriterSystemPrompt = (\<lambda>t. t),
      draftwriterUserPrompt = (\<lambda>t r. t),
      new_Date = (\<lambda>n. ''2025-01-01''),
      parse_front_matter = (\<lambda>n input. Inr (Map.empty, input)),
      cached_file_data = (\<lambda>n fileContent. None),
      cached_data = (\<lambda>n input. None)\<rparr>"

text \<open>The same environment with both providers failing, and with the stores down.\<close>

definition failing_providers :: env where
  "failing_providers =
     sample_env\<lparr>perplexity := (\<lambda>n prompt. Error_without_response),
                anthropic := (\<lambda>n prompt. Inl (new_Error ''Overloaded''))\<rparr>"

definition stores_down :: env where
  "stores_down = sample_env\<lparr>faults := (\<lambda>n. Some (new_Error ''Service unavailable''))\<rparr>"

text \<open>
  The same environment again, once with a store whose first call fails with an error that
  has an empty message, and once with a research provider that answers \<open>X\<close> with the
  citations \<open>A\<close> and \<open>B\<close>.
\<close>

definition silent_failure :: env where
  "silent_failure = sample_env\<lparr>faults := (\<lambda>n. if n = 0 then Some (new_Error []) else None)\<rparr>"

definition citing_provider :: env where
  "citing_provider =
     sample_env\<lparr>perplexity := (\<lambda>n prompt. Response (Some
       \<lparr>pd_choices = Some [''X''], pd_usage = Some 1, pd_model = ''sonar'',
        pd_citations = Some [''A'', ''B'']\<rparr>))\<rparr>"

definition sample_client :: NotionClient where
  "sample_client = \<lparr>blogPostsDbId = ''blog-posts'', draftsDbId = ''drafts''\<rparr>"

definition live :: options where
  "live = \<lparr>dryRun = False, singleItem = False, single_id = None\<rparr>"

definition dry :: options where
  "dry = \<lparr>dryRun = True, singleItem = False, single_id = None\<rparr>"

definition topic_Foo :: page where
  "topic_Foo =
     \<lparr>page_parent = ''blog-posts'', prop_Title = Some [''Foo''],
      prop_Status = ''Ready for Research'', prop_Type = None, prop_Blog_Posts = None,
      prop_Error = None, prop_Last_Modified_Date = None, page_children = []\<rparr>"

definition brief_Foo :: page where
  "brief_Foo =
     \<lparr>page_parent = ''drafts'', prop_Title = Some [''Foo''],
      prop_Status = ''Ready to Start'', prop_Type = Some ''Research Brief'',
      prop_Blog_Posts = Some [0], prop_Error = None, prop_Last_Modified_Date = None,
      page_children = [heading_1 ''Foo'', paragraph_block ''bar'']\<rparr>"

definition topic_file :: repo_file where
  "topic_file =
     \<lparr>file_data = [''title'' \<mapsto> Str ''Foo'', ''status'' \<mapsto> Str ''Ready for Research''],
      file_content = []\<rparr>"

definition research_file :: repo_file where
  "research_file =
     \<lparr>file_data = [''title'' \<mapsto> Str ''Foo'', ''status'' \<mapsto> Str ''Ready for Draft''],
      file_content = ''bar''\<rparr>"

definition sample_world :: world where
  "sample_world =
     \<lparr>pages = [topic_Foo, brief_Foo],
      files = [''topics/foo.md'' \<mapsto> File topic_file,
               ''research/foo.md'' \<mapsto> File research_file,
               ''blog/foo.md'' \<mapsto> File topic_file],
      clock = 0, provider_calls = []\<rparr>"

text \<open>A store whose first ready topic has an empty title, followed by the topic \<open>Foo\<close>.\<close>

definition untitled_topic :: page where
  "untitled_topic = topic_Foo\<lparr>prop_Title := Some [[]]\<rparr>"

definition untitled_world :: world where
  "untitled_world = sample_world\<lparr>pages := [untitled_topic, topic_Foo]\<rparr>"

definition sample_inputs :: action_inputs where
  "sample_inputs =
     \<lparr>notion_api_key = ''secret'', notion_blog_posts_id = ''blog-posts'',
      notion_drafts_id = ''drafts'', perplexity_api_key = ''secret'',
      anthropic_api_key = ''secret'', script_research_prompt = (\<lambda>t. t),
      script_system_prompt = (\<lambda>t. t), script_user_prompt = (\<lambda>t r. t)\<rparr>"

section \<open>Properties\<close>

subsection \<open>The transition table\<close>

text \<open>
  C9, as the code has it. The table admits the specification's state machine and, beyond
  it, exactly the eight pairs of \<open>additional_transitions\<close>: \<open>Error\<close> is also reachable
  from the two entry states, from \<open>Ready for Review\<close> and from \<open>Draft Complete\<close>;
  \<open>Draft In Progress\<close> may pass through \<open>Draft Complete\<close>; \<open>Ready for Review\<close> is not
  terminal but leads to \<open>Published\<close>; and \<open>Error\<close> may recover to \<open>Ready for Review\<close>.
\<close>

theorem C9_transition_table:
  "isValidStatusTransition from to =
     (spec_transition from to \<or> (from, to) \<in> set additional_transitions)"
  by (cases "from"; cases to)
     (simp_all add: isValidStatusTransition_def additional_transitions_def)

text \<open>
  C9, as the specification states it, fails: the table lets an item go from the entry
  state \<open>Ready for Research\<close> straight to \<open>Error\<close>, which is not an in-progress state.
\<close>

theorem C9_counterexample:
  "isValidStatusTransition Ready_for_Research Error
   \<and> \<not> spec_transition Ready_for_Research Error"
  by (simp add: isValidStatusTransition_def)


subsection \<open>Effects of the store operations\<close>

lemma and_thenE:
  assumes "and_then m f w = (r, w2)"
  obtains (throws) e where "m w = (Inl e, w2)" "r = Inl e"
        | (returns) x w1 where "m w = (Inr x, w1)" "f x w1 = (r, w2)"
  using assms by (auto simp: and_then_def split: prod.splits sum.splits)

lemma try_catchE:
  assumes "try_catch m h w = (r, w2)"
  obtains (caught) e w1 where "m w = (Inl e, w1)" "h e w1 = (r, w2)"
        | (returns) x where "m w = (Inr x, w2)" "r = Inr x"
  using assms by (auto simp: try_catch_def split: prod.splits sum.splits)

lemma ret_eq [simp]: "ret x w = (r, w') \<longleftrightarrow> r = Inr x \<and> w' = w"
  by (auto simp: ret_def)

lemma throw_eq [simp]: "throw e w = (r, w') \<longleftrightarrow> r = Inl e \<and> w' = w"
  by (auto simp: throw_def)

lemma lift_eq [simp]: "lift x w = (r, w') \<longleftrightarrow> x = r \<and> w' = w"
  by (auto simp: lift_def)

lemma client_pages_update_effect:
  assumes "client_pages_update env i u w = (r, w')"
  shows "clock w' = Suc (clock w) \<and> files w' = files w \<and> provider_calls w' = provider_calls w \<and>
         (case r of
            Inr _ \<Rightarrow> faults env (clock w) = None \<and> i < length (pages w) \<and>
                     pages w' = (pages w)[i := apply_update u (pages w ! i)]
          | Inl e \<Rightarrow> pages w' = pages w)"
  using assms by (auto simp: client_pages_update_def external_def split: option.splits if_splits)

lemma updateBlogPostStatus_effect:
  assumes "updateBlogPostStatus env i s w = (r, w')"
  shows "clock w' = Suc (clock w) \<and> files w' = files w \<and> provider_calls w' = provider_calls w \<and>
         (case r of
            Inr _ \<Rightarrow> faults env (clock w) = None \<and> i < length (pages w) \<and>
                     pages w' = (pages w)[i := (pages w ! i)\<lparr>prop_Status := s\<rparr>]
          | Inl e \<Rightarrow> pages w' = pages w)"
  using assms unfolding updateBlogPostStatus_def
  by (auto elim!: try_catchE dest!: client_pages_update_effect simp: apply_update_def status_update_def)

lemma updateBlogPostError_effect:
  assumes "updateBlogPostError env i msg True w = (r, w')"
  shows "r = Inr () \<and> clock w' = Suc (clock w) \<and> files w' = files w \<and> provider_calls w' = provider_calls w \<and>
         (pages w' = pages w \<or> 
          faults env (clock w) = None \<and> i < length (pages w) \<and>
          pages w' = (pages w)[i := (pages w ! i)\<lparr>prop_Status := ''Error'', prop_Error := Some msg\<rparr>])"
  using assms unfolding updateBlogPostError_def
  by (auto elim!: try_catchE dest!: client_pages_update_effect simp: apply_update_def)

lemma client_blocks_children_append_effect:
  assumes "client_blocks_children_append env b new w = (r, w')"
  shows "clock w' = Suc (clock w) \<and> files w' = files w \<and> provider_calls w' = provider_calls w \<and>
         (case r of
            Inr _ \<Rightarrow> faults env (clock w) = None \<and> b < length (pages w) \<and>
                     pages w' = (pages w)[b := (pages w ! b)\<lparr>page_children := page_children (pages w ! b) @ new\<rparr>]
          | Inl e \<Rightarrow> pages w' = pages w)"
  using assms by (auto simp: client_blocks_children_append_def external_def split: option.splits if_splits)

lemma appendBlocksInBatches_from_frame:
  "appendBlocksInBatches_from env b blocks i w = (r, w') \<Longrightarrow>
     files w' = files w \<and> provider_calls w' = provider_calls w \<and>
     length (pages w') = length (pages w) \<and> clock w \<le> clock w' \<and>
     (\<forall>j. j \<noteq> b \<longrightarrow> pages w' ! j = pages w ! j)"
proof (induction env b blocks i arbitrary: w rule: appendBlocksInBatches_from.induct)
  case (1 env b blocks i)
  show ?case
  proof (cases "i < length blocks")
    case False
    with "1.prems" show ?thesis by (simp add: appendBlocksInBatches_from.simps)
  next
    case True
    with "1.prems" have
      "and_then (client_blocks_children_append env b (take 100 (drop i blocks)))
         (\<lambda>_. appendBlocksInBatches_from env b blocks (i + 100)) w = (r, w')"
      by (simp add: appendBlocksInBatches_from.simps)
    then show ?thesis
    proof (cases rule: and_thenE)
      case (throws e)
      then show ?thesis by (auto dest!: client_blocks_children_append_effect)
    next
      case (returns x w1)
      from "1.IH" [OF True returns(2)] client_blocks_children_append_effect [OF returns(1)]
      show ?thesis by auto
    qed
  qed
qed

lemma appendBlocksInBatches_from_success:
  "appendBlocksInBatches_from env b blocks i w = (Inr u, w') \<Longrightarrow> b < length (pages w) \<Longrightarrow>
     pages w' = (pages w)[b := (pages w ! b)\<lparr>page_children := page_children (pages w ! b) @ drop i blocks\<rparr>]"
proof (induction env b blocks i arbitrary: w rule: appendBlocksInBatches_from.induct)
  case (1 env b blocks i)
  show ?case
  proof (cases "i < length blocks")
    case False
    with "1.prems" show ?thesis by (simp add: appendBlocksInBatches_from.simps list_update_same_conv)
  next
    case True
    with "1.prems" have
      "and_then (client_blocks_children_append env b (take 100 (drop i blocks)))
         (\<lambda>_. appendBlocksInBatches_from env b blocks (i + 100)) w = (Inr u, w')"
      by (simp add: appendBlocksInBatches_from.simps)
    then show ?thesis
    proof (cases rule: and_thenE)
      case (throws e)
      then show ?thesis by simp
    next
      case (returns x w1)
      from client_blocks_children_append_effect [OF returns(1)]
      have w1: "pages w1 = (pages w)[b := (pages w ! b)\<lparr>page_children := page_children (pages w ! b) @ take 100 (drop i blocks)\<rparr>]"
        by simp
      then have "b < length (pages w1)" using "1.prems"(2) by simp
      from "1.IH" [OF True returns(2) this] w1 "1.prems"(2)
      have "pages w' = (pages w)[b := (pages w ! b)\<lparr>page_children :=
               (page_children (pages w ! b) @ take 100 (drop i blocks)) @ drop (i + 100) blocks\<rparr>]"
        by simp
      moreover have "take 100 (drop i blocks) @ drop (i + 100) blocks = drop i blocks"
        by (metis add.commute append_take_drop_id drop_drop)
      ultimately show ?thesis by simp
    qed
  qed
qed

lemma client_pages_create_effect:
  assumes "client_pages_create env p w = (r, w')"
  shows "clock w' = Suc (clock w) \<and> files w' = files w \<and> provider_calls w' = provider_calls w \<and>
         (case r of
            Inr n \<Rightarrow> faults env (clock w) = None \<and> n = length (pages w) \<and> pages w' = pages w @ [p]
          | Inl e \<Rightarrow> pages w' = pages w)"
  using assms by (auto simp: client_pages_create_def external_def split: option.splits if_splits)

lemma createResearchBrief_frame:
  assumes "createResearchBrief env this b title md w = (r, w')"
  shows "files w' = files w \<and> provider_calls w' = provider_calls w \<and>
         length (pages w) \<le> length (pages w') \<and> clock w \<le> clock w' \<and>
         (\<forall>j < length (pages w). j \<noteq> b \<longrightarrow> pages w' ! j = pages w ! j)"
  using assms unfolding createResearchBrief_def appendBlocksInBatches_def Let_def
  by (auto elim!: try_catchE and_thenE
      dest!: client_pages_create_effect appendBlocksInBatches_from_frame updateBlogPostStatus_effect
      simp: nth_append split: sum.splits)

lemma researchTopic_effect:
  assumes "researchTopic env prompt w = (r, w')"
  shows "pages w' = pages w \<and> files w' = files w \<and> clock w' = Suc (clock w) \<and>
         provider_calls w' = provider_calls w @ [(prompt, pages w, files w)]"
  using assms
  by (auto simp: researchTopic_def research_outcome_def
      split: axios_outcome.splits option.splits list.splits)

lemma generateContent_effect:
  assumes "generateContent env sys prompt w = (r, w')"
  shows "pages w' = pages w \<and> files w' = files w \<and> clock w' = Suc (clock w) \<and>
         provider_calls w' = provider_calls w @ [(prompt, pages w, files w)]"
  using assms
  by (auto simp: generateContent_def draft_outcome_def split: sum.splits list.splits)

lemma processTopic_calls:
  assumes "processTopic env this opts topicId topicTitle w = (r, w')"
  shows "\<exists>new. provider_calls w' = provider_calls w @ new \<and>
           (\<forall>(request, ps, fs) \<in> set new.
              topicId < length ps \<and> prop_Status (ps ! topicId) = ''Research In Progress'')"
  using assms unfolding processTopic_def processTopic_try_def processTopic_catch_def Let_def
  by (auto elim!: try_catchE and_thenE
      dest!: updateBlogPostStatus_effect updateBlogPostError_effect researchTopic_effect
        createResearchBrief_frame
      split: if_splits option.splits)

lemma repos_getContent_effect:
  assumes "repos_getContent env path w = (r, w')"
  shows "w' = w\<lparr>clock := Suc (clock w)\<rparr> \<and>
         (case r of Inr d \<Rightarrow> faults env (clock w) = None \<and> files w path = Some d | Inl e \<Rightarrow> True)"
  using assms by (auto simp: repos_getContent_def external_def split: option.splits)

lemma readFile_effect:
  assumes "readFile env path w = (r, w')"
  shows "w' = w\<lparr>clock := Suc (clock w)\<rparr> \<and>
         (case r of Inr f \<Rightarrow> faults env (clock w) = None \<and> files w path = Some (File f) | Inl e \<Rightarrow> True)"
  using assms unfolding readFile_def
  by (auto elim!: try_catchE and_thenE dest!: repos_getContent_effect split: entry.splits)

lemma getFileSha_effect:
  assumes "getFileSha env path w = (r, w')"
  shows "w' = w\<lparr>clock := Suc (clock w)\<rparr> \<and>
         (case r of
            Inr sha \<Rightarrow> faults env (clock w) = None \<and>
              (case sha of Some f \<Rightarrow> files w path = Some (File f) | None \<Rightarrow> files w path = Some Directory)
          | Inl e \<Rightarrow> True)"
  using assms unfolding getFileSha_def
  by (auto elim!: and_thenE dest!: repos_getContent_effect split: entry.splits)

lemma repos_createOrUpdateFileContents_effect:
  assumes "repos_createOrUpdateFileContents env path new sha w = (r, w')"
  shows "clock w' = Suc (clock w) \<and> pages w' = pages w \<and> provider_calls w' = provider_calls w \<and>
         (case r of
            Inr _ \<Rightarrow> faults env (clock w) = None \<and> files w' = (files w)(path \<mapsto> File new) \<and>
                     (case files w path of None \<Rightarrow> True | Some d \<Rightarrow> (\<exists>old. d = File old \<and> sha = Some old))
          | Inl e \<Rightarrow> files w' = files w)"
  using assms
  by (auto simp: repos_createOrUpdateFileContents_def external_def split: option.splits entry.splits if_splits)

lemma writeFile_effect:
  assumes "writeFile env path new None w = (r, w')"
  shows "clock w' = Suc (Suc (clock w)) \<and> pages w' = pages w \<and> provider_calls w' = provider_calls w \<and>
         (case r of
            Inr _ \<Rightarrow> faults env (Suc (clock w)) = None \<and> files w' = (files w)(path \<mapsto> File new)
          | Inl e \<Rightarrow> files w' = files w)"
  using assms unfolding writeFile_def
  by (auto elim!: try_catchE and_thenE
      dest!: getFileSha_effect repos_createOrUpdateFileContents_effect split: sum.splits)

lemma createFile_effect:
  assumes "createFile env path new w = (r, w')"
  shows "clock w' = Suc (clock w) \<and> pages w' = pages w \<and> provider_calls w' = provider_calls w \<and>
         (case r of
            Inr _ \<Rightarrow> faults env (clock w) = None \<and> files w path = None \<and>
                     files w' = (files w)(path \<mapsto> File new)
          | Inl e \<Rightarrow> files w' = files w)"
  using assms unfolding createFile_def
  by (auto elim!: try_catchE dest!: repos_createOrUpdateFileContents_effect
      split: sum.splits option.splits)

lemma newline_idem [simp]: "newline (newline str) = newline str"
  by (simp add: newline_def)

lemma newline_not_empty [simp]: "newline str \<noteq> []"
  by (simp add: newline_def)

lemma newline_ends_in_line_feed [simp]: "newline (str @ ''\<newline>'') = str @ ''\<newline>''"
  by (simp add: newline_def)

lemma opens_front_matter_newline [simp]:
  "opens_front_matter (newline str) = opens_front_matter str"
proof (cases "length str < 4")
  case False
  then show ?thesis by (simp add: opens_front_matter_def newline_def)
next
  case True
  then consider "str = []" | a where "str = [a]" | a b where "str = [a, b]"
    | a b c where "str = [a, b, c]"
    by (cases str; simp; cases "tl str"; simp; cases "tl (tl str)"; simp)
  then show ?thesis
    by cases (auto simp: opens_front_matter_def newline_def)
qed

lemma matter_effect:
  assumes "matter env input w = (r, w')"
  shows "w' = w \<and>
         (case r of
            Inr (file_data0, content) \<Rightarrow>
              \<not> opens_front_matter input \<longrightarrow>
                content = input \<and>
                (input = [] \<or> cached_data env (clock w) input = None \<longrightarrow>
                   file_data0 = Map.empty)
          | Inl e \<Rightarrow> opens_front_matter input)"
  using assms by (auto simp: matter_def opens_front_matter_def split: if_splits option.splits sum.splits)

lemma matter_stringify_effect:
  assumes "matter_stringify env str data w = (r, w')"
  shows "w' = w \<and>
         (case r of
            Inr f \<Rightarrow>
              (\<exists>file_data0. file_data f = file_data0 ++ data) \<and>
              (\<not> opens_front_matter str \<longrightarrow> file_content f = newline str \<and>
                 (str = [] \<or> cached_data env (clock w) str = None \<longrightarrow> file_data f = data))
          | Inl e \<Rightarrow> opens_front_matter str)"
  using assms unfolding matter_stringify_def
proof (cases rule: and_thenE)
  case (throws e)
  with matter_effect [OF throws(1)] show ?thesis by simp
next
  case (returns x w1)
  obtain file_data0 content where x: "x = (file_data0, content)" by (cases x)
  from matter_effect [OF returns(1)] x have
    "w1 = w" "\<not> opens_front_matter str \<longrightarrow>
                content = str \<and>
                (str = [] \<or> cached_data env (clock w) str = None \<longrightarrow> file_data0 = Map.empty)"
    by auto
  moreover from returns(2) x have
    "r = Inr \<lparr>file_data = file_data0 ++ data, file_content = newline content\<rparr>" "w' = w1"
    by simp_all
  ultimately show ?thesis by auto
qed

lemma matter_file_effect:
  assumes "matter_file env f w = (r, w')"
  shows "w' = w \<and>
         (\<exists>data. r = Inr (data, file_content f) \<and>
            (cached_file_data env (clock w) f = None \<longrightarrow> data = file_data f))"
  using assms by (auto simp: matter_file_def split: option.splits)

text \<open>
  What an update of the front matter does to the store. When it succeeds the file has the
  keys of the update, whatever the cache does; its body is the old one with a line feed
  at its end, unless the old body itself opens with a fence. When it fails the store is
  as before.
\<close>

lemma updateYamlFrontMatter_success:
  assumes "updateYamlFrontMatter env path updates w = (Inr u, w')"
  obtains f f' file_data0 frontMatter where
    "files w path = Some (File f)"
    "files w' = (files w)(path \<mapsto> File f')"
    "file_data f' = file_data0 ++ apply_updates updates frontMatter"
    "\<not> opens_front_matter (file_content f) \<Longrightarrow> file_content f' = newline (file_content f)"
    "\<not> opens_front_matter (file_content f) \<Longrightarrow>
     cached_file_data env (Suc (clock w)) f = None \<Longrightarrow>
     file_content f = [] \<or> cached_data env (Suc (clock w)) (file_content f) = None \<Longrightarrow>
     file_data f' = apply_updates updates (file_data f)"
    "clock w' = clock w + 3" "pages w' = pages w" "provider_calls w' = provider_calls w"
    "faults env (clock w) = None" "faults env (Suc (Suc (clock w))) = None"
  using assms unfolding updateYamlFrontMatter_def
proof (cases rule: and_thenE)
  case (throws e)
  then show ?thesis by simp
next
  case read: (returns f w1)
  from readFile_effect [OF read(1)] have
    w1: "w1 = w\<lparr>clock := Suc (clock w)\<rparr>" "faults env (clock w) = None"
      "files w path = Some (File f)"
    by simp_all
  from read(2) show ?thesis
  proof (cases rule: and_thenE)
    case (throws e)
    then show ?thesis by simp
  next
    case parsed: (returns x w2)
    obtain frontMatter content where x: "x = (frontMatter, content)" by (cases x)
    from matter_file_effect [OF parsed(1)] x have
      w2: "w2 = w1" "content = file_content f"
        "cached_file_data env (clock w1) f = None \<longrightarrow> frontMatter = file_data f"
      by auto
    from parsed(2) x have
      "and_then (matter_stringify env content (apply_updates updates frontMatter))
         (\<lambda>updatedFileContent. writeFile env path updatedFileContent None) w2 = (Inr u, w')"
      by simp
    then show ?thesis
    proof (cases rule: and_thenE)
      case (throws e)
      then show ?thesis by simp
    next
      case written: (returns f' w3)
      from matter_stringify_effect [OF written(1)] obtain file_data0 where
        f': "w3 = w2" "file_data f' = file_data0 ++ apply_updates updates frontMatter"
          "\<not> opens_front_matter content \<longrightarrow> file_content f' = newline content \<and>
             (content = [] \<or> cached_data env (clock w2) content = None \<longrightarrow>
                file_data f' = apply_updates updates frontMatter)"
        by auto
      from writeFile_effect [OF written(2)] f'(1) w2(1) w1(1) have
        w': "clock w' = clock w + 3" "pages w' = pages w" "provider_calls w' = provider_calls w"
          "faults env (Suc (Suc (clock w))) = None"
          "files w' = (files w)(path \<mapsto> File f')"
        by simp_all
      show ?thesis
      proof (rule that [of f f' file_data0 frontMatter])
        show "files w path = Some (File f)" by (rule w1(3))
        show "files w' = (files w)(path \<mapsto> File f')" by (rule w'(5))
        show "file_data f' = file_data0 ++ apply_updates updates frontMatter" by (rule f'(2))
        show "file_content f' = newline (file_content f)"
          if "\<not> opens_front_matter (file_content f)"
          using that f'(3) w2(2) by simp
        show "file_data f' = apply_updates updates (file_data f)"
          if "\<not> opens_front_matter (file_content f)"
            "cached_file_data env (Suc (clock w)) f = None"
            "file_content f = [] \<or> cached_data env (Suc (clock w)) (file_content f) = None"
          using that f'(3) w2 w1(1) by auto
      qed (rule w' w1)+
    qed
  qed
qed

lemma updateYamlFrontMatter_effect:
  assumes "updateYamlFrontMatter env path updates w = (r, w')"
  shows "clock w < clock w' \<and> pages w' = pages w \<and> provider_calls w' = provider_calls w \<and>
         (case r of
            Inr _ \<Rightarrow> clock w' = clock w + 3 \<and>
               (\<exists>f f' file_data0 frontMatter.
                 files w path = Some (File f) \<and>
                 files w' = (files w)(path \<mapsto> File f') \<and>
                 file_data f' = file_data0 ++ apply_updates updates frontMatter)
          | Inl e \<Rightarrow> files w' = files w)"
proof (cases r)
  case (Inr u)
  with assms have ran: "updateYamlFrontMatter env path updates w = (Inr u, w')" by simp
  show ?thesis
  proof (rule updateYamlFrontMatter_success [OF ran])
    fix f f' file_data0 frontMatter
    assume "files w path = Some (File f)" "files w' = (files w)(path \<mapsto> File f')"
      "file_data f' = file_data0 ++ apply_updates updates frontMatter"
      "clock w' = clock w + 3" "pages w' = pages w" "provider_calls w' = provider_calls w"
    with Inr show ?thesis by auto
  qed
next
  case (Inl e)
  with assms show ?thesis unfolding updateYamlFrontMatter_def
    by (auto elim!: and_thenE
        dest!: readFile_effect writeFile_effect matter_file_effect matter_stringify_effect
        split: sum.splits prod.splits)
qed

lemma git_processTopic_calls:
  assumes "git_processTopic env opts path title fm w = (r, w')"
  shows "\<exists>new. provider_calls w' = provider_calls w @ new \<and>
           (\<forall>(request, ps, fs) \<in> set new.
              \<exists>f. fs path = Some (File f) \<and>
                  file_data f ''status'' = Some (Str ''Research In Progress''))"
  using assms unfolding git_processTopic_def git_processTopic_try_def git_processTopic_catch_def Let_def
  by (auto elim!: try_catchE and_thenE
      dest!: updateYamlFrontMatter_effect researchTopic_effect writeFile_effect
        matter_stringify_effect
      split: if_splits sum.splits)

lemma createBlogDraft_frame:
  assumes "createBlogDraft env this b title md rel w = (r, w')"
  shows "files w' = files w \<and> provider_calls w' = provider_calls w \<and>
         length (pages w) \<le> length (pages w') \<and> clock w \<le> clock w' \<and>
         (\<forall>j < length (pages w). pages w' ! j = pages w ! j)"
  using assms unfolding createBlogDraft_def appendBlocksInBatches_def Let_def
  by (auto elim!: try_catchE and_thenE
      dest!: client_pages_create_effect appendBlocksInBatches_from_frame
      simp: nth_append split: sum.splits)

lemma processDraft_catch_effect:
  assumes "processDraft_catch env draftId blogPostId error w = (r, w')"
  shows "r = Inr () \<and> provider_calls w' = provider_calls w \<and> files w' = files w \<and>
         length (pages w') = length (pages w)"
  using assms unfolding processDraft_catch_def
  by (auto elim!: try_catchE and_thenE
      dest!: updateBlogPostStatus_effect updateBlogPostError_effect
      split: option.splits sum.splits)

lemma processDraft_try_calls:
  assumes "processDraft_try env this opts draftId draftTitle researchContent blogPostId w = (r, w')"
    and "blogPostId \<noteq> Some draftId"
  shows "\<exists>new. provider_calls w' = provider_calls w @ new \<and>
           (\<forall>(request, ps, fs) \<in> set new.
              draftId < length ps \<and> prop_Status (ps ! draftId) = ''Writing in Progress'')"
  using assms unfolding processDraft_try_def Let_def
  by (auto elim!: and_thenE
      dest!: updateBlogPostStatus_effect generateContent_effect createBlogDraft_frame
      split: if_splits option.splits sum.splits)

lemma processDraft_calls:
  assumes "processDraft env this opts draftId draftTitle researchContent blogPostId w = (r, w')"
    and "blogPostId \<noteq> Some draftId"
  shows "\<exists>new. provider_calls w' = provider_calls w @ new \<and>
           (\<forall>(request, ps, fs) \<in> set new.
              draftId < length ps \<and> prop_Status (ps ! draftId) = ''Writing in Progress'')"
  using assms(1) unfolding processDraft_def
proof (cases rule: try_catchE)
  case (caught e w1)
  from processDraft_try_calls [OF caught(1) assms(2)] processDraft_catch_effect [OF caught(2)]
  show ?thesis by simp
next
  case (returns x)
  from processDraft_try_calls [OF returns(1) assms(2)] show ?thesis .
qed

lemma git_processDraft_catch_effect:
  assumes "git_processDraft_catch env researchFilePath originalBlogFilePath error w = (r, w')"
  shows "r = Inr () \<and> provider_calls w' = provider_calls w \<and> pages w' = pages w"
  using assms unfolding git_processDraft_catch_def command_getFileSha_def
  by (auto elim!: try_catchE and_thenE
      dest!: updateYamlFrontMatter_effect getFileSha_effect
      split: if_splits sum.splits)

lemma git_processDraft_try_calls:
  assumes "git_processDraft_try env dir path title research blog fm w = (r, w')"
  shows "\<exists>new. provider_calls w' = provider_calls w @ new \<and>
           (\<forall>(request, ps, fs) \<in> set new.
              \<exists>f. fs path = Some (File f) \<and>
                  file_data f ''status'' = Some (Str ''Draft In Progress''))"
  using assms unfolding git_processDraft_try_def Let_def
  by (auto elim!: and_thenE
      dest!: updateYamlFrontMatter_effect generateContent_effect createFile_effect
        matter_stringify_effect
      split: if_splits sum.splits)

lemma git_processDraft_calls:
  assumes "git_processDraft env opts dir path title research blog fm w = (r, w')"
  shows "\<exists>new. provider_calls w' = provider_calls w @ new \<and>
           (\<forall>(request, ps, fs) \<in> set new.
              \<exists>f. fs path = Some (File f) \<and>
                  file_data f ''status'' = Some (Str ''Draft In Progress''))"
proof (cases "dryRun opts")
  case True
  with assms show ?thesis by (simp add: git_processDraft_def)
next
  case False
  with assms have "try_catch (git_processDraft_try env dir path title research blog fm)
      (git_processDraft_catch env path blog) w = (r, w')"
    by (simp add: git_processDraft_def)
  then show ?thesis
  proof (cases rule: try_catchE)
    case (caught e w1)
    from git_processDraft_try_calls [OF caught(1)] git_processDraft_catch_effect [OF caught(2)]
    show ?thesis by simp
  next
    case (returns x)
    from git_processDraft_try_calls [OF returns(1)] show ?thesis .
  qed
qed

subsection \<open>The in-progress write precedes the provider call\<close>

lemmas run_defs = and_then_def try_catch_def ret_def throw_def lift_def external_def Let_def
  client_pages_update_def client_pages_create_def client_blocks_children_append_def
  client_databases_query_def updateBlogPostStatus_def updateBlogPostError_def
  createResearchBrief_def createBlogDraft_def appendBlocksInBatches_def
  appendBlocksInBatches_from.simps researchTopic_def generateContent_def
  research_outcome_def draft_outcome_def
  processTopic_def processTopic_try_def processTopic_catch_def status_update_def apply_update_def
  processDraft_def processDraft_try_def processDraft_catch_def
  enhanceContent_def heading_1_def message_or_def delete_link_def new_Error_def invalid_response_def
  repos_getContent_def repos_createOrUpdateFileContents_def getFileSha_def readFile_def
  writeFile_def createFile_def updateYamlFrontMatter_def git_processTopic_def
  git_processTopic_try_def git_processTopic_catch_def git_processDraft_def
  git_processDraft_try_def git_processDraft_catch_def command_getFileSha_def
  draftFrontMatter_def draft_path_def truthy_def
  matter_def matter_file_def matter_stringify_def newline_def opens_front_matter_def

lemmas sample_defs = sample_env_def failing_providers_def stores_down_def silent_failure_def
  citing_provider_def sample_client_def
  live_def dry_def topic_Foo_def brief_Foo_def topic_file_def research_file_def sample_world_def
  sample_inputs_def paragraph_block_def untitled_topic_def untitled_world_def

text \<open>
  C1. Whatever the environment does, every request that a run of a stage sends to its
  provider finds the item in the stage's in-progress status in the store: the write of
  that status has succeeded before the call. This holds for the research and the draft
  stage of the Notion-backed commands (status \<open>Research In Progress\<close> of the topic,
  \<open>Writing in Progress\<close> of the brief) and of the Git-backed ones (\<open>Research In
  Progress\<close> and \<open>Draft In Progress\<close> in the front matter of the file).
\<close>

theorem C1_in_progress_before_provider:
  "(processTopic env this opts topicId topicTitle w = (r1, w1) \<longrightarrow>
      (\<exists>new. provider_calls w1 = provider_calls w @ new \<and>
         (\<forall>(request, ps, fs) \<in> set new.
            topicId < length ps \<and> prop_Status (ps ! topicId) = ''Research In Progress'')))
   \<and> (git_processTopic env opts topicFilePath topicTitle frontMatter w = (r2, w2) \<longrightarrow>
      (\<exists>new. provider_calls w2 = provider_calls w @ new \<and>
         (\<forall>(request, ps, fs) \<in> set new.
            \<exists>f. fs topicFilePath = Some (File f) \<and>
                file_data f ''status'' = Some (Str ''Research In Progress''))))
   \<and> (processDraft env this opts draftId draftTitle researchContent blogPostId w = (r3, w3) \<and>
       blogPostId \<noteq> Some draftId \<longrightarrow>
      (\<exists>new. provider_calls w3 = provider_calls w @ new \<and>
         (\<forall>(request, ps, fs) \<in> set new.
            draftId < length ps \<and> prop_Status (ps ! draftId) = ''Writing in Progress'')))
   \<and> (git_processDraft env opts contentDirDrafts researchFilePath draftTitle researchContent
         originalBlogFilePath briefFrontMatter w = (r4, w4) \<longrightarrow>
      (\<exists>new. provider_calls w4 = provider_calls w @ new \<and>
         (\<forall>(request, ps, fs) \<in> set new.
            \<exists>f. fs researchFilePath = Some (File f) \<and>
                file_data f ''status'' = Some (Str ''Draft In Progress''))))"
  by (intro conjI impI; (elim conjE)?;
      (rule processTopic_calls git_processTopic_calls processDraft_calls git_processDraft_calls;
       assumption))

lemma sample_research_calls:
  "provider_calls (snd (processTopic sample_env sample_client live 0 ''Foo'' sample_world)) \<noteq> []"
  by (simp add: run_defs sample_defs)

lemma sample_git_research_calls:
  "provider_calls (snd (git_processTopic sample_env live ''topics/foo.md'' ''Foo''
      (file_data topic_file) sample_world)) \<noteq> []"
  by (simp add: run_defs sample_defs)

lemma sample_draft_calls:
  "provider_calls (snd (processDraft sample_env sample_client live 1 ''Foo'' ''bar'' (Some 0) sample_world)) \<noteq> []"
  by (simp add: run_defs sample_defs)

lemma sample_git_draft_calls:
  "provider_calls (snd (git_processDraft sample_env live ''drafts'' ''research/foo.md'' ''Foo'' ''bar''
      ''blog/foo.md'' (file_data research_file) sample_world)) \<noteq> []"
  by (simp add: run_defs sample_defs)

text \<open>On the sample data each of the four runs does call its provider.\<close>

theorem C1_witness:
  "(let calls = provider_calls (snd (processTopic sample_env sample_client live 0 ''Foo'' sample_world))
    in calls \<noteq> [] \<and>
       (\<forall>(request, ps, fs) \<in> set calls.
          0 < length ps \<and> prop_Status (ps ! 0) = ''Research In Progress''))
   \<and> (let calls = provider_calls (snd (git_processTopic sample_env live ''topics/foo.md'' ''Foo''
                      (file_data topic_file) sample_world))
      in calls \<noteq> [] \<and>
         (\<forall>(request, ps, fs) \<in> set calls.
            \<exists>f. fs ''topics/foo.md'' = Some (File f) \<and>
                file_data f ''status'' = Some (Str ''Research In Progress'')))
   \<and> (let calls = provider_calls (snd (processDraft sample_env sample_client live 1 ''Foo'' ''bar''
                      (Some 0) sample_world))
      in calls \<noteq> [] \<and>
         (\<forall>(request, ps, fs) \<in> set calls.
            1 < length ps \<and> prop_Status (ps ! 1) = ''Writing in Progress''))
   \<and> (let calls = provider_calls (snd (git_processDraft sample_env live ''drafts''
                      ''research/foo.md'' ''Foo'' ''bar'' ''blog/foo.md''
                      (file_data research_file) sample_world))
      in calls \<noteq> [] \<and>
         (\<forall>(request, ps, fs) \<in> set calls.
            \<exists>f. fs ''research/foo.md'' = Some (File f) \<and>
                file_data f ''status'' = Some (Str ''Draft In Progress'')))"
  using C1_in_progress_before_provider
    [where env = sample_env and this = sample_client and opts = live and w = sample_world
       and topicId = 0 and topicTitle = "''Foo''" and topicFilePath = "''topics/foo.md''"
       and frontMatter = "file_data topic_file"
       and draftId = 1 and draftTitle = "''Foo''" and researchContent = "''bar''"
       and blogPostId = "Some 0" and contentDirDrafts = "''drafts''"
       and researchFilePath = "''research/foo.md''" and originalBlogFilePath = "''blog/foo.md''"
       and briefFrontMatter = "file_data research_file"
       and ?r1.0 = "fst (processTopic sample_env sample_client live 0 ''Foo'' sample_world)"
       and ?w1.0 = "snd (processTopic sample_env sample_client live 0 ''Foo'' sample_world)"
       and ?r2.0 = "fst (git_processTopic sample_env live ''topics/foo.md'' ''Foo''
                      (file_data topic_file) sample_world)"
       and ?w2.0 = "snd (git_processTopic sample_env live ''topics/foo.md'' ''Foo''
                      (file_data topic_file) sample_world)"
       and ?r3.0 = "fst (processDraft sample_env sample_client live 1 ''Foo'' ''bar''
                      (Some 0) sample_world)"
       and ?w3.0 = "snd (processDraft sample_env sample_client live 1 ''Foo'' ''bar''
                      (Some 0) sample_world)"
       and ?r4.0 = "fst (git_processDraft sample_env live ''drafts''
                      ''research/foo.md'' ''Foo'' ''bar'' ''blog/foo.md''
                      (file_data research_file) sample_world)"
       and ?w4.0 = "snd (git_processDraft sample_env live ''drafts''
                      ''research/foo.md'' ''Foo'' ''bar'' ''blog/foo.md''
                      (file_data research_file) sample_world)"]
    sample_research_calls sample_git_research_calls sample_draft_calls sample_git_draft_calls
  by (simp add: sample_world_def)

subsection \<open>Failures\<close>

lemma processTopic_catch_effect:
  assumes "processTopic_catch env topicId error w = (r, w')"
  shows "r = Inr () \<and>
         pages w' =
           (if faults env (clock w) = None \<and> topicId < length (pages w)
            then (pages w)[topicId := (pages w ! topicId)
                   \<lparr>prop_Status := ''Error'',
                    prop_Error := Some (message_or error ''Unknown error occurred during research'')\<rparr>]
            else pages w)"
  using assms
  by (auto simp: processTopic_catch_def updateBlogPostError_def client_pages_update_def
        external_def apply_update_def try_catch_def Let_def
      split: option.splits if_splits)

lemma processDraft_catch_pages:
  assumes "processDraft_catch env draftId blogPostId error w = (r, w')"
  shows "pages w' =
           (let ps = (if faults env (clock w) = None \<and> draftId < length (pages w)
                      then (pages w)[draftId :=
                             (pages w ! draftId)\<lparr>prop_Status := ''Ready to Start''\<rparr>]
                      else pages w)
            in case blogPostId of
                 None \<Rightarrow> ps
               | Some b \<Rightarrow>
                   if faults env (Suc (clock w)) = None \<and> b < length ps
                   then ps[b := (ps ! b)
                          \<lparr>prop_Status := ''Error'',
                           prop_Error := Some (message_or error
                             ''Unknown error occurred during draft writing'')\<rparr>]
                   else ps)"
  using assms
  by (auto simp: processDraft_catch_def updateBlogPostError_def updateBlogPostStatus_def
        client_pages_update_def status_update_def
        external_def apply_update_def try_catch_def and_then_def ret_def throw_def Let_def
      split: option.splits if_splits)

text \<open>
  The write of an error by \<^verbatim>\<open>updateYamlFrontMatter\<close>: when it fails the store is as before,
  when it succeeds the file carries the status and the message.
\<close>

lemma error_update_effect:
  assumes "updateYamlFrontMatter env path
             [(''status'', Some (Str ''Error'')), (''error_message'', Some (Str msg))] w = (r, w')"
  shows "pages w' = pages w \<and> provider_calls w' = provider_calls w \<and>
         (case r of
            Inl e \<Rightarrow> files w' = files w
          | Inr _ \<Rightarrow>
              (\<exists>f f'. files w path = Some (File f) \<and> files w' = (files w)(path \<mapsto> File f') \<and>
                 file_data f' ''status'' = Some (Str ''Error'') \<and>
                 file_data f' ''error_message'' = Some (Str msg)))"
  using updateYamlFrontMatter_effect [OF assms]
  by (cases r) (auto simp: map_add_def)

text \<open>
  An update goes through when the three calls it makes are answered and the body of the
  file does not open with a fence.
\<close>

lemma updateYamlFrontMatter_goes_through:
  assumes "files w path = Some (File f)" and "\<not> opens_front_matter (file_content f)"
    and "faults env (clock w) = None" and "faults env (Suc (clock w)) = None"
    and "faults env (Suc (Suc (clock w))) = None"
  shows "fst (updateYamlFrontMatter env path updates w) = Inr ()"
  using assms
  by (auto simp: updateYamlFrontMatter_def readFile_def writeFile_def getFileSha_def
        repos_getContent_def repos_createOrUpdateFileContents_def external_def
        matter_file_def matter_stringify_def matter_def
        and_then_def try_catch_def ret_def throw_def
      split: option.splits entry.splits)


lemma git_processTopic_catch_effect:
  assumes "git_processTopic_catch env path error w = (r, w')"
  shows "r = Inr () \<and> pages w' = pages w \<and> provider_calls w' = provider_calls w \<and>
         (files w' = files w \<or>
          (\<exists>f. files w' = (files w)(path \<mapsto> File f) \<and>
               file_data f ''status'' = Some (Str ''Error'') \<and>
               file_data f ''error_message'' = Some (Str (err_message error)))) \<and>
         (\<forall>f0. files w path = Some (File f0) \<and> \<not> opens_front_matter (file_content f0) \<and>
               faults env (clock w) = None \<and> faults env (Suc (clock w)) = None \<and>
               faults env (Suc (Suc (clock w))) = None \<longrightarrow>
               (\<exists>f. files w' = (files w)(path \<mapsto> File f) \<and>
                    file_data f ''status'' = Some (Str ''Error'') \<and>
                    file_data f ''error_message'' = Some (Str (err_message error)) \<and>
                    file_content f = newline (file_content f0)))"
proof -
  let ?updates = "[(''status'', Some (Str ''Error'')),
                   (''error_message'', Some (Str (err_message error)))]"
  obtain r0 w0 where update: "updateYamlFrontMatter env path ?updates w = (r0, w0)"
    by (cases "updateYamlFrontMatter env path ?updates w")
  with assms have result: "r = Inr ()" "w' = w0"
    by (auto simp: git_processTopic_catch_def try_catch_def split: sum.splits)
  note effect = error_update_effect [OF update]
  have outcome: "files w0 = files w \<or>
          (\<exists>f. files w0 = (files w)(path \<mapsto> File f) \<and>
               file_data f ''status'' = Some (Str ''Error'') \<and>
               file_data f ''error_message'' = Some (Str (err_message error)))"
    using effect by (cases r0) auto
  have through: "\<exists>f. files w0 = (files w)(path \<mapsto> File f) \<and>
                    file_data f ''status'' = Some (Str ''Error'') \<and>
                    file_data f ''error_message'' = Some (Str (err_message error)) \<and>
                    file_content f = newline (file_content f0)"
    if "files w path = Some (File f0) \<and> \<not> opens_front_matter (file_content f0) \<and>
        faults env (clock w) = None \<and> faults env (Suc (clock w)) = None \<and>
        faults env (Suc (Suc (clock w))) = None" for f0
  proof -
    from that updateYamlFrontMatter_goes_through [of w path f0 env ?updates] update
    have ran: "updateYamlFrontMatter env path ?updates w = (Inr (), w0)" by simp
    show ?thesis
    proof (rule updateYamlFrontMatter_success [OF ran])
      fix f f' file_data0 frontMatter
      assume "files w path = Some (File f)" "files w0 = (files w)(path \<mapsto> File f')"
        "file_data f' = file_data0 ++ apply_updates ?updates frontMatter"
        "\<not> opens_front_matter (file_content f) \<Longrightarrow> file_content f' = newline (file_content f)"
      with that show ?thesis by (auto simp: map_add_def)
    qed
  qed
  from result effect outcome through show ?thesis by simp
qed

lemma git_processDraft_catch_files:
  assumes "git_processDraft_catch env researchFilePath originalBlogFilePath error w = (r, w')"
  shows "r = Inr () \<and> provider_calls w' = provider_calls w \<and> pages w' = pages w \<and>
         (files w' = files w \<or>
          (\<exists>f. files w' researchFilePath = Some (File f) \<and>
               file_data f ''status'' = Some (Str ''Error'') \<and>
               file_data f ''error_message'' =
                 Some (Str (''Drafting failed: '' @ err_message error)))) \<and>
         (\<forall>f0. files w researchFilePath = Some (File f0) \<and>
               \<not> opens_front_matter (file_content f0) \<and>
               faults env (clock w) = None \<and> faults env (Suc (clock w)) = None \<and>
               faults env (Suc (Suc (clock w))) = None \<longrightarrow>
               (\<exists>f. files w' researchFilePath = Some (File f) \<and>
                    file_data f ''status'' = Some (Str ''Error'') \<and>
                    file_data f ''error_message'' =
                      Some (Str (''Drafting failed: '' @ err_message error))))"
proof -
  let ?updates = "[(''status'', Some (Str ''Error'')),
                   (''error_message'', Some (Str (''Drafting failed: '' @ err_message error)))]"
  let ?rest = "if originalBlogFilePath \<noteq> []
        then and_then (command_getFileSha env originalBlogFilePath) (\<lambda>blogPostSha.
             if blogPostSha \<noteq> None
             then updateYamlFrontMatter env originalBlogFilePath ?updates
             else ret ())
        else ret ()"
  obtain r0 w0 where update: "updateYamlFrontMatter env researchFilePath ?updates w = (r0, w0)"
    by (cases "updateYamlFrontMatter env researchFilePath ?updates w")
  note effect = error_update_effect [OF update]
  have result: "r = Inr ()"
    using assms unfolding git_processDraft_catch_def by (auto elim!: try_catchE)
  show ?thesis
  proof (cases r0)
    case (Inl e)
    with update assms have "w' = w0"
      by (simp add: git_processDraft_catch_def try_catch_def and_then_def)
    moreover from effect Inl have "files w0 = files w" by simp
    moreover have "\<not> (files w researchFilePath = Some (File f0) \<and>
               \<not> opens_front_matter (file_content f0) \<and>
               faults env (clock w) = None \<and> faults env (Suc (clock w)) = None \<and>
               faults env (Suc (Suc (clock w))) = None)" for f0
      using updateYamlFrontMatter_goes_through [of w researchFilePath f0 env ?updates] update Inl
      by auto
    ultimately show ?thesis using result effect by auto
  next
    case (Inr u)
    with effect obtain f1 where
      w0: "files w0 = (files w)(researchFilePath \<mapsto> File f1)"
        "file_data f1 ''status'' = Some (Str ''Error'')"
        "file_data f1 ''error_message'' = Some (Str (''Drafting failed: '' @ err_message error))"
        "pages w0 = pages w" "provider_calls w0 = provider_calls w"
      by auto
    obtain r1 w1 where rest: "?rest w0 = (r1, w1)" by (cases "?rest w0")
    with update Inr assms have "w' = w1"
      by (auto simp: git_processDraft_catch_def try_catch_def and_then_def split: sum.splits)
    from rest have
      w1: "pages w1 = pages w0 \<and> provider_calls w1 = provider_calls w0 \<and>
        (files w1 = files w0 \<or>
         (\<exists>f2. files w1 = (files w0)(originalBlogFilePath \<mapsto> File f2) \<and>
               file_data f2 ''status'' = Some (Str ''Error'') \<and>
               file_data f2 ''error_message'' =
                 Some (Str (''Drafting failed: '' @ err_message error))))"
      unfolding command_getFileSha_def
      by (auto elim!: and_thenE try_catchE dest!: getFileSha_effect error_update_effect
          split: if_splits sum.splits)
    with w0 have "\<exists>f. files w1 researchFilePath = Some (File f) \<and>
               file_data f ''status'' = Some (Str ''Error'') \<and>
               file_data f ''error_message'' =
                 Some (Str (''Drafting failed: '' @ err_message error))"
      by (cases "originalBlogFilePath = researchFilePath") auto
    with result w0 w1 \<open>w' = w1\<close> show ?thesis by simp
  qed
qed

lemma research_outcome_message:
  "research_outcome outcome = Inl e \<Longrightarrow> err_message e \<noteq> []"
  by (auto simp: research_outcome_def invalid_response_def new_Error_def
      split: axios_outcome.splits option.splits list.splits)

text \<open>
  C2, as the code has it. When a step of the \<^verbatim>\<open>try\<close> block of a stage fails, the run
  catches the error, makes one attempt to record it and returns normally, whatever happens.

  The research stage writes the status \<open>Error\<close> together with an error message on the
  item being processed: in the Notion-backed command the message of the error or, if that
  is empty, a fixed text, so never the empty string; in the Git-backed command the message
  of the error as it is, which is not empty when the error is a failure of the provider.
  The Git-backed draft stage writes \<open>Error\<close> and \<open>Drafting failed:\<close> followed by the
  message on the research file. If the write goes through (the store answers, the item
  exists and, for a file, its body does not open with a fence) the item carries that
  status and message; if it does not, the failure is only logged and the store stays as the
  failed step left it.

  The Notion-backed draft stage does not mark the brief: it puts the brief back to
  \<open>Ready to Start\<close> and writes \<open>Error\<close> with a message that is never empty on the
  blog post of the brief, if there is one; each of the two writes may fail and is then
  only logged.
\<close>

theorem C2_failure_recorded:
  "(processTopic_try env this opts topicId topicTitle w = (Inl error1, w1) \<longrightarrow>
      fst (processTopic env this opts topicId topicTitle w) = Inr () \<and>
      message_or error1 ''Unknown error occurred during research'' \<noteq> [] \<and>
      pages (snd (processTopic env this opts topicId topicTitle w)) =
        (if faults env (clock w1) = None \<and> topicId < length (pages w1)
         then (pages w1)[topicId := (pages w1 ! topicId)
                \<lparr>prop_Status := ''Error'',
                 prop_Error :=
                   Some (message_or error1 ''Unknown error occurred during research'')\<rparr>]
         else pages w1))
   \<and> fst (processTopic env this opts topicId topicTitle w) = Inr ()
   \<and> (\<not> dryRun opts \<and>
       git_processTopic_try env topicFilePath topicTitle frontMatter w = (Inl error2, w2) \<longrightarrow>
      fst (git_processTopic env opts topicFilePath topicTitle frontMatter w) = Inr () \<and>
      (files (snd (git_processTopic env opts topicFilePath topicTitle frontMatter w)) = files w2 \<or>
       (\<exists>f. files (snd (git_processTopic env opts topicFilePath topicTitle frontMatter w)) =
              (files w2)(topicFilePath \<mapsto> File f) \<and>
            file_data f ''status'' = Some (Str ''Error'') \<and>
            file_data f ''error_message'' = Some (Str (err_message error2)))) \<and>
      (\<forall>f0. files w2 topicFilePath = Some (File f0) \<and>
            \<not> opens_front_matter (file_content f0) \<and>
            faults env (clock w2) = None \<and> faults env (Suc (clock w2)) = None \<and>
            faults env (Suc (Suc (clock w2))) = None \<longrightarrow>
            (\<exists>f. files (snd (git_processTopic env opts topicFilePath topicTitle frontMatter w)) =
                   (files w2)(topicFilePath \<mapsto> File f) \<and>
                 file_data f ''status'' = Some (Str ''Error'') \<and>
                 file_data f ''error_message'' = Some (Str (err_message error2)) \<and>
                 file_content f = newline (file_content f0))))
   \<and> fst (git_processTopic env opts topicFilePath topicTitle frontMatter w) = Inr ()
   \<and> (research_outcome research_failure = Inl provider_error \<longrightarrow>
        err_message provider_error \<noteq> [])
   \<and> (processDraft_try env this opts draftId draftTitle researchContent blogPostId w
         = (Inl error3, w3) \<longrightarrow>
      fst (processDraft env this opts draftId draftTitle researchContent blogPostId w) = Inr () \<and>
      message_or error3 ''Unknown error occurred during draft writing'' \<noteq> [] \<and>
      pages (snd (processDraft env this opts draftId draftTitle researchContent blogPostId w)) =
        (let ps = (if faults env (clock w3) = None \<and> draftId < length (pages w3)
                   then (pages w3)[draftId :=
                          (pages w3 ! draftId)\<lparr>prop_Status := ''Ready to Start''\<rparr>]
                   else pages w3)
         in case blogPostId of
              None \<Rightarrow> ps
            | Some b \<Rightarrow>
                if faults env (Suc (clock w3)) = None \<and> b < length ps
                then ps[b := (ps ! b)
                       \<lparr>prop_Status := ''Error'',
                        prop_Error := Some (message_or error3
                          ''Unknown error occurred during draft writing'')\<rparr>]
                else ps))
   \<and> (\<not> dryRun opts \<and>
       git_processDraft_try env contentDirDrafts researchFilePath draftTitle researchContent
         originalBlogFilePath briefFrontMatter w = (Inl error4, w4) \<longrightarrow>
      fst (git_processDraft env opts contentDirDrafts researchFilePath draftTitle
             researchContent originalBlogFilePath briefFrontMatter w) = Inr () \<and>
      ''Drafting failed: '' @ err_message error4 \<noteq> [] \<and>
      (files (snd (git_processDraft env opts contentDirDrafts researchFilePath draftTitle
                     researchContent originalBlogFilePath briefFrontMatter w)) = files w4 \<or>
       (\<exists>f. files (snd (git_processDraft env opts contentDirDrafts researchFilePath draftTitle
                     researchContent originalBlogFilePath briefFrontMatter w)) researchFilePath
              = Some (File f) \<and>
            file_data f ''status'' = Some (Str ''Error'') \<and>
            file_data f ''error_message'' =
              Some (Str (''Drafting failed: '' @ err_message error4)))) \<and>
      (\<forall>f0. files w4 researchFilePath = Some (File f0) \<and>
            \<not> opens_front_matter (file_content f0) \<and>
            faults env (clock w4) = None \<and> faults env (Suc (clock w4)) = None \<and>
            faults env (Suc (Suc (clock w4))) = None \<longrightarrow>
            (\<exists>f. files (snd (git_processDraft env opts contentDirDrafts researchFilePath
                     draftTitle researchContent originalBlogFilePath briefFrontMatter w))
                   researchFilePath = Some (File f) \<and>
                 file_data f ''status'' = Some (Str ''Error'') \<and>
                 file_data f ''error_message'' =
                   Some (Str (''Drafting failed: '' @ err_message error4)))))"
  (is "?notion \<and> ?never \<and> ?git \<and> ?git_never \<and> ?provider \<and> ?notion_draft \<and> ?git_draft")
proof -
  have never: ?never
    by (cases "processTopic env this opts topicId topicTitle w")
       (auto simp: processTopic_def elim!: try_catchE dest!: processTopic_catch_effect)
  have git_never: ?git_never
    by (cases "git_processTopic env opts topicFilePath topicTitle frontMatter w")
       (auto simp: git_processTopic_def elim!: try_catchE dest!: git_processTopic_catch_effect
          split: if_splits)
  have notion: ?notion
  proof
    assume failed: "processTopic_try env this opts topicId topicTitle w = (Inl error1, w1)"
    then have "processTopic env this opts topicId topicTitle w =
        processTopic_catch env topicId error1 w1"
      by (simp add: processTopic_def try_catch_def)
    then show "fst (processTopic env this opts topicId topicTitle w) = Inr () \<and>
      message_or error1 ''Unknown error occurred during research'' \<noteq> [] \<and>
      pages (snd (processTopic env this opts topicId topicTitle w)) =
        (if faults env (clock w1) = None \<and> topicId < length (pages w1)
         then (pages w1)[topicId := (pages w1 ! topicId)
                \<lparr>prop_Status := ''Error'',
                 prop_Error :=
                   Some (message_or error1 ''Unknown error occurred during research'')\<rparr>]
         else pages w1)"
      using processTopic_catch_effect [of env topicId error1 w1]
      by (cases "processTopic_catch env topicId error1 w1") (simp add: message_or_def)
  qed
  have git: ?git
  proof
    assume failed: "\<not> dryRun opts \<and>
       git_processTopic_try env topicFilePath topicTitle frontMatter w = (Inl error2, w2)"
    then have run: "git_processTopic env opts topicFilePath topicTitle frontMatter w =
        git_processTopic_catch env topicFilePath error2 w2"
      by (simp add: git_processTopic_def try_catch_def)
    obtain r w' where caught: "git_processTopic_catch env topicFilePath error2 w2 = (r, w')"
      by (cases "git_processTopic_catch env topicFilePath error2 w2")
    from git_processTopic_catch_effect [OF caught]
    show "fst (git_processTopic env opts topicFilePath topicTitle frontMatter w) = Inr () \<and>
      (files (snd (git_processTopic env opts topicFilePath topicTitle frontMatter w)) = files w2 \<or>
       (\<exists>f. files (snd (git_processTopic env opts topicFilePath topicTitle frontMatter w)) =
              (files w2)(topicFilePath \<mapsto> File f) \<and>
            file_data f ''status'' = Some (Str ''Error'') \<and>
            file_data f ''error_message'' = Some (Str (err_message error2)))) \<and>
      (\<forall>f0. files w2 topicFilePath = Some (File f0) \<and>
            \<not> opens_front_matter (file_content f0) \<and>
            faults env (clock w2) = None \<and> faults env (Suc (clock w2)) = None \<and>
            faults env (Suc (Suc (clock w2))) = None \<longrightarrow>
            (\<exists>f. files (snd (git_processTopic env opts topicFilePath topicTitle frontMatter w)) =
                   (files w2)(topicFilePath \<mapsto> File f) \<and>
                 file_data f ''status'' = Some (Str ''Error'') \<and>
                 file_data f ''error_message'' = Some (Str (err_message error2)) \<and>
                 file_content f = newline (file_content f0)))"
      unfolding run caught by simp
  qed
  have provider: ?provider
    by (auto dest: research_outcome_message)
  have notion_draft: ?notion_draft
  proof
    assume failed: "processDraft_try env this opts draftId draftTitle researchContent blogPostId w
         = (Inl error3, w3)"
    then have run: "processDraft env this opts draftId draftTitle researchContent blogPostId w =
        processDraft_catch env draftId blogPostId error3 w3"
      by (simp add: processDraft_def try_catch_def)
    obtain r w' where caught: "processDraft_catch env draftId blogPostId error3 w3 = (r, w')"
      by (cases "processDraft_catch env draftId blogPostId error3 w3")
    from processDraft_catch_effect [OF caught] processDraft_catch_pages [OF caught]
    show "fst (processDraft env this opts draftId draftTitle researchContent blogPostId w) = Inr () \<and>
      message_or error3 ''Unknown error occurred during draft writing'' \<noteq> [] \<and>
      pages (snd (processDraft env this opts draftId draftTitle researchContent blogPostId w)) =
        (let ps = (if faults env (clock w3) = None \<and> draftId < length (pages w3)
                   then (pages w3)[draftId :=
                          (pages w3 ! draftId)\<lparr>prop_Status := ''Ready to Start''\<rparr>]
                   else pages w3)
         in case blogPostId of
              None \<Rightarrow> ps
            | Some b \<Rightarrow>
                if faults env (Suc (clock w3)) = None \<and> b < length ps
                then ps[b := (ps ! b)
                       \<lparr>prop_Status := ''Error'',
                        prop_Error := Some (message_or error3
                          ''Unknown error occurred during draft writing'')\<rparr>]
                else ps)"
      unfolding run caught by (simp add: message_or_def)
  qed
  have git_draft: ?git_draft
  proof
    assume failed: "\<not> dryRun opts \<and>
       git_processDraft_try env contentDirDrafts researchFilePath draftTitle researchContent
         originalBlogFilePath briefFrontMatter w = (Inl error4, w4)"
    then have run: "git_processDraft env opts contentDirDrafts researchFilePath draftTitle
             researchContent originalBlogFilePath briefFrontMatter w =
        git_processDraft_catch env researchFilePath originalBlogFilePath error4 w4"
      by (simp add: git_processDraft_def try_catch_def)
    obtain r w' where
      caught: "git_processDraft_catch env researchFilePath originalBlogFilePath error4 w4 = (r, w')"
      by (cases "git_processDraft_catch env researchFilePath originalBlogFilePath error4 w4")
    from git_processDraft_catch_files [OF caught]
    show "fst (git_processDraft env opts contentDirDrafts researchFilePath draftTitle
             researchContent originalBlogFilePath briefFrontMatter w) = Inr () \<and>
      ''Drafting failed: '' @ err_message error4 \<noteq> [] \<and>
      (files (snd (git_processDraft env opts contentDirDrafts researchFilePath draftTitle
                     researchContent originalBlogFilePath briefFrontMatter w)) = files w4 \<or>
       (\<exists>f. files (snd (git_processDraft env opts contentDirDrafts researchFilePath draftTitle
                     researchContent originalBlogFilePath briefFrontMatter w)) researchFilePath
              = Some (File f) \<and>
            file_data f ''status'' = Some (Str ''Error'') \<and>
            file_data f ''error_message'' =
              Some (Str (''Drafting failed: '' @ err_message error4)))) \<and>
      (\<forall>f0. files w4 researchFilePath = Some (File f0) \<and>
            \<not> opens_front_matter (file_content f0) \<and>
            faults env (clock w4) = None \<and> faults env (Suc (clock w4)) = None \<and>
            faults env (Suc (Suc (clock w4))) = None \<longrightarrow>
            (\<exists>f. files (snd (git_processDraft env opts contentDirDrafts researchFilePath
                     draftTitle researchContent originalBlogFilePath briefFrontMatter w))
                   researchFilePath = Some (File f) \<and>
                 file_data f ''status'' = Some (Str ''Error'') \<and>
                 file_data f ''error_message'' =
                   Some (Str (''Drafting failed: '' @ err_message error4))))"
      unfolding run caught by simp
  qed
  from notion never git git_never provider notion_draft git_draft show ?thesis
    by (intro conjI)
qed

text \<open>
  The providers do not answer. The topic ends in \<open>Error\<close> with the provider's message
  in both variants of the research stage, and so does the research file in the Git-backed
  draft stage; the Notion-backed draft stage puts the brief back and marks its blog post.
\<close>

theorem C2_witness:
  "fst (processTopic_try failing_providers sample_client live 0 ''Foo'' sample_world) =
     Inl (new_Error ''No response received from Perplexity API'')
   \<and> fst (processTopic failing_providers sample_client live 0 ''Foo'' sample_world) = Inr ()
   \<and> pages (snd (processTopic failing_providers sample_client live 0 ''Foo'' sample_world)) =
       [topic_Foo\<lparr>prop_Status := ''Error'',
          prop_Error := Some ''No response received from Perplexity API''\<rparr>, brief_Foo]
   \<and> fst (git_processTopic_try failing_providers ''topics/foo.md'' ''Foo'' (file_data topic_file)
         sample_world) = Inl (new_Error ''No response received from Perplexity API'')
   \<and> fst (git_processTopic failing_providers live ''topics/foo.md'' ''Foo''
         (file_data topic_file) sample_world) = Inr ()
   \<and> files (snd (git_processTopic failing_providers live ''topics/foo.md'' ''Foo''
         (file_data topic_file) sample_world)) ''topics/foo.md'' =
       Some (File \<lparr>file_data = [''title'' \<mapsto> Str ''Foo'', ''status'' \<mapsto> Str ''Error'',
               ''error_message'' \<mapsto> Str ''No response received from Perplexity API''],
             file_content = ''\<newline>''\<rparr>)
   \<and> research_outcome Error_without_response =
       Inl (new_Error ''No response received from Perplexity API'')
   \<and> fst (processDraft_try failing_providers sample_client live 1 ''Foo'' ''bar'' (Some 0)
         sample_world) = Inl (new_Error ''Claude API error: Overloaded'')
   \<and> fst (processDraft failing_providers sample_client live 1 ''Foo'' ''bar'' (Some 0)
         sample_world) = Inr ()
   \<and> pages (snd (processDraft failing_providers sample_client live 1 ''Foo'' ''bar'' (Some 0)
         sample_world)) =
       [topic_Foo\<lparr>prop_Status := ''Error'',
          prop_Error := Some ''Claude API error: Overloaded''\<rparr>, brief_Foo]
   \<and> fst (git_processDraft_try failing_providers ''drafts'' ''research/foo.md'' ''Foo'' ''bar''
         ''blog/foo.md'' (file_data research_file) sample_world) =
       Inl (new_Error ''Claude API error: Overloaded'')
   \<and> fst (git_processDraft failing_providers live ''drafts'' ''research/foo.md'' ''Foo''
         ''bar'' ''blog/foo.md'' (file_data research_file) sample_world) = Inr ()
   \<and> files (snd (git_processDraft failing_providers live ''drafts'' ''research/foo.md'' ''Foo''
         ''bar'' ''blog/foo.md'' (file_data research_file) sample_world)) ''research/foo.md'' =
       Some (File \<lparr>file_data = [''title'' \<mapsto> Str ''Foo'', ''status'' \<mapsto> Str ''Error'',
               ''error_message'' \<mapsto> Str ''Drafting failed: Claude API error: Overloaded''],
             file_content = ''bar\<newline>''\<rparr>)"
  using C2_failure_recorded
    [where env = failing_providers and this = sample_client and opts = live and w = sample_world
       and topicId = 0 and topicTitle = "''Foo''" and topicFilePath = "''topics/foo.md''"
       and frontMatter = "file_data topic_file"
       and ?error1.0 = "new_Error ''No response received from Perplexity API''"
       and ?error2.0 = "new_Error ''No response received from Perplexity API''"
       and ?w1.0 = "snd (processTopic_try failing_providers sample_client live 0 ''Foo''
                      sample_world)"
       and ?w2.0 = "snd (git_processTopic_try failing_providers ''topics/foo.md'' ''Foo''
                      (file_data topic_file) sample_world)"
       and research_failure = Error_without_response
       and provider_error = "new_Error ''No response received from Perplexity API''"
       and draftId = 1 and draftTitle = "''Foo''" and researchContent = "''bar''"
       and blogPostId = "Some 0" and contentDirDrafts = "''drafts''"
       and researchFilePath = "''research/foo.md''" and originalBlogFilePath = "''blog/foo.md''"
       and briefFrontMatter = "file_data research_file"
       and ?error3.0 = "new_Error ''Claude API error: Overloaded''"
       and ?error4.0 = "new_Error ''Claude API error: Overloaded''"
       and ?w3.0 = "snd (processDraft_try failing_providers sample_client live 1 ''Foo'' ''bar''
                      (Some 0) sample_world)"
       and ?w4.0 = "snd (git_processDraft_try failing_providers ''drafts'' ''research/foo.md''
                      ''Foo'' ''bar'' ''blog/foo.md'' (file_data research_file) sample_world)"]
  by (simp add: run_defs sample_defs)

text \<open>
  C2, as the specification states it, fails. With the store down the first write of the
  research stage fails and so does the write of the error: the run returns normally and the
  topic is still \<open>Ready for Research\<close>, without any error message. When the draft
  provider fails, the Notion-backed draft stage puts the brief back to \<open>Ready to Start\<close>
  and writes no error on it. And when a call of the store fails with an error whose
  message is empty, the Git-backed research stage writes the empty message.
\<close>

theorem C2_counterexample:
  "fst (processTopic_try stores_down sample_client live 0 ''Foo'' sample_world) =
     Inl (new_Error ''Service unavailable'')
   \<and> prop_Status (pages (snd (processTopic stores_down sample_client live 0 ''Foo''
         sample_world)) ! 0) = ''Ready for Research''
   \<and> prop_Error (pages (snd (processTopic stores_down sample_client live 0 ''Foo''
         sample_world)) ! 0) = None
   \<and> fst (processDraft_try failing_providers sample_client live 1 ''Foo'' ''bar'' (Some 0)
         sample_world) = Inl (new_Error ''Claude API error: Overloaded'')
   \<and> prop_Status (pages (snd (processDraft failing_providers sample_client live 1 ''Foo''
         ''bar'' (Some 0) sample_world)) ! 1) = ''Ready to Start''
   \<and> prop_Error (pages (snd (processDraft failing_providers sample_client live 1 ''Foo''
         ''bar'' (Some 0) sample_world)) ! 1) = None
   \<and> fst (git_processTopic_try silent_failure ''topics/foo.md'' ''Foo'' (file_data topic_file)
         sample_world) = Inl (new_Error [])
   \<and> files (snd (git_processTopic silent_failure live ''topics/foo.md'' ''Foo''
         (file_data topic_file) sample_world)) ''topics/foo.md'' =
       Some (File \<lparr>file_data = [''title'' \<mapsto> Str ''Foo'', ''status'' \<mapsto> Str ''Error'',
               ''error_message'' \<mapsto> Str []],
             file_content = ''\<newline>''\<rparr>)"
  by (simp add: run_defs sample_defs)

subsection \<open>Selection\<close>

lemma client_databases_query_effect:
  assumes "client_databases_query env db status w = (r, w')"
  shows "w' = w\<lparr>clock := Suc (clock w)\<rparr> \<and>
         (case r of
            Inr results \<Rightarrow> faults env (clock w) = None \<and>
              results = filter (\<lambda>(i, p). page_parent p = db \<and> prop_Status p = status)
                          (enumerate 0 (pages w))
          | Inl e \<Rightarrow> faults env (clock w) = Some e)"
  using assms by (auto simp: client_databases_query_def external_def split: option.splits)

lemma getFileContent_effect:
  assumes "getFileContent env path w = (r, w')"
  shows "w' = w\<lparr>clock := Suc (clock w)\<rparr> \<and>
         (case r of Inr f \<Rightarrow> files w path = Some (File f) | Inl e \<Rightarrow> True)"
  using assms unfolding getFileContent_def
  by (auto elim!: try_catchE and_thenE dest!: repos_getContent_effect split: entry.splits)

lemma getFilesReadyForResearch_from_selected:
  "getFilesReadyForResearch_from env filePaths readyFiles w = (r, w') \<Longrightarrow>
     files w' = files w \<and> pages w' = pages w \<and> provider_calls w' = provider_calls w \<and>
     (\<exists>selected. r = Inr (readyFiles @ selected) \<and>
        (\<forall>filePath \<in> set selected. filePath \<in> set filePaths \<and>
           (\<exists>f. files w filePath = Some (File f) \<and>
                file_data f ''status'' = Some (Str ''Ready for Research''))))"
proof (induction filePaths arbitrary: readyFiles w)
  case Nil
  then show ?case by simp
next
  case (Cons p rest)
  from Cons.prems show ?case
    by (auto elim!: and_thenE try_catchE dest!: getFileContent_effect Cons.IH
        split: if_splits)
qed

text \<open>
  C3. Whatever \<^verbatim>\<open>getBlogPostsReadyForResearch\<close> returns is a page of the store whose status
  is exactly \<open>Ready for Research\<close>, whatever \<^verbatim>\<open>getFilesReadyForResearch\<close> returns is one
  of the given paths, of a file whose front matter has exactly that status, and whatever
  \<^verbatim>\<open>getDraftsReadyToStart\<close> returns is a page whose status is exactly \<open>Ready to Start\<close>,
  the entry status of the Notion-backed draft stage; none of them changes the store. So an
  item in any other status is not selected again.
\<close>

theorem C3_selection_by_entry_status:
  "(getBlogPostsReadyForResearch env this w = (Inr topics, w1) \<longrightarrow>
      pages w1 = pages w \<and>
      (\<forall>(i, topic) \<in> set topics.
         i < length (pages w) \<and> topic = pages w ! i \<and>
         prop_Status topic = ''Ready for Research''))
   \<and> (getFilesReadyForResearch env filePaths w = (r, w2) \<longrightarrow>
      files w2 = files w \<and>
      (\<exists>readyFiles. r = Inr readyFiles \<and>
         (\<forall>filePath \<in> set readyFiles. filePath \<in> set filePaths \<and>
            (\<exists>f. files w filePath = Some (File f) \<and>
                 file_data f ''status'' = Some (Str ''Ready for Research'')))))
   \<and> (getDraftsReadyToStart env this w = (Inr drafts, w3) \<longrightarrow>
      pages w3 = pages w \<and>
      (\<forall>(i, draft) \<in> set drafts.
         i < length (pages w) \<and> draft = pages w ! i \<and>
         prop_Status draft = ''Ready to Start''))"
proof -
  have briefs: "pages w3 = pages w \<and>
      (\<forall>(i, draft) \<in> set drafts.
         i < length (pages w) \<and> draft = pages w ! i \<and>
         prop_Status draft = ''Ready to Start'')"
    if "getDraftsReadyToStart env this w = (Inr drafts, w3)"
    using that unfolding getDraftsReadyToStart_def client_databases_retrieve_def
    by (auto elim!: and_thenE try_catchE dest!: client_databases_query_effect
        simp: in_set_enumerate_eq external_def split: option.splits)
  have notion: "pages w1 = pages w \<and>
      (\<forall>(i, topic) \<in> set topics.
         i < length (pages w) \<and> topic = pages w ! i \<and>
         prop_Status topic = ''Ready for Research'')"
    if "getBlogPostsReadyForResearch env this w = (Inr topics, w1)"
    using that unfolding getBlogPostsReadyForResearch_def
    by (auto dest!: client_databases_query_effect simp: in_set_enumerate_eq)
  have repo: "files w2 = files w \<and>
      (\<exists>readyFiles. r = Inr readyFiles \<and>
         (\<forall>filePath \<in> set readyFiles. filePath \<in> set filePaths \<and>
            (\<exists>f. files w filePath = Some (File f) \<and>
                 file_data f ''status'' = Some (Str ''Ready for Research''))))"
    if "getFilesReadyForResearch env filePaths w = (r, w2)"
    using that unfolding getFilesReadyForResearch_def
    by (auto dest!: getFilesReadyForResearch_from_selected)
  from notion repo briefs show ?thesis by blast
qed

lemma sample_query:
  "getBlogPostsReadyForResearch sample_env sample_client sample_world =
     (Inr [(0, topic_Foo)], sample_world\<lparr>clock := 1\<rparr>)"
  by (simp add: getBlogPostsReadyForResearch_def client_databases_query_def external_def
        sample_defs heading_1_def)

lemma sample_ready_files:
  "fst (getFilesReadyForResearch sample_env
          [''topics/foo.md'', ''research/foo.md'', ''missing.md''] sample_world) =
     Inr [''topics/foo.md'']"
  by (simp add: getFilesReadyForResearch_def getFileContent_def run_defs sample_defs)

lemma sample_draft_query:
  "getDraftsReadyToStart sample_env sample_client sample_world =
     (Inr [(1, brief_Foo)], sample_world\<lparr>clock := 2\<rparr>)"
  by (simp add: getDraftsReadyToStart_def client_databases_retrieve_def
        client_databases_query_def external_def and_then_def try_catch_def ret_def
        sample_defs heading_1_def)

lemma sample_pages: "pages sample_world = [topic_Foo, brief_Foo]"
  by (simp add: sample_world_def)

lemma sample_topic_file: "files sample_world ''topics/foo.md'' = Some (File topic_file)"
  by (simp add: sample_world_def)

text \<open>
  In the sample store the research query selects the topic and not the brief, the draft
  query the brief and not the topic, and of three paths the one ready file is selected.
\<close>

theorem C3_witness:
  "fst (getBlogPostsReadyForResearch sample_env sample_client sample_world) =
     Inr [(0, topic_Foo)]
   \<and> pages sample_world = [topic_Foo, brief_Foo]
   \<and> prop_Status topic_Foo = ''Ready for Research''
   \<and> prop_Status brief_Foo \<noteq> ''Ready for Research''
   \<and> fst (getFilesReadyForResearch sample_env
          [''topics/foo.md'', ''research/foo.md'', ''missing.md''] sample_world) =
       Inr [''topics/foo.md'']
   \<and> (\<exists>f. files sample_world ''topics/foo.md'' = Some (File f) \<and>
           file_data f ''status'' = Some (Str ''Ready for Research''))
   \<and> fst (getDraftsReadyToStart sample_env sample_client sample_world) = Inr [(1, brief_Foo)]
   \<and> prop_Status brief_Foo = ''Ready to Start''"
  using C3_selection_by_entry_status
    [where env = sample_env and this = sample_client and w = sample_world
       and topics = "[(0, topic_Foo)]" and ?w1.0 = "sample_world\<lparr>clock := 1\<rparr>"
       and drafts = "[(1, brief_Foo)]" and ?w3.0 = "sample_world\<lparr>clock := 2\<rparr>"
       and filePaths = "[''topics/foo.md'', ''research/foo.md'', ''missing.md'']"
       and r = "fst (getFilesReadyForResearch sample_env
                  [''topics/foo.md'', ''research/foo.md'', ''missing.md''] sample_world)"
       and ?w2.0 = "snd (getFilesReadyForResearch sample_env
                  [''topics/foo.md'', ''research/foo.md'', ''missing.md''] sample_world)"]
  by (simp add: sample_query sample_draft_query sample_ready_files prod_eq_iff sample_pages
        sample_topic_file topic_Foo_def brief_Foo_def topic_file_def)


subsection \<open>Successful runs\<close>

lemma researchTopic_success:
  assumes "researchTopic env prompt w = (Inr research, w')"
  shows "\<exists>d rest. perplexity env (clock w) prompt = Response (Some d) \<and>
           pd_choices d = Some (rr_content research # rest) \<and>
           rr_citations research = pd_citations d \<and> rr_usage research = pd_usage d"
  using assms
  by (auto simp: researchTopic_def research_outcome_def
      split: axios_outcome.splits option.splits list.splits)


lemma appendBlocksInBatches_success:
  "appendBlocksInBatches env b blocks w = (Inr u, w') \<Longrightarrow> b < length (pages w) \<Longrightarrow>
     pages w' = (pages w)[b := (pages w ! b)\<lparr>page_children := page_children (pages w ! b) @ blocks\<rparr>]"
  unfolding appendBlocksInBatches_def
  by (drule appendBlocksInBatches_from_success) simp_all

lemma createResearchBrief_success:
  assumes "createResearchBrief env this b title md w = (Inr n, w')" and "b < length (pages w)"
  shows "\<exists>blocks. markdownToBlocks env md = Inr blocks \<and>
           pages w' = (pages w)[b := (pages w ! b)\<lparr>prop_Status := ''Ready for Draft''\<rparr>] @
             [\<lparr>page_parent = draftsDbId this, prop_Title = Some [title],
               prop_Status = ''Ready to Start'', prop_Type = Some ''Research Brief'',
               prop_Blog_Posts = Some [b], prop_Error = None,
               prop_Last_Modified_Date = None,
               page_children = heading_1 title # removeAllLinks blocks\<rparr>]"
  using assms unfolding createResearchBrief_def Let_def
  by (auto elim!: try_catchE and_thenE
      dest!: client_pages_create_effect appendBlocksInBatches_success updateBlogPostStatus_effect
      simp: nth_append list_update_append split: sum.splits)

lemma processTopic_try_success:
  assumes "processTopic_try env this opts topicId topicTitle w = (Inr u, w')"
    and "\<not> dryRun opts"
  shows "\<exists>d content rest blocks.
           perplexity env (Suc (clock w)) (productivityPrompt env topicTitle) = Response (Some d) \<and>
           pd_choices d = Some (content # rest) \<and>
           markdownToBlocks env (enhanceContent content (pd_citations d)) = Inr blocks \<and>
           topicId < length (pages w) \<and>
           pages w' =
             (pages w)[topicId := (pages w ! topicId)\<lparr>prop_Status := ''Ready for Draft''\<rparr>] @
             [\<lparr>page_parent = draftsDbId this, prop_Title = Some [topicTitle],
               prop_Status = ''Ready to Start'', prop_Type = Some ''Research Brief'',
               prop_Blog_Posts = Some [topicId], prop_Error = None,
               prop_Last_Modified_Date = None,
               page_children = heading_1 topicTitle # removeAllLinks blocks\<rparr>]"
proof -
  from assms obtain w1 research w2 w3 n where
    step1: "updateBlogPostStatus env topicId ''Research In Progress'' w = (Inr (), w1)"
    and step2: "researchTopic env (productivityPrompt env topicTitle) w1 = (Inr research, w2)"
    and step3: "createResearchBrief env this topicId topicTitle
        (enhanceContent (rr_content research) (rr_citations research)) w2 = (Inr n, w')"
    unfolding processTopic_try_def Let_def
    by (auto elim!: and_thenE split: option.splits)
  from updateBlogPostStatus_effect [OF step1] have
    w1: "clock w1 = Suc (clock w)" "topicId < length (pages w)"
      "pages w1 = (pages w)[topicId := (pages w ! topicId)\<lparr>prop_Status := ''Research In Progress''\<rparr>]"
    by simp_all
  from researchTopic_effect [OF step2] have w2: "pages w2 = pages w1" by simp
  from researchTopic_success [OF step2] w1(1) obtain d rest where
    d: "perplexity env (Suc (clock w)) (productivityPrompt env topicTitle) = Response (Some d)"
      "pd_choices d = Some (rr_content research # rest)"
      "rr_citations research = pd_citations d"
    by auto
  from w1 w2 have "topicId < length (pages w2)" by simp
  from createResearchBrief_success [OF step3 this] obtain blocks where
    "markdownToBlocks env (enhanceContent (rr_content research) (rr_citations research)) = Inr blocks"
    "pages w' = (pages w2)[topicId := (pages w2 ! topicId)\<lparr>prop_Status := ''Ready for Draft''\<rparr>] @
             [\<lparr>page_parent = draftsDbId this, prop_Title = Some [topicTitle],
               prop_Status = ''Ready to Start'', prop_Type = Some ''Research Brief'',
               prop_Blog_Posts = Some [topicId], prop_Error = None,
               prop_Last_Modified_Date = None,
               page_children = heading_1 topicTitle # removeAllLinks blocks\<rparr>]"
    by auto
  with d w1 w2 show ?thesis by simp
qed

lemma fresh_cacheD:
  "fresh_cache env \<Longrightarrow> cached_file_data env n f = None"
  "fresh_cache env \<Longrightarrow> cached_data env n input = None"
  by (simp_all add: fresh_cache_def)

text \<open>
  A successful run of the research stage of the Git-backed command: what the file is in
  the end. The last step sets the status \<open>Research Complete\<close>.
\<close>

lemma git_processTopic_try_success:
  assumes "git_processTopic_try env path title fm w = (Inr u, w')"
  shows "\<exists>d content rest f.
           perplexity env (clock w + 3) (productivityPrompt env title) = Response (Some d) \<and>
           pd_choices d = Some (content # rest) \<and>
           files w' path = Some (File f) \<and>
           file_data f ''status'' = Some (Str ''Research Complete'') \<and>
           (\<not> opens_front_matter (enhanceContent content (pd_citations d)) \<longrightarrow>
              file_content f = newline (enhanceContent content (pd_citations d)) \<and>
              (fresh_cache env \<longrightarrow>
                 file_data f = fm(''status'' \<mapsto> Str ''Research Complete'',
                                  ''date_researched'' \<mapsto> Str (new_Date env (clock w + 4)))))"
proof -
  from assms obtain w1 research w2 f5 w2' w3 where
    step1: "updateYamlFrontMatter env path [(''status'', Some (Str ''Research In Progress''))] w
              = (Inr (), w1)"
    and step2: "researchTopic env (productivityPrompt env title) w1 = (Inr research, w2)"
    and step3: "matter_stringify env
        (enhanceContent (rr_content research) (rr_citations research))
        (fm(''status'' \<mapsto> Str ''Ready for Draft'',
            ''date_researched'' \<mapsto> Str (new_Date env (clock w2)))) w2 = (Inr f5, w2')"
    and step4: "writeFile env path f5 None w2' = (Inr (), w3)"
    and step5: "updateYamlFrontMatter env path [(''status'', Some (Str ''Research Complete''))] w3
              = (Inr (), w')"
    unfolding git_processTopic_try_def Let_def
    by (auto elim!: and_thenE)
  let ?enhanced = "enhanceContent (rr_content research) (rr_citations research)"
  from updateYamlFrontMatter_effect [OF step1] have w1: "clock w1 = clock w + 3" by simp
  from researchTopic_effect [OF step2] w1 have w2: "clock w2 = clock w + 4" by simp
  from researchTopic_success [OF step2] w1 obtain d rest where
    d: "perplexity env (clock w + 3) (productivityPrompt env title) = Response (Some d)"
      "pd_choices d = Some (rr_content research # rest)"
      "rr_citations research = pd_citations d"
    by auto
  from matter_stringify_effect [OF step3] have
    f5: "w2' = w2" "\<not> opens_front_matter ?enhanced \<longrightarrow> file_content f5 = newline ?enhanced \<and>
           (?enhanced = [] \<or> cached_data env (clock w2) ?enhanced = None \<longrightarrow>
              file_data f5 = fm(''status'' \<mapsto> Str ''Ready for Draft'',
                                ''date_researched'' \<mapsto> Str (new_Date env (clock w2))))"
    by auto
  from writeFile_effect [OF step4] have w3: "files w3 path = Some (File f5)" by simp
  show ?thesis
  proof (rule updateYamlFrontMatter_success [OF step5])
    fix f f' file_data0 frontMatter
    assume f: "files w3 path = Some (File f)"
      and f': "files w' = (files w3)(path \<mapsto> File f')"
        "file_data f' = file_data0 ++
           apply_updates [(''status'', Some (Str ''Research Complete''))] frontMatter"
      and body: "\<not> opens_front_matter (file_content f) \<Longrightarrow>
                 file_content f' = newline (file_content f)"
      and data: "\<not> opens_front_matter (file_content f) \<Longrightarrow>
         cached_file_data env (Suc (clock w3)) f = None \<Longrightarrow>
         file_content f = [] \<or> cached_data env (Suc (clock w3)) (file_content f) = None \<Longrightarrow>
         file_data f' =
           apply_updates [(''status'', Some (Str ''Research Complete''))] (file_data f)"
    from f w3 have same: "f = f5" by simp
    have status: "file_data f' ''status'' = Some (Str ''Research Complete'')"
      using f'(2) by (simp add: map_add_def)
    have rest: "file_content f' = newline ?enhanced \<and>
        (fresh_cache env \<longrightarrow>
           file_data f' = fm(''status'' \<mapsto> Str ''Research Complete'',
                             ''date_researched'' \<mapsto> Str (new_Date env (clock w + 4))))"
      if plain: "\<not> opens_front_matter ?enhanced"
    proof
      from plain f5(2) same have content: "file_content f = newline ?enhanced" by simp
      with plain body show "file_content f' = newline ?enhanced" by simp
      show "fresh_cache env \<longrightarrow>
           file_data f' = fm(''status'' \<mapsto> Str ''Research Complete'',
                             ''date_researched'' \<mapsto> Str (new_Date env (clock w + 4)))"
      proof
        assume fresh: "fresh_cache env"
        with plain f5(2) same w2 have
          "file_data f = fm(''status'' \<mapsto> Str ''Ready for Draft'',
                            ''date_researched'' \<mapsto> Str (new_Date env (clock w + 4)))"
          by (simp add: fresh_cacheD)
        moreover from plain content fresh have
          "file_data f' =
             apply_updates [(''status'', Some (Str ''Research Complete''))] (file_data f)"
          by (intro data) (simp_all add: fresh_cacheD)
        ultimately show "file_data f' = fm(''status'' \<mapsto> Str ''Research Complete'',
                             ''date_researched'' \<mapsto> Str (new_Date env (clock w + 4)))"
          by (simp add: fun_upd_twist)
      qed
    qed
    from d f'(1) status rest show ?thesis by auto
  qed
qed

text \<open>
  C4, as the code has it. A successful run of the research stage of the Notion-backed
  command (not a dry run) leaves the topic in status \<open>Ready for Draft\<close> and changes
  nothing else of it: its error message is what it was before the run, unset if it was
  unset. The provider's content, with its Sources section, does not go to the topic but
  to one new page, the research brief, which relates to the topic and holds the converted
  blocks under a heading. A successful run of the Git-backed command stores the
  provider's content with its Sources section as the body of the topic file, with a line
  feed at its end (as long as the text does not open with a front matter fence), and, in
  a process whose cache does not interfere, carries the \<open>error_message\<close> of the front
  matter it was given over unchanged.
\<close>

theorem C4_research_success:
  "(\<not> dryRun opts \<and> processTopic_try env this opts topicId topicTitle w = (Inr (), w1) \<longrightarrow>
      (\<exists>d content rest blocks.
         perplexity env (Suc (clock w)) (productivityPrompt env topicTitle) = Response (Some d) \<and>
         pd_choices d = Some (content # rest) \<and>
         markdownToBlocks env (enhanceContent content (pd_citations d)) = Inr blocks \<and>
         topicId < length (pages w) \<and>
         pages w1 =
           (pages w)[topicId := (pages w ! topicId)\<lparr>prop_Status := ''Ready for Draft''\<rparr>] @
           [\<lparr>page_parent = draftsDbId this, prop_Title = Some [topicTitle],
             prop_Status = ''Ready to Start'', prop_Type = Some ''Research Brief'',
             prop_Blog_Posts = Some [topicId], prop_Error = None,
             prop_Last_Modified_Date = None,
             page_children = heading_1 topicTitle # removeAllLinks blocks\<rparr>]))
   \<and> (git_processTopic_try env topicFilePath topicTitle frontMatter w = (Inr (), w2) \<longrightarrow>
      (\<exists>d content rest f.
         perplexity env (clock w + 3) (productivityPrompt env topicTitle) = Response (Some d) \<and>
         pd_choices d = Some (content # rest) \<and>
         files w2 topicFilePath = Some (File f) \<and>
         (\<not> opens_front_matter (enhanceContent content (pd_citations d)) \<longrightarrow>
            file_content f = newline (enhanceContent content (pd_citations d)) \<and>
            (fresh_cache env \<longrightarrow>
               file_data f ''error_message'' = frontMatter ''error_message''))))"
proof -
  have repo: "\<exists>d content rest f.
         perplexity env (clock w + 3) (productivityPrompt env topicTitle) = Response (Some d) \<and>
         pd_choices d = Some (content # rest) \<and>
         files w2 topicFilePath = Some (File f) \<and>
         (\<not> opens_front_matter (enhanceContent content (pd_citations d)) \<longrightarrow>
            file_content f = newline (enhanceContent content (pd_citations d)) \<and>
            (fresh_cache env \<longrightarrow>
               file_data f ''error_message'' = frontMatter ''error_message''))"
    if "git_processTopic_try env topicFilePath topicTitle frontMatter w = (Inr (), w2)"
  proof -
    from git_processTopic_try_success [OF that] obtain d content rest f where
      "perplexity env (clock w + 3) (productivityPrompt env topicTitle) = Response (Some d)"
      "pd_choices d = Some (content # rest)"
      "files w2 topicFilePath = Some (File f)"
      "\<not> opens_front_matter (enhanceContent content (pd_citations d)) \<longrightarrow>
         file_content f = newline (enhanceContent content (pd_citations d)) \<and>
         (fresh_cache env \<longrightarrow>
            file_data f = frontMatter(''status'' \<mapsto> Str ''Research Complete'',
              ''date_researched'' \<mapsto> Str (new_Date env (clock w + 4))))"
      by (elim exE conjE)
    then show ?thesis
      by (intro exI [of _ d] exI [of _ content] exI [of _ rest] exI [of _ f]) simp
  qed
  show ?thesis
    using processTopic_try_success [of env this opts topicId topicTitle w "()" w1] repo
    by (intro conjI impI; (elim conjE)?) simp_all
qed

lemma sample_research_success:
  "processTopic_try sample_env sample_client live 0 ''Foo'' sample_world =
     (Inr (),
      sample_world\<lparr>pages :=
          [topic_Foo\<lparr>prop_Status := ''Ready for Draft''\<rparr>, brief_Foo,
           \<lparr>page_parent = ''drafts'', prop_Title = Some [''Foo''],
             prop_Status = ''Ready to Start'', prop_Type = Some ''Research Brief'',
             prop_Blog_Posts = Some [0], prop_Error = None, prop_Last_Modified_Date = None,
             page_children = [heading_1 ''Foo'', paragraph_block ''bar'']\<rparr>],
        clock := 5,
        provider_calls :=
          [(''Foo'', [topic_Foo\<lparr>prop_Status := ''Research In Progress''\<rparr>, brief_Foo],
            files sample_world)]\<rparr>)"
  by (simp add: run_defs sample_defs)

lemma sample_git_research_success:
  "fst (git_processTopic_try sample_env ''topics/foo.md'' ''Foo'' (file_data topic_file)
     sample_world) = Inr ()"
  "files (snd (git_processTopic_try sample_env ''topics/foo.md'' ''Foo'' (file_data topic_file)
     sample_world)) ''topics/foo.md'' =
     Some (File \<lparr>file_data = [''title'' \<mapsto> Str ''Foo'', ''date_researched'' \<mapsto> Str ''2025-01-01'',
                    ''status'' \<mapsto> Str ''Research Complete''],
                 file_content = ''bar\<newline>''\<rparr>)"
  by (simp_all add: run_defs sample_defs)

lemma sample_fresh_cache: "fresh_cache sample_env"
  by (simp add: fresh_cache_def sample_env_def)

text \<open>
  Scenario 1 of the specification: the topic \<open>Foo\<close>, ready for research, and a provider
  answering \<open>bar\<close> without citations.
\<close>

theorem C4_witness:
  "processTopic_try sample_env sample_client live 0 ''Foo'' sample_world =
     (Inr (),
      sample_world\<lparr>pages :=
          [topic_Foo\<lparr>prop_Status := ''Ready for Draft''\<rparr>, brief_Foo,
           \<lparr>page_parent = ''drafts'', prop_Title = Some [''Foo''],
             prop_Status = ''Ready to Start'', prop_Type = Some ''Research Brief'',
             prop_Blog_Posts = Some [0], prop_Error = None, prop_Last_Modified_Date = None,
             page_children = [heading_1 ''Foo'', paragraph_block ''bar'']\<rparr>],
        clock := 5,
        provider_calls :=
          [(''Foo'', [topic_Foo\<lparr>prop_Status := ''Research In Progress''\<rparr>, brief_Foo],
            files sample_world)]\<rparr>)
   \<and> prop_Error (topic_Foo\<lparr>prop_Status := ''Ready for Draft''\<rparr>) = None
   \<and> fst (git_processTopic_try sample_env ''topics/foo.md'' ''Foo'' (file_data topic_file)
         sample_world) = Inr ()
   \<and> \<not> opens_front_matter (enhanceContent ''bar'' (Some []))
   \<and> fresh_cache sample_env
   \<and> (\<exists>f. files (snd (git_processTopic_try sample_env ''topics/foo.md'' ''Foo''
                (file_data topic_file) sample_world)) ''topics/foo.md'' = Some (File f) \<and>
           file_content f = ''bar\<newline>'' \<and> file_data f ''error_message'' = None)"
  using C4_research_success
    [where env = sample_env and this = sample_client and opts = live and w = sample_world
       and topicId = 0 and topicTitle = "''Foo''" and topicFilePath = "''topics/foo.md''"
       and frontMatter = "file_data topic_file"
       and ?w1.0 = "snd (processTopic_try sample_env sample_client live 0 ''Foo'' sample_world)"
       and ?w2.0 = "snd (git_processTopic_try sample_env ''topics/foo.md'' ''Foo''
                      (file_data topic_file) sample_world)"]
    sample_git_research_success(1) sample_fresh_cache
  unfolding sample_research_success
  by (auto simp: prod_eq_iff sample_env_def live_def topic_Foo_def topic_file_def
        enhanceContent_def opens_front_matter_def newline_def)

text \<open>
  C4, as the specification states it, fails. In the Notion-backed command a topic that was
  put back to \<open>Ready for Research\<close> after an earlier failure keeps its error message
  through a successful run, and the body of the topic page itself stays empty. In the
  Git-backed command the file of Scenario 1 reads back with the body \<open>bar\<close> followed by a
  line feed; its status is not \<open>Ready for Draft\<close> either, since the last step of
  \<^verbatim>\<open>GitResearchCommand.processTopic\<close> overwrites that status with \<open>Research Complete\<close>.
\<close>

theorem C4_counterexample:
  "fst (processTopic_try sample_env sample_client live 0 ''Foo''
     (sample_world\<lparr>pages := [topic_Foo\<lparr>prop_Error := Some ''Earlier failure''\<rparr>, brief_Foo]\<rparr>))
     = Inr ()
   \<and> prop_Status (pages (snd (processTopic_try sample_env sample_client live 0 ''Foo''
       (sample_world\<lparr>pages := [topic_Foo\<lparr>prop_Error := Some ''Earlier failure''\<rparr>, brief_Foo]\<rparr>)))
       ! 0) = ''Ready for Draft''
   \<and> prop_Error (pages (snd (processTopic_try sample_env sample_client live 0 ''Foo''
       (sample_world\<lparr>pages := [topic_Foo\<lparr>prop_Error := Some ''Earlier failure''\<rparr>, brief_Foo]\<rparr>)))
       ! 0) = Some ''Earlier failure''
   \<and> page_children (pages (snd (processTopic_try sample_env sample_client live 0 ''Foo''
       sample_world)) ! 0) = []
   \<and> fst (git_processTopic_try sample_env ''topics/foo.md'' ''Foo'' (file_data topic_file)
         sample_world) = Inr ()
   \<and> files (snd (git_processTopic_try sample_env ''topics/foo.md'' ''Foo''
         (file_data topic_file) sample_world)) ''topics/foo.md'' =
       Some (File \<lparr>file_data = [''title'' \<mapsto> Str ''Foo'',
                 ''date_researched'' \<mapsto> Str ''2025-01-01'',
                 ''status'' \<mapsto> Str ''Research Complete''],
               file_content = ''bar\<newline>''\<rparr>)"
  by (simp add: run_defs sample_defs)










subsection \<open>The Sources section\<close>

lemma forEach_citation_concat:
  "forEach_citation cs k acc =
     acc @ concat (map (\<lambda>(i, c). toString (i + 1) @ ''. '' @ c @ ''\<newline>'') (enumerate k cs))"
  by (induction cs arbitrary: k acc) simp_all

lemma below_ten:
  "(d::nat) < 10 \<Longrightarrow>
   d = 0 \<or> d = 1 \<or> d = 2 \<or> d = 3 \<or> d = 4 \<or> d = 5 \<or> d = 6 \<or> d = 7 \<or> d = 8 \<or> d = 9"
  by arith

lemma digit_value_digit: "d < 10 \<Longrightarrow> digit_value (digit d) = d"
  by (drule below_ten) (auto simp: digit_def digit_value_def)

lemma digit_is_digit: "d < 10 \<Longrightarrow> digit d \<in> set ''0123456789''"
  by (drule below_ten) (auto simp: digit_def)

lemma digit_zero: "d < 10 \<Longrightarrow> digit d = CHR ''0'' \<Longrightarrow> d = 0"
  by (drule below_ten) (auto simp: digit_def)

lemma decimal_value_snoc:
  "decimal_value (digits @ [ch]) = 10 * decimal_value digits + digit_value ch"
  by (simp add: decimal_value_def)

lemma toString_not_empty: "toString n \<noteq> []"
  by (subst toString.simps) simp

text \<open>
  \<open>toString\<close> writes a number in decimal: the numeral denotes the number, consists of
  digits and has no leading zero.
\<close>

lemma decimal_value_toString: "decimal_value (toString n) = n"
proof (induction n rule: toString.induct)
  case (1 n)
  show ?case
  proof (cases "n < 10")
    case True
    then show ?thesis
      by (subst toString.simps) (simp add: decimal_value_def digit_value_digit)
  next
    case False
    with "1.IH" have "decimal_value (toString (n div 10)) = n div 10" by simp
    with False show ?thesis
      by (subst toString.simps) (simp add: decimal_value_snoc digit_value_digit)
  qed
qed

lemma toString_digits: "set (toString n) \<subseteq> set ''0123456789''"
proof (induction n rule: toString.induct)
  case (1 n)
  show ?case
  proof (cases "n < 10")
    case True
    with digit_is_digit [of n] show ?thesis
      by (subst toString.simps) simp
  next
    case False
    with "1.IH" have "set (toString (n div 10)) \<subseteq> set ''0123456789''" by simp
    moreover have "digit (n mod 10) \<in> set ''0123456789''" by (rule digit_is_digit) simp
    ultimately show ?thesis
      using False by (subst toString.simps) simp
  qed
qed

lemma toString_no_leading_zero: "n \<noteq> 0 \<Longrightarrow> hd (toString n) \<noteq> CHR ''0''"
proof (induction n rule: toString.induct)
  case (1 n)
  show ?case
  proof (cases "n < 10")
    case True
    with "1.prems" digit_zero [of n] show ?thesis
      by (subst toString.simps) auto
  next
    case False
    then have "n div 10 \<noteq> 0" by simp
    with "1.IH" False have "hd (toString (n div 10)) \<noteq> CHR ''0''" by simp
    with False show ?thesis
      by (subst toString.simps) (simp add: toString_not_empty)
  qed
qed

lemma forEach_citation_ends_in_line_feed:
  "cs \<noteq> [] \<Longrightarrow> \<exists>str. forEach_citation cs k acc = str @ ''\<newline>''"
proof (induction cs arbitrary: k acc)
  case Nil
  then show ?case by simp
next
  case (Cons c cs)
  show ?case
  proof (cases "cs = []")
    case True
    then show ?thesis by simp
  next
    case False
    from Cons.IH [OF False] show ?thesis by simp
  qed
qed

lemma newline_enhanceContent:
  assumes "citations \<noteq> None" and "citations \<noteq> Some []"
  shows "newline (enhanceContent C citations) = enhanceContent C citations"
proof -
  from assms obtain cs where cs: "citations = Some cs" "cs \<noteq> []" by auto
  from forEach_citation_ends_in_line_feed [OF cs(2)] obtain str where
    "forEach_citation cs 0 (C @ ''\<newline>\<newline>## Sources\<newline>'') = str @ ''\<newline>''"
    by blast
  with cs show ?thesis
    by (simp add: enhanceContent_def newline_def)
qed

text \<open>
  C6, as the code has it. With a content \<open>C\<close> and a non-empty citation list the enhanced
  text, which is what the research stage hands to the store, is \<open>C\<close>, the heading line
  and one numbered line per citation, in the provider's order and counted from 1 in
  decimal; without citations (an empty or a missing list) it is \<open>C\<close> alone. The round trip
  of the specification is the fourth conjunct.

  The Notion-backed command stores the enhanced text as the blocks it converts to, under
  a heading on the new brief. The Git-backed command stores it as the body of the topic
  file, with a line feed at its end (as long as the text does not open with a front
  matter fence): with citations that is the enhanced text itself, which ends in a line
  feed already.
\<close>

theorem C6_sources_section:
  "enhanceContent C (Some (c # cs)) =
     C @ ''\<newline>\<newline>## Sources\<newline>'' @
     concat (map (\<lambda>(i, x). toString (i + 1) @ ''. '' @ x @ ''\<newline>'') (enumerate 0 (c # cs)))
   \<and> enhanceContent C (Some []) = C
   \<and> enhanceContent C None = C
   \<and> enhanceContent ''X'' (Some [''A'', ''B'']) =
       ''X\<newline>\<newline>## Sources\<newline>1. A\<newline>2. B\<newline>''
   \<and> decimal_value (toString n) = n
   \<and> toString n \<noteq> []
   \<and> set (toString n) \<subseteq> set ''0123456789''
   \<and> (n \<noteq> 0 \<longrightarrow> hd (toString n) \<noteq> CHR ''0'')
   \<and> (\<not> dryRun opts \<and> processTopic_try env this opts topicId topicTitle w = (Inr (), w1) \<longrightarrow>
      (\<exists>d content rest blocks.
         perplexity env (Suc (clock w)) (productivityPrompt env topicTitle) = Response (Some d) \<and>
         pd_choices d = Some (content # rest) \<and>
         markdownToBlocks env (enhanceContent content (pd_citations d)) = Inr blocks \<and>
         length (pages w1) = Suc (length (pages w)) \<and>
         page_children (pages w1 ! length (pages w)) =
           heading_1 topicTitle # removeAllLinks blocks))
   \<and> (git_processTopic_try env topicFilePath topicTitle frontMatter w = (Inr (), w2) \<longrightarrow>
      (\<exists>d content rest f.
         perplexity env (clock w + 3) (productivityPrompt env topicTitle) = Response (Some d) \<and>
         pd_choices d = Some (content # rest) \<and>
         files w2 topicFilePath = Some (File f) \<and>
         (\<not> opens_front_matter (enhanceContent content (pd_citations d)) \<longrightarrow>
            file_content f = newline (enhanceContent content (pd_citations d)) \<and>
            (pd_citations d \<noteq> None \<and> pd_citations d \<noteq> Some [] \<longrightarrow>
               file_content f = enhanceContent content (pd_citations d)))))"
  (is "?cited \<and> ?empty \<and> ?missing \<and> ?round_trip \<and> ?value \<and> ?some \<and> ?digits \<and> ?leading \<and>
       ?notion \<and> ?git")
proof -
  have cited: ?cited
    by (simp add: enhanceContent_def forEach_citation_concat del: enumerate_simps)
  have empty: ?empty and missing: ?missing
    by (simp_all add: enhanceContent_def)
  have round_trip: ?round_trip
    by (simp add: enhanceContent_def toString.simps digit_def)
  have notion: ?notion
  proof
    assume "\<not> dryRun opts \<and>
      processTopic_try env this opts topicId topicTitle w = (Inr (), w1)"
    then have ran: "processTopic_try env this opts topicId topicTitle w = (Inr (), w1)"
      and live: "\<not> dryRun opts"
      by simp_all
    from processTopic_try_success [OF ran live] obtain d content rest blocks where
      "perplexity env (Suc (clock w)) (productivityPrompt env topicTitle) = Response (Some d)"
      "pd_choices d = Some (content # rest)"
      "markdownToBlocks env (enhanceContent content (pd_citations d)) = Inr blocks"
      "topicId < length (pages w)"
      "pages w1 =
         (pages w)[topicId := (pages w ! topicId)\<lparr>prop_Status := ''Ready for Draft''\<rparr>] @
         [\<lparr>page_parent = draftsDbId this, prop_Title = Some [topicTitle],
           prop_Status = ''Ready to Start'', prop_Type = Some ''Research Brief'',
           prop_Blog_Posts = Some [topicId], prop_Error = None,
           prop_Last_Modified_Date = None,
           page_children = heading_1 topicTitle # removeAllLinks blocks\<rparr>]"
      by (elim exE conjE)
    then show "\<exists>d content rest blocks.
         perplexity env (Suc (clock w)) (productivityPrompt env topicTitle) = Response (Some d) \<and>
         pd_choices d = Some (content # rest) \<and>
         markdownToBlocks env (enhanceContent content (pd_citations d)) = Inr blocks \<and>
         length (pages w1) = Suc (length (pages w)) \<and>
         page_children (pages w1 ! length (pages w)) =
           heading_1 topicTitle # removeAllLinks blocks"
      by (intro exI [of _ d] exI [of _ content] exI [of _ rest] exI [of _ blocks])
         (simp add: nth_append)
  qed
  have git: ?git
  proof
    assume ran: "git_processTopic_try env topicFilePath topicTitle frontMatter w = (Inr (), w2)"
    from git_processTopic_try_success [OF ran] obtain d content rest f where
      "perplexity env (clock w + 3) (productivityPrompt env topicTitle) = Response (Some d)"
      "pd_choices d = Some (content # rest)"
      "files w2 topicFilePath = Some (File f)"
      "\<not> opens_front_matter (enhanceContent content (pd_citations d)) \<longrightarrow>
         file_content f = newline (enhanceContent content (pd_citations d)) \<and>
         (fresh_cache env \<longrightarrow>
            file_data f = frontMatter(''status'' \<mapsto> Str ''Research Complete'',
              ''date_researched'' \<mapsto> Str (new_Date env (clock w + 4))))"
      by (elim exE conjE)
    then show "\<exists>d content rest f.
         perplexity env (clock w + 3) (productivityPrompt env topicTitle) = Response (Some d) \<and>
         pd_choices d = Some (content # rest) \<and>
         files w2 topicFilePath = Some (File f) \<and>
         (\<not> opens_front_matter (enhanceContent content (pd_citations d)) \<longrightarrow>
            file_content f = newline (enhanceContent content (pd_citations d)) \<and>
            (pd_citations d \<noteq> None \<and> pd_citations d \<noteq> Some [] \<longrightarrow>
               file_content f = enhanceContent content (pd_citations d)))"
      by (intro exI [of _ d] exI [of _ content] exI [of _ rest] exI [of _ f])
         (simp add: newline_enhanceContent)
  qed
  have leading: ?leading
    by (simp add: toString_no_leading_zero)
  from cited empty missing round_trip decimal_value_toString [of n] toString_not_empty [of n]
    toString_digits [of n] leading notion git
  show ?thesis by (intro conjI)
qed

lemma sample_cited_research:
  "processTopic_try citing_provider sample_client live 0 ''Foo'' sample_world =
     (Inr (),
      sample_world\<lparr>pages :=
          [topic_Foo\<lparr>prop_Status := ''Ready for Draft''\<rparr>, brief_Foo,
           \<lparr>page_parent = ''drafts'', prop_Title = Some [''Foo''],
             prop_Status = ''Ready to Start'', prop_Type = Some ''Research Brief'',
             prop_Blog_Posts = Some [0], prop_Error = None, prop_Last_Modified_Date = None,
             page_children =
               [heading_1 ''Foo'',
                paragraph_block ''X\<newline>\<newline>## Sources\<newline>1. A\<newline>2. B\<newline>'']\<rparr>],
        clock := 5,
        provider_calls :=
          [(''Foo'', [topic_Foo\<lparr>prop_Status := ''Research In Progress''\<rparr>, brief_Foo],
            files sample_world)]\<rparr>)"
  by (simp add: run_defs sample_defs toString.simps digit_def)

lemma sample_cited_git_research:
  "fst (git_processTopic_try citing_provider ''topics/foo.md'' ''Foo'' (file_data topic_file)
     sample_world) = Inr ()"
  by (simp add: run_defs sample_defs toString.simps digit_def)

text \<open>
  The research provider answers \<open>X\<close> with the citations \<open>A\<close> and \<open>B\<close>: the round trip of
  the specification through both stores, and the numerals of 10 and 12.
\<close>

theorem C6_witness:
  "toString 10 = ''10'' \<and> toString 12 = ''12'' \<and> decimal_value ''12'' = 12
   \<and> set ''12'' \<subseteq> set ''0123456789'' \<and> hd ''12'' \<noteq> CHR ''0''
   \<and> processTopic_try citing_provider sample_client live 0 ''Foo'' sample_world =
     (Inr (),
      sample_world\<lparr>pages :=
          [topic_Foo\<lparr>prop_Status := ''Ready for Draft''\<rparr>, brief_Foo,
           \<lparr>page_parent = ''drafts'', prop_Title = Some [''Foo''],
             prop_Status = ''Ready to Start'', prop_Type = Some ''Research Brief'',
             prop_Blog_Posts = Some [0], prop_Error = None, prop_Last_Modified_Date = None,
             page_children =
               [heading_1 ''Foo'',
                paragraph_block ''X\<newline>\<newline>## Sources\<newline>1. A\<newline>2. B\<newline>'']\<rparr>],
        clock := 5,
        provider_calls :=
          [(''Foo'', [topic_Foo\<lparr>prop_Status := ''Research In Progress''\<rparr>, brief_Foo],
            files sample_world)]\<rparr>)
   \<and> fst (git_processTopic_try citing_provider ''topics/foo.md'' ''Foo'' (file_data topic_file)
         sample_world) = Inr ()
   \<and> \<not> opens_front_matter (enhanceContent ''X'' (Some [''A'', ''B'']))
   \<and> (\<exists>f. files (snd (git_processTopic_try citing_provider ''topics/foo.md'' ''Foo''
                (file_data topic_file) sample_world)) ''topics/foo.md'' = Some (File f) \<and>
           file_content f = ''X\<newline>\<newline>## Sources\<newline>1. A\<newline>2. B\<newline>'')"
  using C6_sources_section
    [where C = "''X''" and c = "''A''" and cs = "[''B'']" and n = 12
       and env = citing_provider and this = sample_client and opts = live and w = sample_world
       and topicId = 0 and topicTitle = "''Foo''" and topicFilePath = "''topics/foo.md''"
       and frontMatter = "file_data topic_file"
       and ?w1.0 = "snd (processTopic_try citing_provider sample_client live 0 ''Foo''
                      sample_world)"
       and ?w2.0 = "snd (git_processTopic_try citing_provider ''topics/foo.md'' ''Foo''
                      (file_data topic_file) sample_world)"]
    sample_cited_git_research
  unfolding sample_cited_research
  by (auto simp: prod_eq_iff citing_provider_def sample_env_def live_def
        enhanceContent_def opens_front_matter_def toString.simps digit_def decimal_value_def
        digit_value_def)

text \<open>
  C6, as the specification states it, fails in the Git-backed command for a result without
  citations: with the content \<open>bar\<close> the enhanced text is \<open>bar\<close>, but the body that the
  file reads back with is \<open>bar\<close> followed by a line feed.
\<close>

theorem C6_counterexample:
  "enhanceContent ''bar'' (Some []) = ''bar''
   \<and> perplexity sample_env 3 (productivityPrompt sample_env ''Foo'') =
       Response (Some \<lparr>pd_choices = Some [''bar''], pd_usage = Some 1, pd_model = ''sonar'',
                        pd_citations = Some []\<rparr>)
   \<and> fst (git_processTopic_try sample_env ''topics/foo.md'' ''Foo'' (file_data topic_file)
         sample_world) = Inr ()
   \<and> files (snd (git_processTopic_try sample_env ''topics/foo.md'' ''Foo''
         (file_data topic_file) sample_world)) ''topics/foo.md'' =
       Some (File \<lparr>file_data = [''title'' \<mapsto> Str ''Foo'',
                 ''date_researched'' \<mapsto> Str ''2025-01-01'',
                 ''status'' \<mapsto> Str ''Research Complete''],
               file_content = ''bar\<newline>''\<rparr>)"
  by (simp add: run_defs sample_defs)

subsection \<open>Dry runs and untitled items\<close>

text \<open>
  C7 on the code. A dry run of the Notion-backed research command on the topic \<open>Foo\<close>
  is not free of writes: the status of the topic is set to \<open>Research In Progress\<close>
  before the dry-run option is looked at, and the topic stays there. No provider is
  called. The Git-backed command tests the option first and leaves the world as it is.
\<close>

theorem C7_dry_run_writes_status:
  "processTopic sample_env sample_client dry 0 ''Foo'' sample_world =
     (Inr (),
      sample_world\<lparr>pages := [topic_Foo\<lparr>prop_Status := ''Research In Progress''\<rparr>, brief_Foo],
        clock := 1\<rparr>)
   \<and> git_processTopic sample_env dry ''topics/foo.md'' ''Foo'' (file_data topic_file)
       sample_world = (Inr (), sample_world)"
  by (simp add: run_defs sample_defs)

lemma processTopic_frame:
  assumes "processTopic env this opts j title w = (r, w')"
  shows "r = Inr () \<and> length (pages w) \<le> length (pages w') \<and>
         (\<forall>i < length (pages w). i \<noteq> j \<longrightarrow> pages w' ! i = pages w ! i)"
  using assms unfolding processTopic_def processTopic_try_def processTopic_catch_def Let_def
  by (auto elim!: try_catchE and_thenE
      dest!: updateBlogPostStatus_effect updateBlogPostError_effect researchTopic_effect
        createResearchBrief_frame
      split: if_splits option.splits)

lemma for_topics_frame:
  "for_topics env this opts topics w = (r, w') \<Longrightarrow> i < length (pages w) \<Longrightarrow>
   (\<forall>(j, topic) \<in> set topics. j = i \<longrightarrow>
      title_plain_text topic = None \<or> title_plain_text topic = Some []) \<Longrightarrow>
   r = Inr () \<and> pages w' ! i = pages w ! i \<and> length (pages w) \<le> length (pages w')"
proof (induction topics arbitrary: w)
  case Nil
  then show ?case by simp
next
  case (Cons first rest)
  obtain j topic where first: "first = (j, topic)" by (cases first)
  show ?case
  proof (cases "title_plain_text topic = None \<or> title_plain_text topic = Some []")
    case True
    with Cons.prems first have "for_topics env this opts rest w = (r, w')"
      by (auto split: option.splits)
    from Cons.IH [OF this Cons.prems(2)] Cons.prems(3) show ?thesis by simp
  next
    case False
    then obtain title where title: "title_plain_text topic = Some title" "title \<noteq> []"
      by auto
    with Cons.prems(3) first have "j \<noteq> i" by auto
    from Cons.prems(1) first title obtain w1 where
      one: "processTopic env this opts j title w = (Inr (), w1)"
      and others: "for_topics env this opts rest w1 = (r, w')"
      by (auto elim!: and_thenE dest: processTopic_frame)
    from processTopic_frame [OF one] \<open>j \<noteq> i\<close> Cons.prems(2) have
      w1: "i < length (pages w1)" "pages w1 ! i = pages w ! i"
        "length (pages w) \<le> length (pages w1)"
      by auto
    from Cons.IH [OF others w1(1)] Cons.prems(3) w1 show ?thesis by auto
  qed
qed

lemma execute_untitled:
  assumes i: "i < length (pages w)"
    and untitled: "title_plain_text (pages w ! i) = None \<or> title_plain_text (pages w ! i) = Some []"
  shows "pages (snd (execute env this opts w)) ! i = pages w ! i"
    and "faults env (clock w) = None \<Longrightarrow> fst (execute env this opts w) = Completed"
proof -
  let ?body = "if single_id opts \<noteq> None \<and> single_id opts \<noteq> Some []
          then ret ()
          else and_then (getBlogPostsReadyForResearch env this) (\<lambda>topics.
               let topicsToProcess = (if singleItem opts then take 1 topics else topics) in
               for_topics env this opts topicsToProcess)"
  obtain r w' where body: "?body w = (r, w')" by (cases "?body w")
  have "pages w' ! i = pages w ! i \<and> (faults env (clock w) = None \<longrightarrow> r = Inr ())"
  proof (cases "single_id opts \<noteq> None \<and> single_id opts \<noteq> Some []")
    case True
    with body show ?thesis by auto
  next
    case False
    with body have "and_then (getBlogPostsReadyForResearch env this) (\<lambda>topics.
               for_topics env this opts (if singleItem opts then take 1 topics else topics))
               w = (r, w')"
      by (auto simp: Let_def split: if_splits)
    then show ?thesis
    proof (cases rule: and_thenE)
      case (throws e)
      then show ?thesis
        unfolding getBlogPostsReadyForResearch_def
        by (auto dest!: client_databases_query_effect)
    next
      case (returns topics w1)
      from returns(1) have
        w1: "pages w1 = pages w"
        and topics: "\<forall>(j, topic) \<in> set topics. j < length (pages w) \<and> topic = pages w ! j"
        unfolding getBlogPostsReadyForResearch_def
        by (auto dest!: client_databases_query_effect simp: in_set_enumerate_eq)
      let ?selected = "if singleItem opts then take 1 topics else topics"
      from topics have "\<forall>(j, topic) \<in> set ?selected. topic = pages w ! j"
        by (auto dest: in_set_takeD)
      with untitled have skip: "\<forall>(j, topic) \<in> set ?selected. j = i \<longrightarrow>
          title_plain_text topic = None \<or> title_plain_text topic = Some []"
        by auto
      from returns(2) have "for_topics env this opts ?selected w1 = (r, w')"
        by simp
      from for_topics_frame [OF this _ skip] i w1 show ?thesis by simp
    qed
  qed
  with body show "pages (snd (execute env this opts w)) ! i = pages w ! i"
    and "faults env (clock w) = None \<Longrightarrow> fst (execute env this opts w) = Completed"
    by (auto simp: execute_def split: sum.splits)
qed

lemma research_run_untitled:
  assumes "notion_api_key inputs \<noteq> []" "notion_blog_posts_id inputs \<noteq> []"
    "notion_drafts_id inputs \<noteq> []" "perplexity_api_key inputs \<noteq> []"
    and "faults env (clock w) = None"
    and "filter (\<lambda>(i, p). page_parent p = notion_blog_posts_id inputs \<and>
                  prop_Status p = ''Ready for Research'') (enumerate 0 (pages w))
         = (topicId, topic) # others"
    and "title_plain_text topic = None \<or> title_plain_text topic = Some []"
  shows "research_run env inputs w = (None, w\<lparr>clock := Suc (clock w)\<rparr>)"
  using assms
  by (auto simp: research_run_def research_run_try_def getInput_def client_databases_query_def
        external_def and_then_def ret_def throw_def)

text \<open>
  C8. A page without a title, or with an empty one, is the same after a run of
  \<^verbatim>\<open>ResearchCommand.execute\<close> as before, in single-item and in batch mode, whatever
  happens to the other topics; and once the query has been answered the run completes
  without the process being ended. The research script, whose first ready topic has no
  title, ends without a failure and without any write or provider call: only the query has
  been made.
\<close>

theorem C8_untitled_item_skipped:
  "(i < length (pages w) \<and>
    (title_plain_text (pages w ! i) = None \<or> title_plain_text (pages w ! i) = Some []) \<longrightarrow>
      pages (snd (execute env this opts w)) ! i = pages w ! i \<and>
      (faults env (clock w) = None \<longrightarrow> fst (execute env this opts w) = Completed))
   \<and> (notion_api_key inputs \<noteq> [] \<and> notion_blog_posts_id inputs \<noteq> [] \<and>
       notion_drafts_id inputs \<noteq> [] \<and> perplexity_api_key inputs \<noteq> [] \<and>
       faults env (clock w) = None \<and>
       filter (\<lambda>(i, p). page_parent p = notion_blog_posts_id inputs \<and>
                 prop_Status p = ''Ready for Research'') (enumerate 0 (pages w))
         = (topicId, topic) # others \<and>
       (title_plain_text topic = None \<or> title_plain_text topic = Some []) \<longrightarrow>
      research_run env inputs w = (None, w\<lparr>clock := Suc (clock w)\<rparr>))"
  using execute_untitled [of i w env this opts]
    research_run_untitled [of inputs env w topicId topic others]
  by (intro conjI impI; (elim conjE)?; assumption?) simp_all

lemma sample_untitled_run:
  "prop_Status (pages (snd (execute sample_env sample_client live untitled_world)) ! 1) =
     ''Ready for Draft''"
  by (simp add: execute_def getBlogPostsReadyForResearch_def title_plain_text_def run_defs
        sample_defs)

text \<open>
  Scenario 2 of the specification: the topic with the empty title is skipped and left as
  it is, while the batch goes on to research the topic \<open>Foo\<close>.
\<close>

theorem C8_witness:
  "fst (execute sample_env sample_client live untitled_world) = Completed
   \<and> pages (snd (execute sample_env sample_client live untitled_world)) ! 0 = untitled_topic
   \<and> prop_Status untitled_topic = ''Ready for Research''
   \<and> prop_Status (pages (snd (execute sample_env sample_client live untitled_world)) ! 1) =
       ''Ready for Draft''
   \<and> research_run sample_env sample_inputs untitled_world =
       (None, untitled_world\<lparr>clock := 1\<rparr>)"
  using C8_untitled_item_skipped
    [where env = sample_env and this = sample_client and opts = live and w = untitled_world
       and i = 0 and inputs = sample_inputs and topicId = 0 and topic = untitled_topic
       and others = "[(1, topic_Foo)]"]
    sample_untitled_run
  by (simp add: title_plain_text_def sample_defs)

subsection \<open>The recovery branches of the GitHub Actions scripts\<close>

lemma new_Error_plain [simp]: "plain_error (new_Error msg)"
  by (simp add: plain_error_def new_Error_def)

lemma research_outcome_plain: "research_outcome outcome = Inl e \<Longrightarrow> plain_error e"
  by (auto simp: research_outcome_def invalid_response_def
      split: axios_outcome.splits option.splits list.splits)

lemma draft_outcome_plain: "draft_outcome outcome = Inl e \<Longrightarrow> plain_error e"
  by (auto simp: draft_outcome_def split: sum.splits list.splits)

lemma external_plain:
  assumes "external env effect w = (Inl e, w')" and "library_errors_plain env"
    and "\<And>v v'. effect v = (Inl e, v') \<Longrightarrow> plain_error e"
  shows "plain_error e"
  using assms
  by (auto simp: external_def library_errors_plain_def split: option.splits)

lemma client_pages_update_plain:
  "client_pages_update env i u w = (Inl e, w') \<Longrightarrow> library_errors_plain env \<Longrightarrow> plain_error e"
  unfolding client_pages_update_def
  by (erule external_plain) (auto split: if_splits)

lemma client_pages_create_plain:
  "client_pages_create env p w = (Inl e, w') \<Longrightarrow> library_errors_plain env \<Longrightarrow> plain_error e"
  unfolding client_pages_create_def
  by (erule external_plain) auto

lemma client_blocks_children_append_plain:
  "client_blocks_children_append env b new w = (Inl e, w') \<Longrightarrow> library_errors_plain env \<Longrightarrow>
   plain_error e"
  unfolding client_blocks_children_append_def
  by (erule external_plain) (auto split: if_splits)

lemma client_databases_query_plain:
  "client_databases_query env db status w = (Inl e, w') \<Longrightarrow> library_errors_plain env \<Longrightarrow>
   plain_error e"
  unfolding client_databases_query_def
  by (erule external_plain) auto

lemma pageToMarkdown_plain:
  "pageToMarkdown env i w = (Inl e, w') \<Longrightarrow> library_errors_plain env \<Longrightarrow> plain_error e"
  unfolding pageToMarkdown_def
  by (erule external_plain) (auto split: if_splits)

lemma updateBlogPostStatus_plain:
  "updateBlogPostStatus env i s w = (Inl e, w') \<Longrightarrow> library_errors_plain env \<Longrightarrow> plain_error e"
  unfolding updateBlogPostStatus_def
  by (auto elim!: try_catchE dest: client_pages_update_plain)

lemma getInput_plain: "getInput v name w = (Inl e, w') \<Longrightarrow> plain_error e"
  by (auto simp: getInput_def split: if_splits)

lemma researchTopic_plain: "researchTopic env prompt w = (Inl e, w') \<Longrightarrow> plain_error e"
  by (auto simp: researchTopic_def dest: research_outcome_plain)

lemma generateContent_plain: "generateContent env sys prompt w = (Inl e, w') \<Longrightarrow> plain_error e"
  by (auto simp: generateContent_def dest: draft_outcome_plain)

lemma appendBlocksInBatches_from_plain:
  "appendBlocksInBatches_from env b blocks i w = (Inl e, w') \<Longrightarrow> library_errors_plain env \<Longrightarrow>
   plain_error e"
proof (induction env b blocks i arbitrary: w rule: appendBlocksInBatches_from.induct)
  case (1 env b blocks i)
  show ?case
  proof (cases "i < length blocks")
    case False
    with "1.prems" show ?thesis by (simp add: appendBlocksInBatches_from.simps)
  next
    case True
    with "1.prems" have
      "and_then (client_blocks_children_append env b (take 100 (drop i blocks)))
         (\<lambda>_. appendBlocksInBatches_from env b blocks (i + 100)) w = (Inl e, w')"
      by (simp add: appendBlocksInBatches_from.simps)
    then show ?thesis
    proof (cases rule: and_thenE)
      case (throws e')
      with "1.prems"(2) show ?thesis by (auto dest: client_blocks_children_append_plain)
    next
      case (returns x w1)
      from "1.IH" [OF True returns(2) "1.prems"(2)] show ?thesis .
    qed
  qed
qed

lemma lift_markdownToBlocks_plain:
  "lift (markdownToBlocks env md) w = (Inl e, w') \<Longrightarrow> library_errors_plain env \<Longrightarrow> plain_error e"
  by (auto simp: library_errors_plain_def)

lemma script_createResearchBrief_plain:
  "script_createResearchBrief env b title md db w = (Inl e, w') \<Longrightarrow> library_errors_plain env \<Longrightarrow>
   plain_error e"
  unfolding script_createResearchBrief_def appendBlocksInBatches_def Let_def
  by (auto elim!: try_catchE and_thenE
      dest: lift_markdownToBlocks_plain client_pages_create_plain appendBlocksInBatches_from_plain)

lemma script_createBlogDraft_plain:
  "script_createBlogDraft env b title md rel db w = (Inl e, w') \<Longrightarrow> library_errors_plain env \<Longrightarrow>
   plain_error e"
  unfolding script_createBlogDraft_def appendBlocksInBatches_def Let_def
  by (auto elim!: try_catchE and_thenE
      dest: lift_markdownToBlocks_plain client_pages_create_plain appendBlocksInBatches_from_plain)

lemma research_run_try_plain:
  "research_run_try env inputs w = (Inl e, w') \<Longrightarrow> library_errors_plain env \<Longrightarrow> plain_error e"
  unfolding research_run_try_def Let_def
  by (auto elim!: and_thenE split: list.splits option.splits if_splits;
      (erule getInput_plain | erule (1) client_databases_query_plain |
       erule (1) updateBlogPostStatus_plain | erule researchTopic_plain |
       erule (1) script_createResearchBrief_plain))

lemma draft_run_try_plain:
  "draft_run_try env inputs w = (Inl e, w') \<Longrightarrow> library_errors_plain env \<Longrightarrow> plain_error e"
  unfolding draft_run_try_def Let_def
  by (auto elim!: and_thenE split: list.splits option.splits if_splits;
      (erule getInput_plain | erule (1) client_databases_query_plain |
       erule (1) updateBlogPostStatus_plain | erule generateContent_plain |
       erule (1) script_createBlogDraft_plain | erule (1) pageToMarkdown_plain))

lemma research_run_dead_branch:
  assumes "library_errors_plain env"
  shows "research_run env inputs w =
     (case research_run_try env inputs w of
        (Inr u, w') \<Rightarrow> (None, w')
      | (Inl error, w') \<Rightarrow> (Some (''Research workflow failed: '' @ err_message error), w'))"
proof (cases "research_run_try env inputs w")
  case (Pair r w')
  show ?thesis
  proof (cases r)
    case (Inl e)
    with Pair assms have "plain_error e" by (auto dest: research_run_try_plain)
    with Pair Inl show ?thesis
      by (simp add: research_run_def research_run_recover_def plain_error_def ret_def)
  next
    case (Inr u)
    with Pair show ?thesis by (simp add: research_run_def)
  qed
qed

lemma draft_run_dead_branch:
  assumes "library_errors_plain env"
  shows "draft_run env inputs w =
     (case draft_run_try env inputs w of
        (Inr u, w') \<Rightarrow> (None, w')
      | (Inl error, w') \<Rightarrow> (Some (''Draft writing workflow failed: '' @ err_message error), w'))"
proof (cases "draft_run_try env inputs w")
  case (Pair r w')
  show ?thesis
  proof (cases r)
    case (Inl e)
    with Pair assms have "plain_error e" by (auto dest: draft_run_try_plain)
    with Pair Inl show ?thesis
      by (simp add: draft_run_def draft_run_recover_def plain_error_def ret_def)
  next
    case (Inr u)
    with Pair show ?thesis by (simp add: draft_run_def)
  qed
qed

lemma first_result_in_range:
  assumes "filter P (enumerate 0 ps) = (i, p) # others"
  shows "i < length ps \<and> p = ps ! i"
proof -
  from assms have "(i, p) \<in> set (filter P (enumerate 0 ps))" by simp
  then show ?thesis by (auto simp: in_set_enumerate_eq)
qed

lemma research_run_provider_failure:
  assumes inputs: "notion_api_key inputs \<noteq> []" "notion_blog_posts_id inputs \<noteq> []"
      "notion_drafts_id inputs \<noteq> []" "perplexity_api_key inputs \<noteq> []"
    and query: "faults env (clock w) = None"
      "filter (\<lambda>(i, p). page_parent p = notion_blog_posts_id inputs \<and>
                  prop_Status p = ''Ready for Research'') (enumerate 0 (pages w))
         = (topicId, topic) # others"
    and title: "title_plain_text topic = Some topicTitle" "topicTitle \<noteq> []"
    and in_progress: "faults env (Suc (clock w)) = None"
    and provider: "research_outcome (perplexity env (Suc (Suc (clock w)))
        (script_research_prompt inputs topicTitle)) = Inl error"
  shows "fst (research_run env inputs w) =
           Some (''Research workflow failed: '' @ err_message error)"
    and "pages (snd (research_run env inputs w)) =
           (pages w)[topicId := (pages w ! topicId)\<lparr>prop_Status := ''Research In Progress''\<rparr>]"
proof -
  from first_result_in_range [OF query(2)] have range: "topicId < length (pages w)" by simp
  from research_outcome_plain [OF provider] have plain: "err_topicId error = None"
    by (simp add: plain_error_def)
  have "research_run_try env inputs w =
      (Inl error,
       w\<lparr>clock := Suc (Suc (Suc (clock w))),
         pages := (pages w)[topicId :=
           (pages w ! topicId)\<lparr>prop_Status := ''Research In Progress''\<rparr>],
         provider_calls := provider_calls w @
           [(script_research_prompt inputs topicTitle,
             (pages w)[topicId := (pages w ! topicId)\<lparr>prop_Status := ''Research In Progress''\<rparr>],
             files w)]\<rparr>)"
    using inputs query title in_progress provider range
    by (simp add: research_run_try_def getInput_def client_databases_query_def external_def
          and_then_def try_catch_def ret_def throw_def updateBlogPostStatus_def
          client_pages_update_def status_update_def apply_update_def researchTopic_def)
  with plain show "fst (research_run env inputs w) =
           Some (''Research workflow failed: '' @ err_message error)"
    and "pages (snd (research_run env inputs w)) =
           (pages w)[topicId := (pages w ! topicId)\<lparr>prop_Status := ''Research In Progress''\<rparr>]"
    by (simp_all add: research_run_def research_run_recover_def ret_def)
qed

lemma draft_run_provider_failure:
  assumes inputs: "notion_api_key inputs \<noteq> []" "notion_blog_posts_id inputs \<noteq> []"
      "notion_drafts_id inputs \<noteq> []" "anthropic_api_key inputs \<noteq> []"
    and query: "faults env (clock w) = None"
      "filter (\<lambda>(i, p). page_parent p = notion_drafts_id inputs \<and>
                  prop_Status p = ''Ready to Start'') (enumerate 0 (pages w))
         = (draftId, draft) # others"
    and read: "faults env (Suc (clock w)) = None"
    and title: "title_plain_text draft = Some draftTitle" "draftTitle \<noteq> []"
      "toMarkdownString env (page_children draft) \<noteq> []"
    and in_progress: "faults env (Suc (Suc (clock w))) = None"
    and companion: "first_relation draft = None \<or>
      (\<exists>b. first_relation draft = Some b \<and> b < length (pages w) \<and>
           faults env (Suc (Suc (Suc (clock w)))) = None)"
    and provider: "draft_outcome (anthropic env
        (case first_relation draft of
           None \<Rightarrow> Suc (Suc (Suc (clock w)))
         | Some b \<Rightarrow> Suc (Suc (Suc (Suc (clock w)))))
        (script_user_prompt inputs draftTitle (toMarkdownString env (page_children draft))))
        = Inl error"
  shows "fst (draft_run env inputs w) =
           Some (''Draft writing workflow failed: '' @ err_message error)"
    and "pages (snd (draft_run env inputs w)) =
           (let ps = (pages w)[draftId :=
                       (pages w ! draftId)\<lparr>prop_Status := ''Writing in Progress''\<rparr>]
            in case first_relation draft of
                 None \<Rightarrow> ps
               | Some b \<Rightarrow> ps[b := (ps ! b)\<lparr>prop_Status := ''Draft In Progress''\<rparr>])"
proof -
  from first_result_in_range [OF query(2)] have
    range: "draftId < length (pages w)" "draft = pages w ! draftId"
    by simp_all
  from draft_outcome_plain [OF provider] have plain: "err_draftId error = None"
    by (simp add: plain_error_def)
  let ?ps = "(pages w)[draftId := (pages w ! draftId)\<lparr>prop_Status := ''Writing in Progress''\<rparr>]"
  have "\<exists>w'. draft_run_try env inputs w = (Inl error, w') \<and>
      pages w' = (case first_relation draft of
                    None \<Rightarrow> ?ps
                  | Some b \<Rightarrow> ?ps[b := (?ps ! b)\<lparr>prop_Status := ''Draft In Progress''\<rparr>])"
    using inputs query read title in_progress companion provider range(1) range(2) [symmetric]
    by (auto simp: draft_run_try_def getInput_def client_databases_query_def external_def
          and_then_def try_catch_def ret_def throw_def updateBlogPostStatus_def
          client_pages_update_def status_update_def apply_update_def generateContent_def
          pageToMarkdown_def Let_def)
  with plain show "fst (draft_run env inputs w) =
           Some (''Draft writing workflow failed: '' @ err_message error)"
    and "pages (snd (draft_run env inputs w)) =
           (let ps = (pages w)[draftId :=
                       (pages w ! draftId)\<lparr>prop_Status := ''Writing in Progress''\<rparr>]
            in case first_relation draft of
                 None \<Rightarrow> ps
               | Some b \<Rightarrow> ps[b := (ps ! b)\<lparr>prop_Status := ''Draft In Progress''\<rparr>])"
    by (auto simp: draft_run_def draft_run_recover_def ret_def Let_def)
qed

text \<open>
  C10. As long as the libraries throw errors without a \<^verbatim>\<open>topicId\<close> or \<^verbatim>\<open>draftId\<close>
  property, no error thrown in the \<^verbatim>\<open>try\<close> block of either script has one, so the guarded
  recovery in the \<^verbatim>\<open>catch\<close> block is never entered: a run is its \<^verbatim>\<open>try\<close> block followed by
  \<^verbatim>\<open>core.setFailed\<close> alone. In particular, when the provider fails after the in-progress
  write (here the libraries may throw what they like, since the provider's error is
  wrapped in a fresh one), the run fails and the store differs from the initial one only
  by the in-progress statuses: \<open>Research In Progress\<close> on the topic, or \<open>Writing in
  Progress\<close> on the brief and \<open>Draft In Progress\<close> on its blog post. No \<open>Error\<close> status
  and no error message is written.
\<close>

theorem C10_recovery_unreachable:
  "(library_errors_plain env \<longrightarrow>
      (research_run_try env inputs w = (Inl e1, w1) \<longrightarrow> err_topicId e1 = None) \<and>
      (draft_run_try env inputs w = (Inl e2, w2) \<longrightarrow> err_draftId e2 = None) \<and>
      research_run env inputs w =
        (case research_run_try env inputs w of
           (Inr u, w') \<Rightarrow> (None, w')
         | (Inl error, w') \<Rightarrow>
             (Some (''Research workflow failed: '' @ err_message error), w')) \<and>
      draft_run env inputs w =
        (case draft_run_try env inputs w of
           (Inr u, w') \<Rightarrow> (None, w')
         | (Inl error, w') \<Rightarrow>
             (Some (''Draft writing workflow failed: '' @ err_message error), w')))
   \<and> (notion_api_key inputs \<noteq> [] \<and> notion_blog_posts_id inputs \<noteq> [] \<and>
       notion_drafts_id inputs \<noteq> [] \<and> perplexity_api_key inputs \<noteq> [] \<and>
       faults env (clock w) = None \<and>
       filter (\<lambda>(i, p). page_parent p = notion_blog_posts_id inputs \<and>
                 prop_Status p = ''Ready for Research'') (enumerate 0 (pages w))
         = (topicId, topic) # other_topics \<and>
       title_plain_text topic = Some topicTitle \<and> topicTitle \<noteq> [] \<and>
       faults env (Suc (clock w)) = None \<and>
       research_outcome (perplexity env (Suc (Suc (clock w)))
         (script_research_prompt inputs topicTitle)) = Inl research_error \<longrightarrow>
      fst (research_run env inputs w) =
        Some (''Research workflow failed: '' @ err_message research_error) \<and>
      pages (snd (research_run env inputs w)) =
        (pages w)[topicId := (pages w ! topicId)\<lparr>prop_Status := ''Research In Progress''\<rparr>])
   \<and> (notion_api_key inputs \<noteq> [] \<and> notion_blog_posts_id inputs \<noteq> [] \<and>
       notion_drafts_id inputs \<noteq> [] \<and> anthropic_api_key inputs \<noteq> [] \<and>
       faults env (clock w) = None \<and>
       filter (\<lambda>(i, p). page_parent p = notion_drafts_id inputs \<and>
                 prop_Status p = ''Ready to Start'') (enumerate 0 (pages w))
         = (draftId, draft) # other_drafts \<and>
       faults env (Suc (clock w)) = None \<and>
       title_plain_text draft = Some draftTitle \<and> draftTitle \<noteq> [] \<and>
       toMarkdownString env (page_children draft) \<noteq> [] \<and>
       faults env (Suc (Suc (clock w))) = None \<and>
       (first_relation draft = None \<or>
        (\<exists>b. first_relation draft = Some b \<and> b < length (pages w) \<and>
             faults env (Suc (Suc (Suc (clock w)))) = None)) \<and>
       draft_outcome (anthropic env
         (case first_relation draft of
            None \<Rightarrow> Suc (Suc (Suc (clock w)))
          | Some b \<Rightarrow> Suc (Suc (Suc (Suc (clock w)))))
         (script_user_prompt inputs draftTitle (toMarkdownString env (page_children draft))))
         = Inl draft_error \<longrightarrow>
      fst (draft_run env inputs w) =
        Some (''Draft writing workflow failed: '' @ err_message draft_error) \<and>
      pages (snd (draft_run env inputs w)) =
        (let ps = (pages w)[draftId :=
                    (pages w ! draftId)\<lparr>prop_Status := ''Writing in Progress''\<rparr>]
         in case first_relation draft of
              None \<Rightarrow> ps
            | Some b \<Rightarrow> ps[b := (ps ! b)\<lparr>prop_Status := ''Draft In Progress''\<rparr>]))"
  (is "?dead \<and> ?research \<and> ?draft")
proof -
  have dead: ?dead
  proof
    assume plain: "library_errors_plain env"
    from research_run_dead_branch [OF plain, of inputs w]
      draft_run_dead_branch [OF plain, of inputs w]
      research_run_try_plain [of env inputs w e1 w1] draft_run_try_plain [of env inputs w e2 w2]
      plain
    show "(research_run_try env inputs w = (Inl e1, w1) \<longrightarrow> err_topicId e1 = None) \<and>
      (draft_run_try env inputs w = (Inl e2, w2) \<longrightarrow> err_draftId e2 = None) \<and>
      research_run env inputs w =
        (case research_run_try env inputs w of
           (Inr u, w') \<Rightarrow> (None, w')
         | (Inl error, w') \<Rightarrow>
             (Some (''Research workflow failed: '' @ err_message error), w')) \<and>
      draft_run env inputs w =
        (case draft_run_try env inputs w of
           (Inr u, w') \<Rightarrow> (None, w')
         | (Inl error, w') \<Rightarrow>
             (Some (''Draft writing workflow failed: '' @ err_message error), w'))"
      by (simp add: plain_error_def)
  qed
  have research: ?research
    using research_run_provider_failure
      [of inputs env w topicId topic other_topics topicTitle research_error]
    by blast
  have draft: ?draft
    using draft_run_provider_failure
      [of inputs env w draftId draft other_drafts draftTitle draft_error]
    by blast
  from dead research draft show ?thesis by (intro conjI)
qed

text \<open>Both providers fail on the sample data.\<close>

theorem C10_witness:
  "library_errors_plain failing_providers
   \<and> fst (research_run failing_providers sample_inputs sample_world) =
       Some ''Research workflow failed: No response received from Perplexity API''
   \<and> pages (snd (research_run failing_providers sample_inputs sample_world)) =
       [topic_Foo\<lparr>prop_Status := ''Research In Progress''\<rparr>, brief_Foo]
   \<and> fst (draft_run failing_providers sample_inputs sample_world) =
       Some ''Draft writing workflow failed: Claude API error: Overloaded''
   \<and> pages (snd (draft_run failing_providers sample_inputs sample_world)) =
       [topic_Foo\<lparr>prop_Status := ''Draft In Progress''\<rparr>,
        brief_Foo\<lparr>prop_Status := ''Writing in Progress''\<rparr>]"
proof -
  note at_sample = C10_recovery_unreachable
    [where env = failing_providers and inputs = sample_inputs and w = sample_world
       and topicId = 0 and topic = topic_Foo and other_topics = "[]"
       and topicTitle = "''Foo''"
       and research_error = "new_Error ''No response received from Perplexity API''"
       and draftId = 1 and draft = brief_Foo and other_drafts = "[]"
       and draftTitle = "''Foo''"
       and draft_error = "new_Error ''Claude API error: Overloaded''"
       and ?e1.0 = "new_Error ''No response received from Perplexity API''"
       and ?w1.0 = sample_world
       and ?e2.0 = "new_Error ''Claude API error: Overloaded''"
       and ?w2.0 = sample_world]
  have plain: "library_errors_plain failing_providers"
    by (simp add: library_errors_plain_def sample_defs)
  have research:
    "fst (research_run failing_providers sample_inputs sample_world) =
       Some (''Research workflow failed: '' @
         err_message (new_Error ''No response received from Perplexity API'')) \<and>
     pages (snd (research_run failing_providers sample_inputs sample_world)) =
       (pages sample_world)[0 := (pages sample_world ! 0)
          \<lparr>prop_Status := ''Research In Progress''\<rparr>]"
    by (rule at_sample [THEN conjunct2, THEN conjunct1, THEN mp])
       (simp add: title_plain_text_def research_outcome_def sample_defs)
  have draft:
    "fst (draft_run failing_providers sample_inputs sample_world) =
       Some (''Draft writing workflow failed: '' @
         err_message (new_Error ''Claude API error: Overloaded'')) \<and>
     pages (snd (draft_run failing_providers sample_inputs sample_world)) =
       (let ps = (pages sample_world)[1 := (pages sample_world ! 1)
                   \<lparr>prop_Status := ''Writing in Progress''\<rparr>]
        in case first_relation brief_Foo of
             None \<Rightarrow> ps
           | Some b \<Rightarrow> ps[b := (ps ! b)\<lparr>prop_Status := ''Draft In Progress''\<rparr>])"
    by (rule at_sample [THEN conjunct2, THEN conjunct2, THEN mp])
       (simp add: title_plain_text_def first_relation_def draft_outcome_def new_Error_def
          heading_1_def sample_defs)
  from plain research draft show ?thesis
    by (simp add: first_relation_def new_Error_def sample_defs)
qed

end
